theory Spec2Isabelle
  imports Complex_Main
begin

section \<open>Values shared by the drag behaviour and the graph runtime\<close>

text \<open>
  Item ids (\<^verbatim>\<open>ID\<close> of graphlib) are strings. JavaScript numbers are idealised as
  real numbers: the claims below concern sums of a few small decimal constants, where the
  rounding of doubles plays no part.
\<close>

type_synonym ID = string

text \<open>\<^verbatim>\<open>Point\<close>: the canvas coordinates of a pointer event.\<close>

record Point =
  pt_x :: real
  pt_y :: real

text \<open>The \<^verbatim>\<open>data\<close> of a node model, as far as the behaviour reads or writes it.\<close>

record NodeData =
  node_x :: real
  node_y :: real
  node_parentId :: "ID option"
  node_preventPolylineEdgeOverlap :: bool

text \<open>The \<^verbatim>\<open>data\<close> of a combo model: its parent and the \<^verbatim>\<open>_isCombo\<close> mark.\<close>

record ComboData =
  combo_parentId :: "ID option"
  combo_isCombo :: bool

text \<open>
  An edge model. \<open>edge_avoid\<close> stands for what \<^verbatim>\<open>isPolylineWithObstacleAvoidance\<close>
  answers for the edge (the helper lives in \<^verbatim>\<open>utils/polyline\<close>).
\<close>

record EdgeModel =
  edge_id :: ID
  edge_source :: ID
  edge_target :: ID
  edge_avoid :: bool

text \<open>A rendered bounding box: \<^verbatim>\<open>bbox.min\<close> and \<^verbatim>\<open>bbox.max\<close>.\<close>

record BBox =
  minX :: real
  minY :: real
  maxX :: real
  maxY :: real

text \<open>
  \<^verbatim>\<open>Position\<close>: one entry of the snapshot taken when a drag starts. The four box fields
  of the source are present together or not at all, so they are one optional box.
\<close>

record Position =
  pos_id :: ID
  pos_x :: real
  pos_y :: real
  pos_bbox :: "BBox option"

text \<open>
  An event as the handlers read it: canvas coordinates, the item under the pointer, the
  key of a keyboard event, the value of \<^verbatim>\<open>Date.now()\<close> while it is handled, and the
  \<^verbatim>\<open>data-item-id\<close> attributes of the elements under the pointer, topmost first (what
  \<^verbatim>\<open>elementsFromPoint\<close> resolves to for the drop handlers).
\<close>

record Event =
  canvas :: Point
  itemId :: "ID option"
  key :: string
  now :: int
  hits :: "ID option list"

text \<open>The exceptions a handler can end with.\<close>

datatype error = TypeError | NonTermination

definition bindE :: "error + 'a \<Rightarrow> ('a \<Rightarrow> error + 'b) \<Rightarrow> error + 'b" where
  "bindE m f = (case m of Inl e \<Rightarrow> Inl e | Inr v \<Rightarrow> f v)"

text \<open>\<^verbatim>\<open>uniq\<close> of \<^verbatim>\<open>@antv/util\<close>: the first occurrence of every element, in order.\<close>

fun uniq_acc :: "'a list \<Rightarrow> 'a list \<Rightarrow> 'a list" where
  "uniq_acc r [] = r"
| "uniq_acc r (item # arr) = (if item \<in> set r then uniq_acc r arr else uniq_acc (r @ [item]) arr)"

definition uniq :: "'a list \<Rightarrow> 'a list" where
  "uniq arr = uniq_acc [] arr"

text \<open>JavaScript truthiness of an optional id: \<^verbatim>\<open>undefined\<close> and the empty string are falsy.\<close>

fun truthy_id :: "ID option \<Rightarrow> bool" where
  "truthy_id None = False"
| "truthy_id (Some i) = (i \<noteq> [])"

section \<open>The graph runtime\<close>

text \<open>
  The transient layer holds primitives keyed by kind and id. What \<^verbatim>\<open>moveDelegate\<close>
  computes for the rectangle is finite only when every snapshot entry has a box and the
  snapshot is not empty: \<^verbatim>\<open>Math.min()\<close> of no argument is \<^verbatim>\<open>Infinity\<close>, and of an
  \<^verbatim>\<open>undefined\<close> argument \<^verbatim>\<open>NaN\<close>.
\<close>

datatype transient_kind = TNode | TEdge | TCombo | TRect

datatype rect_geom =
    Rect real real real real
  | RectNaN
  | RectInfinite

datatype transient_cfg =
    NodeT "(real \<times> real) option" bool
  | EdgeT
  | RectT rect_geom "(string \<times> string) list"

text \<open>
  The graph the behaviour works on. The class \<^verbatim>\<open>Graph\<close> is not part of the sources at
  hand; its read queries are fields of this record, and its write operations are the
  definitions that follow.
  \<^item> \<open>nodeData\<close>, \<open>comboData\<close>: \<^verbatim>\<open>getNodeData\<close>, \<^verbatim>\<open>getComboData\<close>;
  \<^item> \<open>getRelatedEdgesData\<close>, \<open>getNeighborNodesData\<close> (the ids of the neighbours in both
    directions), \<open>getNearEdgesData\<close> (the quad-tree query, given the edge filter),
    \<open>getRenderBBox\<close>, \<open>findIdByState\<close> (for node items);
  \<^item> \<open>graphComboTreeDfs\<close>: the ids \<^verbatim>\<open>graphComboTreeDfs\<close> visits from the given roots;
  \<^item> \<open>shapeIds\<close>: all sub-shape ids of an item; \<open>visibleShapeIds\<close>:
    \<^verbatim>\<open>getItemVisibleShapeIds\<close>; \<open>itemVisible\<close>: \<^verbatim>\<open>getItemVisible\<close>;
  \<^item> \<open>transients\<close>: the transient layer; \<open>frontOrder\<close>: the items raised by
    \<^verbatim>\<open>frontItem\<close>, in order; \<open>emitted\<close>: the events emitted, in order, with the
    \<^verbatim>\<open>itemIds\<close> of their payload.
\<close>

record Graph =
  nodeData :: "ID \<rightharpoonup> NodeData"
  comboData :: "ID \<rightharpoonup> ComboData"
  getRelatedEdgesData :: "ID \<Rightarrow> EdgeModel list"
  getNeighborNodesData :: "ID \<Rightarrow> ID list"
  getNearEdgesData :: "ID \<Rightarrow> (EdgeModel \<Rightarrow> bool) \<Rightarrow> EdgeModel list"
  getRenderBBox :: "ID \<rightharpoonup> BBox"
  findIdByState :: "string \<Rightarrow> ID list"
  graphComboTreeDfs :: "ID list \<Rightarrow> ID list"
  rendererType :: string
  shapeIds :: "ID \<Rightarrow> string list"
  visibleShapeIds :: "ID \<Rightarrow> string list"
  itemVisible :: "ID \<Rightarrow> bool"
  transients :: "(transient_kind \<times> ID) \<rightharpoonup> transient_cfg"
  frontOrder :: "ID list"
  emitted :: "(string \<times> ID list) list"

text \<open>
  Modelled from the spec: \<^verbatim>\<open>Graph.updateNodePosition\<close>, the batch position update of the
  runtime. Every change of an existing node sets its coordinates; a change of an id the
  graph does not hold is skipped. The completion callback is scheduled by the caller
  (\<open>moveNodes\<close> below).
\<close>

definition updatePosition1 :: "ID \<times> real \<times> real \<Rightarrow> (ID \<rightharpoonup> NodeData) \<Rightarrow> (ID \<rightharpoonup> NodeData)" where
  "updatePosition1 c m =
     (case m (fst c) of
        None \<Rightarrow> m
      | Some n \<Rightarrow> m(fst c \<mapsto> n\<lparr>node_x := fst (snd c), node_y := snd (snd c)\<rparr>))"

definition updateNodePosition :: "(ID \<times> real \<times> real) list \<Rightarrow> Graph \<Rightarrow> Graph" where
  "updateNodePosition changes g = g\<lparr>nodeData := fold updatePosition1 changes (nodeData g)\<rparr>"

text \<open>
  Modelled from the spec: \<^verbatim>\<open>Graph.updateData('node', ...)\<close>, the structural data update
  that sets the parent of existing nodes.
\<close>

definition updateParent1 :: "ID \<times> ID option \<Rightarrow> (ID \<rightharpoonup> NodeData) \<Rightarrow> (ID \<rightharpoonup> NodeData)" where
  "updateParent1 c m =
     (case m (fst c) of
        None \<Rightarrow> m
      | Some n \<Rightarrow> m(fst c \<mapsto> n\<lparr>node_parentId := snd c\<rparr>))"

definition updateData :: "(ID \<times> ID option) list \<Rightarrow> Graph \<Rightarrow> Graph" where
  "updateData changes g = g\<lparr>nodeData := fold updateParent1 changes (nodeData g)\<rparr>"

text \<open>
  Modelled from the spec: \<^verbatim>\<open>Graph.hideItem\<close> and \<^verbatim>\<open>Graph.showItem\<close>, the visibility
  operations. Hiding leaves no sub-shape of the item visible. Showing with a list of
  sub-shape ids makes those sub-shapes of the item visible, beside the ones that are;
  showing without one is the default restore, which makes every sub-shape visible.
  The options \<^verbatim>\<open>disableAnimate\<close> and \<^verbatim>\<open>keepRelated\<close> have no part in this.
\<close>

definition hideItem1 :: "ID \<Rightarrow> Graph \<Rightarrow> Graph" where
  "hideItem1 i g = g\<lparr>visibleShapeIds := (visibleShapeIds g)(i := []),
                      itemVisible := (itemVisible g)(i := False)\<rparr>"

definition hideItem :: "ID list \<Rightarrow> Graph \<Rightarrow> Graph" where
  "hideItem ids g = fold hideItem1 ids g"

definition showItem :: "ID \<Rightarrow> string list option \<Rightarrow> Graph \<Rightarrow> Graph" where
  "showItem i shapes g =
     g\<lparr>visibleShapeIds := (visibleShapeIds g)(i :=
          (case shapes of
             None \<Rightarrow> shapeIds g i
           | Some s \<Rightarrow> filter (\<lambda>sh. sh \<in> set (visibleShapeIds g i) \<or> sh \<in> set s) (shapeIds g i))),
        itemVisible := (itemVisible g)(i := True)\<rparr>"

text \<open>
  Modelled from the spec: \<^verbatim>\<open>Graph.drawTransient\<close> (draw or redraw a transient primitive,
  or remove it with \<^verbatim>\<open>action: 'remove'\<close>), \<^verbatim>\<open>Graph.frontItem\<close> and \<^verbatim>\<open>Graph.emit\<close>.
\<close>

definition drawTransient :: "transient_kind \<Rightarrow> ID \<Rightarrow> transient_cfg \<Rightarrow> Graph \<Rightarrow> Graph" where
  "drawTransient k i cfg g = g\<lparr>transients := (transients g)((k, i) \<mapsto> cfg)\<rparr>"

definition removeTransient :: "transient_kind \<Rightarrow> ID \<Rightarrow> Graph \<Rightarrow> Graph" where
  "removeTransient k i g = g\<lparr>transients := (transients g)((k, i) := None)\<rparr>"

definition frontItem :: "ID list \<Rightarrow> Graph \<Rightarrow> Graph" where
  "frontItem ids g = g\<lparr>frontOrder := frontOrder g @ ids\<rparr>"

definition emit :: "string \<Rightarrow> ID list \<Rightarrow> Graph \<Rightarrow> Graph" where
  "emit name ids g = g\<lparr>emitted := emitted g @ [(name, ids)]\<rparr>"

section \<open>Options of the drag behaviour\<close>

text \<open>
  A property of the options object passed to the constructor is absent, present with the
  value \<^verbatim>\<open>undefined\<close>, or present with a value. \<^verbatim>\<open>Object.assign\<close> copies every own
  property, also one that is \<^verbatim>\<open>undefined\<close>.
\<close>

datatype 'a js_prop = Absent | Undefined | Given 'a

record DragNodeOptions =
  p_enableTransient :: "bool js_prop"
  p_enableDelegate :: "bool js_prop"
  p_delegateStyle :: "(string \<times> string) list js_prop"
  p_throttle :: "int js_prop"
  p_hideRelatedEdges :: "bool js_prop"
  p_selectedState :: "string js_prop"
  p_eventName :: "string js_prop"
  p_updateComboStructure :: "bool js_prop"
  p_shouldBegin :: "(Event \<Rightarrow> bool) js_prop"

text \<open>
  The options the behaviour holds. The code only ever tests the booleans, the throttle
  and the event name for truthiness or compares them, so an \<^verbatim>\<open>undefined\<close> value is held
  as the falsy value of its type; \<open>shouldBegin\<close> is called, and calling \<^verbatim>\<open>undefined\<close>
  throws, so it stays optional.
\<close>

record Options =
  enableTransient :: bool
  enableDelegate :: bool
  delegateStyle :: "(string \<times> string) list"
  throttle :: int
  hideRelatedEdges :: bool
  selectedState :: string
  eventName :: string
  updateComboStructure :: bool
  shouldBegin :: "(Event \<Rightarrow> bool) option"

definition DEFAULT_OPTIONS :: Options where
  "DEFAULT_OPTIONS =
     \<lparr>enableTransient = True,
      enableDelegate = False,
      delegateStyle = [(''fill'', ''#F3F9FF''), (''fillOpacity'', ''0.5''), (''stroke'', ''#1890FF''),
                       (''strokeOpacity'', ''0.9''), (''lineDash'', ''[5, 5]'')],
      throttle = 16,
      hideRelatedEdges = False,
      selectedState = ''selected'',
      eventName = '''',
      updateComboStructure = True,
      shouldBegin = Some (\<lambda>_. True)\<rparr>"

fun assign :: "'a \<Rightarrow> 'a \<Rightarrow> 'a js_prop \<Rightarrow> 'a" where
  "assign falsy dflt Absent = dflt"
| "assign falsy dflt Undefined = falsy"
| "assign falsy dflt (Given v) = v"

fun assign_fn :: "(Event \<Rightarrow> bool) option \<Rightarrow> (Event \<Rightarrow> bool) js_prop \<Rightarrow> (Event \<Rightarrow> bool) option" where
  "assign_fn dflt Absent = dflt"
| "assign_fn dflt Undefined = None"
| "assign_fn dflt (Given f) = Some f"

text \<open>\<^verbatim>\<open>Object.assign({}, DEFAULT_OPTIONS, options)\<close>.\<close>

definition Object_assign :: "Options \<Rightarrow> DragNodeOptions \<Rightarrow> Options" where
  "Object_assign d p =
     \<lparr>enableTransient = assign False (enableTransient d) (p_enableTransient p),
      enableDelegate = assign False (enableDelegate d) (p_enableDelegate p),
      delegateStyle = assign [] (delegateStyle d) (p_delegateStyle p),
      throttle = assign 0 (throttle d) (p_throttle p),
      hideRelatedEdges = assign False (hideRelatedEdges d) (p_hideRelatedEdges p),
      selectedState = assign '''' (selectedState d) (p_selectedState p),
      eventName = assign '''' (eventName d) (p_eventName p),
      updateComboStructure = assign False (updateComboStructure d) (p_updateComboStructure p),
      shouldBegin = assign_fn (shouldBegin d) (p_shouldBegin p)\<rparr>"

text \<open>The constructor of \<^verbatim>\<open>DragNode\<close>: the options it hands to \<^verbatim>\<open>super\<close>.\<close>

definition DragNode_constructor :: "DragNodeOptions \<Rightarrow> Options" where
  "DragNode_constructor options =
     (let finalOptions = Object_assign DEFAULT_OPTIONS options;
          finalOptions = (if enableDelegate finalOptions
                          then finalOptions\<lparr>enableTransient := False\<rparr> else finalOptions);
          finalOptions = (if enableDelegate finalOptions \<or> enableTransient finalOptions
                          then finalOptions\<lparr>hideRelatedEdges := False\<rparr> else finalOptions)
      in finalOptions)"

section \<open>The drag behaviour: state\<close>

text \<open>
  \<^verbatim>\<open>throttle(this.moveNodes, wait, { leading: true, trailing: true })\<close> of the
  library \<^verbatim>\<open>@antv/util\<close>, as an explicit timer-gated closure: the time of the last call
  that went through, the time the trailing timer is due, and the arguments of the latest
  call. A call outside the window goes through at once (leading); a call inside it is
  kept and delivered by the timer at the end of the window (trailing). \<open>Unset\<close> is the
  initial \<^verbatim>\<open>throttledMoveNodes\<close>, which does nothing; \<open>Direct\<close> is \<^verbatim>\<open>this.moveNodes\<close>
  itself.
\<close>

record throttle_state =
  th_wait :: int
  th_previous :: int
  th_timeout :: "int option"
  th_args :: "(real \<times> real \<times> bool \<times> bool) option"

datatype throttled = Unset | Direct | Throttled throttle_state

text \<open>
  The private state of \<^verbatim>\<open>DragNode\<close>, with the options and the graph it works on.
  \<^item> \<open>hiddenRelatedNodes\<close> holds the ids of the node models (only their ids are read);
  \<^item> \<open>hiddenComboTreeItems\<close> holds the combo models by id and data;
  \<^item> \<open>originX\<close>, \<open>originY\<close> are declared without a value in the source; they are
    assigned when a drag starts and read only in deltas applied to \<open>originPositions\<close>;
  \<^item> \<open>debounced\<close>: the calls of the debounced pointer-up callbacks whose timers have not
    fired yet, each with the \<^verbatim>\<open>enableTransient\<close> its closure captured and the
    positions it was called with;
  \<^item> \<open>mouseupOnce\<close>: the one-shot \<^verbatim>\<open>mouseup\<close> listeners added to the document, each with
    the event it captured;
  \<^item> \<open>warnings\<close>: the messages passed to \<^verbatim>\<open>warn\<close>.
\<close>

record DragNode =
  options :: Options
  graph :: Graph
  hiddenEdges :: "EdgeModel list"
  hiddenRelatedNodes :: "ID list"
  selectedNodeIds :: "ID list"
  hiddenNearEdges :: "EdgeModel list"
  hiddenComboTreeItems :: "(ID \<times> ComboData) list"
  originX :: real
  originY :: real
  originPositions :: "Position list"
  pointerDown :: "Point option"
  dragging :: bool
  hiddenNearEdgesCache :: "EdgeModel list"
  hiddenShapeCache :: "ID \<rightharpoonup> string list"
  throttledMoveNodes :: throttled
  debounced :: "(bool \<times> Position list) list"
  mouseupOnce :: "Event list"
  warnings :: "string list"

definition DELEGATE_SHAPE_ID :: ID where
  "DELEGATE_SHAPE_ID = ''g6-drag-node-delegate-shape''"

text \<open>
  \<^verbatim>\<open>this.options.enableTransient && this.graph.rendererType !== 'webgl-3d'\<close>, which
  several methods compute.
\<close>

definition enableTransientNow :: "DragNode \<Rightarrow> bool" where
  "enableTransientNow this =
     (enableTransient (options this) \<and> rendererType (graph this) \<noteq> ''webgl-3d'')"

section \<open>The drag behaviour: queries\<close>

definition getRelatedEdges :: "DragNode \<Rightarrow> ID list \<Rightarrow> (ID \<times> ComboData) list \<Rightarrow> EdgeModel list" where
  "getRelatedEdges this selectedNodeIds' relatedCombo =
     (let relatedNodeComboIds = graphComboTreeDfs (graph this) (map fst relatedCombo)
      in uniq (concat (map (getRelatedEdgesData (graph this))
                         (selectedNodeIds' @ relatedNodeComboIds))))"

definition getRelatedNodes :: "DragNode \<Rightarrow> ID list \<Rightarrow> ID list" where
  "getRelatedNodes this selectedNodeIds' =
     concat (map (\<lambda>i. filter (\<lambda>neighbor. neighbor \<notin> set selectedNodeIds')
                           (getNeighborNodesData (graph this) i))
                 selectedNodeIds')"

definition getNearEdgesForNodes :: "DragNode \<Rightarrow> ID list \<Rightarrow> (EdgeModel \<Rightarrow> bool) \<Rightarrow> EdgeModel list" where
  "getNearEdgesForNodes this nodeIds shouldBegin' =
     uniq (concat (map (\<lambda>nodeId. getNearEdgesData (graph this) nodeId shouldBegin') nodeIds))"

text \<open>
  The \<^verbatim>\<open>while (parentId)\<close> loop of \<^verbatim>\<open>getComboTreeItems\<close>: it climbs the parents of a
  combo and pushes each one it finds. On a cyclic parent chain it does not return.
\<close>

partial_function (option) ancestorLoop ::
    "Graph \<Rightarrow> ID option \<Rightarrow> (ID \<times> ComboData) list \<Rightarrow> (ID \<times> ComboData) list option" where
  "ancestorLoop g parentId ancestors =
     (case parentId of
        None \<Rightarrow> Some ancestors
      | Some p \<Rightarrow>
          if p = [] then Some ancestors
          else (case comboData g p of
                  None \<Rightarrow> Some ancestors
                | Some parentData \<Rightarrow>
                    ancestorLoop g (combo_parentId parentData) (ancestors @ [(p, parentData)])))"

declare ancestorLoop.simps [code]

text \<open>
  The \<^verbatim>\<open>forEach\<close> of \<^verbatim>\<open>getComboTreeItems\<close>. \<^verbatim>\<open>nodeData.data\<close> is read without a test,
  so an id the graph does not hold throws.
\<close>

fun comboTreeEach :: "Graph \<Rightarrow> ID list \<Rightarrow> (ID \<times> ComboData) list \<Rightarrow> error + (ID \<times> ComboData) list" where
  "comboTreeEach g [] ancestors = Inr ancestors"
| "comboTreeEach g (i # ids) ancestors =
     (case nodeData g i of
        None \<Rightarrow> Inl TypeError
      | Some n \<Rightarrow>
          (case ancestorLoop g (node_parentId n) ancestors of
             None \<Rightarrow> Inl NonTermination
           | Some ancestors' \<Rightarrow> comboTreeEach g ids ancestors'))"

definition getComboTreeItems :: "DragNode \<Rightarrow> ID list \<Rightarrow> error + (ID \<times> ComboData) list" where
  "getComboTreeItems this selectedNodeIds' =
     (if updateComboStructure (options this) then Inr []
      else bindE (comboTreeEach (graph this) selectedNodeIds' [])
             (\<lambda>ancestors. Inr (filter (\<lambda>item. itemVisible (graph this) (fst item)) (uniq ancestors))))"

text \<open>
  Modelled from the spec: \<^verbatim>\<open>isPointPreventPolylineOverlap\<close> of \<^verbatim>\<open>utils/polyline\<close>, which
  tells whether a node is flagged to prevent polyline overlap.
\<close>

fun isPointPreventPolylineOverlap :: "NodeData option \<Rightarrow> bool" where
  "isPointPreventPolylineOverlap None = False"
| "isPointPreventPolylineOverlap (Some n) = node_preventPolylineEdgeOverlap n"

definition isPolylineWithObstacleAvoidance :: "EdgeModel \<Rightarrow> bool" where
  "isPolylineWithObstacleAvoidance edge = edge_avoid edge"

section \<open>The drag behaviour: moving\<close>

text \<open>
  \<^verbatim>\<open>moveNodes\<close>. In the transient branch the snapshot positions, moved by the delta, go
  to the transient layer. Otherwise they go to the node data, and the completion callback
  of \<^verbatim>\<open>updateNodePosition\<close> calls \<^verbatim>\<open>callback\<close>, when there is one, with a copy of the
  snapshot.
\<close>

definition moveNodes ::
    "real \<Rightarrow> real \<Rightarrow> bool \<Rightarrow> bool \<Rightarrow> (Position list \<Rightarrow> DragNode \<Rightarrow> DragNode) option
      \<Rightarrow> DragNode \<Rightarrow> DragNode" where
  "moveNodes deltaX deltaY transient upsertAncestors callback this =
     (if transient then
        this\<lparr>graph :=
          fold (\<lambda>edge. drawTransient TEdge (edge_id edge) EdgeT) (hiddenEdges this)
            (fold (\<lambda>p. drawTransient TNode (pos_id p)
                          (NodeT (Some (pos_x p + deltaX, pos_y p + deltaY)) upsertAncestors))
               (originPositions this) (graph this))\<rparr>
      else
        (let positionChanges =
               map (\<lambda>p. (pos_id p, pos_x p + deltaX, pos_y p + deltaY)) (originPositions this);
             positions = originPositions this;
             this = this\<lparr>graph := updateNodePosition positionChanges (graph this)\<rparr>
         in case callback of None \<Rightarrow> this | Some cb \<Rightarrow> cb positions this))"

text \<open>A call of \<^verbatim>\<open>this.throttledMoveNodes\<close> at time \<open>t\<close>.\<close>

definition applyMove :: "real \<times> real \<times> bool \<times> bool \<Rightarrow> DragNode \<Rightarrow> DragNode" where
  "applyMove a this = moveNodes (fst a) (fst (snd a)) (fst (snd (snd a))) (snd (snd (snd a))) None this"

definition callThrottled :: "int \<Rightarrow> real \<times> real \<times> bool \<times> bool \<Rightarrow> DragNode \<Rightarrow> DragNode" where
  "callThrottled t a this =
     (case throttledMoveNodes this of
        Unset \<Rightarrow> this
      | Direct \<Rightarrow> applyMove a this
      | Throttled s \<Rightarrow>
          (let remaining = th_wait s - (t - th_previous s)
           in if remaining \<le> 0 \<or> remaining > th_wait s then
                applyMove a (this\<lparr>throttledMoveNodes :=
                  Throttled (s\<lparr>th_timeout := None, th_previous := t, th_args := None\<rparr>)\<rparr>)
              else if th_timeout s = None then
                this\<lparr>throttledMoveNodes :=
                  Throttled (s\<lparr>th_timeout := Some (t + remaining), th_args := Some a\<rparr>)\<rparr>
              else
                this\<lparr>throttledMoveNodes := Throttled (s\<lparr>th_args := Some a\<rparr>)\<rparr>))"

text \<open>The trailing timer of the throttle fires at time \<open>t\<close>.\<close>

definition throttleTimer :: "int \<Rightarrow> DragNode \<Rightarrow> DragNode" where
  "throttleTimer t this =
     (case throttledMoveNodes this of
        Throttled s \<Rightarrow>
          (case (th_timeout s, th_args s) of
             (Some due, Some a) \<Rightarrow>
               if due \<le> t then
                 applyMove a (this\<lparr>throttledMoveNodes :=
                   Throttled (s\<lparr>th_timeout := None, th_previous := t, th_args := None\<rparr>)\<rparr>)
               else this
           | _ \<Rightarrow> this)
      | _ \<Rightarrow> this)"

text \<open>
  \<^verbatim>\<open>moveDelegate\<close>: the rectangle around the boxes of the snapshot, moved by the delta.
\<close>

fun boxes_of :: "Position list \<Rightarrow> BBox list option" where
  "boxes_of [] = Some []"
| "boxes_of (p # ps) =
     (case pos_bbox p of
        None \<Rightarrow> None
      | Some b \<Rightarrow> (case boxes_of ps of None \<Rightarrow> None | Some bs \<Rightarrow> Some (b # bs)))"

definition delegateRect :: "real \<Rightarrow> real \<Rightarrow> Position list \<Rightarrow> rect_geom" where
  "delegateRect deltaX deltaY ps =
     (case boxes_of ps of
        None \<Rightarrow> RectNaN
      | Some [] \<Rightarrow> RectInfinite
      | Some (b # bs) \<Rightarrow>
          (let x1 = fold min (map minX bs) (minX b);
               y1 = fold min (map minY bs) (minY b);
               x2 = fold max (map maxX bs) (maxX b);
               y2 = fold max (map maxY bs) (maxY b)
           in Rect (x1 + deltaX) (y1 + deltaY) (x2 - x1) (y2 - y1)))"

definition moveDelegate :: "real \<Rightarrow> real \<Rightarrow> DragNode \<Rightarrow> DragNode" where
  "moveDelegate deltaX deltaY this =
     this\<lparr>graph := drawTransient TRect DELEGATE_SHAPE_ID
          (RectT (delegateRect deltaX deltaY (originPositions this)) (delegateStyle (options this)))
          (graph this)\<rparr>"

definition clearDelegate :: "DragNode \<Rightarrow> DragNode" where
  "clearDelegate this = this\<lparr>graph := removeTransient TRect DELEGATE_SHAPE_ID (graph this)\<rparr>"

definition clearTransientItems :: "Position list \<Rightarrow> DragNode \<Rightarrow> DragNode" where
  "clearTransientItems positions this =
     this\<lparr>graph :=
       fold (\<lambda>p. removeTransient TNode (pos_id p)) positions
         (fold (\<lambda>item. removeTransient (if combo_isCombo (snd item) then TCombo else TNode) (fst item))
            (hiddenComboTreeItems this)
            (fold (\<lambda>edge. removeTransient TEdge (edge_id edge)) (hiddenNearEdges this)
               (fold (\<lambda>edge g. removeTransient TEdge (edge_id edge)
                                  (removeTransient TNode (edge_target edge)
                                     (removeTransient TNode (edge_source edge) g)))
                  (hiddenEdges this) (graph this))))\<rparr>"

section \<open>The drag behaviour: hiding and restoring\<close>

text \<open>
  The idiom the drag start repeats for every group of items it hides: remember the visible
  sub-shapes of each id in \<^verbatim>\<open>hiddenShapeCache\<close>, then hide the ids.
\<close>

definition cacheShapes :: "ID list \<Rightarrow> DragNode \<Rightarrow> DragNode" where
  "cacheShapes ids this =
     this\<lparr>hiddenShapeCache :=
       fold (\<lambda>i c. c(i \<mapsto> visibleShapeIds (graph this) i)) ids (hiddenShapeCache this)\<rparr>"

definition hideItems :: "ID list \<Rightarrow> DragNode \<Rightarrow> DragNode" where
  "hideItems ids this = this\<lparr>graph := hideItem ids (graph this)\<rparr>"

text \<open>
  One step of the restoring loops: \<^verbatim>\<open>showItem\<close> with \<^verbatim>\<open>shapeIds:
  this.hiddenShapeCache.get(id)\<close> (\<^verbatim>\<open>undefined\<close> when the cache has no entry), or with
  no \<^verbatim>\<open>shapeIds\<close> at all; then the cache entry is deleted.
\<close>

definition showCached :: "ID \<Rightarrow> DragNode \<Rightarrow> DragNode" where
  "showCached i this =
     this\<lparr>graph := showItem i (hiddenShapeCache this i) (graph this),
          hiddenShapeCache := (hiddenShapeCache this)(i := None)\<rparr>"

definition showDefault :: "ID \<Rightarrow> DragNode \<Rightarrow> DragNode" where
  "showDefault i this =
     this\<lparr>graph := showItem i None (graph this),
          hiddenShapeCache := (hiddenShapeCache this)(i := None)\<rparr>"

text \<open>
  \<^verbatim>\<open>restoreHiddenItems(positions?)\<close>, block by block. The tests on \<^verbatim>\<open>length\<close> of the
  source guard loops and assignments that do nothing on an empty list. The related
  edges, the related nodes and the combo tree items are shown with their cached
  sub-shapes; the near edges are shown without \<^verbatim>\<open>shapeIds\<close>.
\<close>

definition restoreEdges :: "DragNode \<Rightarrow> DragNode" where
  "restoreEdges this =
     (fold showCached (map edge_id (hiddenEdges this)) this)\<lparr>hiddenEdges := []\<rparr>"

definition restoreNeighbours :: "DragNode \<Rightarrow> DragNode" where
  "restoreNeighbours this =
     (fold showCached (hiddenRelatedNodes this) this)\<lparr>hiddenRelatedNodes := []\<rparr>"

definition restoreNearEdges :: "DragNode \<Rightarrow> DragNode" where
  "restoreNearEdges this =
     (fold showDefault (map edge_id (hiddenNearEdges this)) this)\<lparr>hiddenNearEdges := []\<rparr>"

definition restoreComboTree :: "DragNode \<Rightarrow> DragNode" where
  "restoreComboTree this =
     (fold showCached (map fst (hiddenComboTreeItems this)) this)\<lparr>hiddenComboTreeItems := []\<rparr>"

text \<open>
  The last block, for transient drawing: the items of
  \<^verbatim>\<open>this.originPositions.concat(positions)\<close> are shown. When no positions are passed, the
  array ends with \<^verbatim>\<open>undefined\<close>, and reading \<^verbatim>\<open>pos.id\<close> of it throws.
\<close>

definition restoreDragged :: "Position list option \<Rightarrow> DragNode \<Rightarrow> error + DragNode" where
  "restoreDragged positions this =
     (if enableTransientNow this then
        (let this = fold showCached (map pos_id (originPositions this)) this
         in case positions of
              None \<Rightarrow> Inl TypeError
            | Some ps \<Rightarrow> Inr (fold showCached (map pos_id ps) this))
      else Inr this)"

definition restoreHiddenItems :: "Position list option \<Rightarrow> DragNode \<Rightarrow> error + DragNode" where
  "restoreHiddenItems positions this =
     restoreDragged positions
       (restoreComboTree (restoreNearEdges (restoreNeighbours (restoreEdges this))))"

definition clearState :: "DragNode \<Rightarrow> DragNode" where
  "clearState this = this\<lparr>originPositions := []\<rparr>"

section \<open>The drag behaviour: handlers\<close>

definition onPointerDown :: "Event \<Rightarrow> DragNode \<Rightarrow> error + DragNode" where
  "onPointerDown event this =
     (case shouldBegin (options this) of
        None \<Rightarrow> Inl TypeError
      | Some f \<Rightarrow>
          if \<not> f event then Inr this
          else Inr (this\<lparr>pointerDown := Some \<lparr>pt_x = pt_x (canvas event), pt_y = pt_y (canvas event)\<rparr>,
                         dragging := False,
                         mouseupOnce := mouseupOnce this @ [event]\<rparr>))"

text \<open>
  The snapshot of the drag start: \<^verbatim>\<open>this.selectedNodeIds.map(...).filter(Boolean)\<close>. An
  id the graph does not hold gives a warning and no entry.
\<close>

definition snapshot1 :: "DragNode \<Rightarrow> ID \<Rightarrow> Position option" where
  "snapshot1 this i =
     (case nodeData (graph this) i of
        None \<Rightarrow> None
      | Some n \<Rightarrow>
          Some \<lparr>pos_id = i, pos_x = node_x n, pos_y = node_y n,
                pos_bbox = (if enableDelegate (options this) then getRenderBBox (graph this) i
                            else None)\<rparr>)"

definition snapshot :: "DragNode \<Rightarrow> DragNode" where
  "snapshot this =
     this\<lparr>originPositions := List.map_filter (snapshot1 this) (selectedNodeIds this),
          warnings := warnings this @
            map (\<lambda>i. ''node with id = \"${id}\" does not exist'')
              (filter (\<lambda>i. nodeData (graph this) i = None) (selectedNodeIds this))\<rparr>"

text \<open>
  The drag start, step by step. Both of its blocks (hiding the related items, and
  drawing transients) start by looking up the related items:
  \<^verbatim>\<open>this.hiddenComboTreeItems = ...; this.hiddenEdges = ...; this.hiddenRelatedNodes = ...\<close>
  (the combo tree items come from \<open>getComboTreeItems\<close>, which can throw).
\<close>

definition findRelated :: "(ID \<times> ComboData) list \<Rightarrow> DragNode \<Rightarrow> DragNode" where
  "findRelated items this =
     (let this = this\<lparr>hiddenComboTreeItems := items\<rparr>;
          this = this\<lparr>hiddenEdges :=
                   getRelatedEdges this (selectedNodeIds this) (hiddenComboTreeItems this)\<rparr>
      in this\<lparr>hiddenRelatedNodes := getRelatedNodes this (selectedNodeIds this)\<rparr>)"

text \<open>
  Each group of items is hidden by the same idiom: cache the visible sub-shapes of the
  ids, then hide them.
\<close>

definition hideSelected :: "DragNode \<Rightarrow> DragNode" where
  "hideSelected this =
     hideItems (selectedNodeIds this) (cacheShapes (selectedNodeIds this) this)"

definition hideEdges :: "DragNode \<Rightarrow> DragNode" where
  "hideEdges this =
     (let hiddenEdgeIds = map edge_id (hiddenEdges this)
      in hideItems hiddenEdgeIds (cacheShapes hiddenEdgeIds this))"

definition hideNeighbours :: "DragNode \<Rightarrow> DragNode" where
  "hideNeighbours this =
     (let hiddenRelatedNodeIds = hiddenRelatedNodes this
      in hideItems hiddenRelatedNodeIds (cacheShapes hiddenRelatedNodeIds this))"

definition hideComboTree :: "DragNode \<Rightarrow> DragNode" where
  "hideComboTree this =
     (let hiddenComboTreeItemIds = map fst (hiddenComboTreeItems this)
      in hideItems hiddenComboTreeItemIds (cacheShapes hiddenComboTreeItemIds this))"

text \<open>The block \<^verbatim>\<open>if (this.options.hideRelatedEdges && !enableTransient)\<close> of the drag start.\<close>

definition hideRelated :: "DragNode \<Rightarrow> error + DragNode" where
  "hideRelated this =
     bindE (getComboTreeItems this (selectedNodeIds this)) (\<lambda>items.
       Inr (hideComboTree (hideNeighbours (hideEdges (findRelated items this)))))"

text \<open>
  The block \<^verbatim>\<open>if (enableTransient)\<close> of the drag start: transients of the selected nodes
  and of the related edges are drawn, then the selected nodes, the related edges, the
  related nodes and the combo tree items are hidden.
\<close>

definition drawSelected :: "DragNode \<Rightarrow> DragNode" where
  "drawSelected this =
     this\<lparr>graph :=
       fold (\<lambda>nodeId. drawTransient TNode nodeId
                         (NodeT None (\<not> updateComboStructure (options this))))
         (selectedNodeIds this) (graph this)\<rparr>"

definition drawEdges :: "DragNode \<Rightarrow> DragNode" where
  "drawEdges this =
     this\<lparr>graph :=
       fold (\<lambda>edge. drawTransient TEdge (edge_id edge) EdgeT) (hiddenEdges this) (graph this)\<rparr>"

definition drawTransients :: "DragNode \<Rightarrow> error + DragNode" where
  "drawTransients this =
     bindE (getComboTreeItems this (selectedNodeIds this)) (\<lambda>items.
       Inr (hideComboTree (hideNeighbours (hideEdges (hideSelected
              (drawEdges (drawSelected (findRelated items this))))))))"

text \<open>
  The start of the block \<^verbatim>\<open>if (!this.dragging)\<close>: the selected nodes move together when
  the pressed node is one of them; otherwise the pressed node moves alone.
\<close>

definition selectNodes :: "Event \<Rightarrow> DragNode \<Rightarrow> DragNode" where
  "selectNodes event this =
     (let this = this\<lparr>dragging := True\<rparr>;
          currentNodeId = itemId event;
          this = this\<lparr>selectedNodeIds :=
                   findIdByState (graph this) (selectedState (options this))\<rparr>
      in case currentNodeId of
           None \<Rightarrow> this
         | Some c \<Rightarrow>
             if c \<noteq> [] \<and> c \<notin> set (selectedNodeIds this)
             then this\<lparr>selectedNodeIds := [c]\<rparr> else this)"

text \<open>The end of that block: the throttle is set up and the reference point recorded.\<close>

definition startMoving :: "Event \<Rightarrow> DragNode \<Rightarrow> DragNode" where
  "startMoving event this =
     this\<lparr>throttledMoveNodes :=
            (if throttle (options this) > 0
             then Throttled \<lparr>th_wait = throttle (options this), th_previous = 0,
                             th_timeout = None, th_args = None\<rparr>
             else Direct),
          originX := pt_x (canvas event),
          originY := pt_y (canvas event)\<rparr>"

text \<open>
  The block \<^verbatim>\<open>if (!this.dragging)\<close> of \<^verbatim>\<open>onPointerMove\<close>: pointer down and a first move
  start the drag.
\<close>

definition dragStart :: "Event \<Rightarrow> bool \<Rightarrow> DragNode \<Rightarrow> error + DragNode" where
  "dragStart event enableTransient' this =
     (let this = snapshot (selectNodes event this)
      in bindE (if hideRelatedEdges (options this) \<and> \<not> enableTransient'
                then hideRelated this else Inr this) (\<lambda>this.
         bindE (if enableTransient' then drawTransients this
                else Inr (this\<lparr>graph := frontItem (selectedNodeIds this) (graph this)\<rparr>)) (\<lambda>this.
         Inr (startMoving event this))))"

text \<open>
  The block of \<^verbatim>\<open>onPointerMove\<close> for nodes flagged \<^verbatim>\<open>preventPolylineEdgeOverlap\<close>, step
  by step: the near edges are looked up again (those among the hidden related edges
  left out); the edges that were near and no longer are lose their transient and are
  shown; the near ones are drawn on the transient layer, cached and hidden.
\<close>

definition findNearEdges :: "ID list \<Rightarrow> DragNode \<Rightarrow> DragNode" where
  "findNearEdges preventPolylineOverlapNodeIds this =
     (let hiddenEdgesIds = map edge_id (hiddenEdges this);
          this = this\<lparr>hiddenNearEdgesCache := hiddenNearEdges this\<rparr>
      in this\<lparr>hiddenNearEdges :=
              filter (\<lambda>edge. edge_id edge \<notin> set hiddenEdgesIds)
                (getNearEdgesForNodes this preventPolylineOverlapNodeIds
                   isPolylineWithObstacleAvoidance)\<rparr>)"

definition showFarEdge :: "ID list \<Rightarrow> EdgeModel \<Rightarrow> Graph \<Rightarrow> Graph" where
  "showFarEdge hiddenNearEdgesIds edge g =
     (if edge_id edge \<notin> set hiddenNearEdgesIds
      then showItem (edge_id edge) None (removeTransient TEdge (edge_id edge) g)
      else g)"

definition showFarEdges :: "DragNode \<Rightarrow> DragNode" where
  "showFarEdges this =
     (let hiddenNearEdgesIds = map edge_id (hiddenNearEdges this)
      in this\<lparr>graph := fold (showFarEdge hiddenNearEdgesIds) (hiddenNearEdgesCache this)
                          (graph this)\<rparr>)"

definition hideNearEdges :: "DragNode \<Rightarrow> DragNode" where
  "hideNearEdges this =
     (if hiddenNearEdges this = [] then this
      else
        (let this = this\<lparr>graph :=
                      fold (\<lambda>edge. drawTransient TEdge (edge_id edge) EdgeT)
                        (hiddenNearEdges this) (graph this)\<rparr>;
             hiddenNearEdgeIds = map edge_id (hiddenNearEdges this)
         in hideItems hiddenNearEdgeIds (cacheShapes hiddenNearEdgeIds this)))"

definition updateNearEdges :: "DragNode \<Rightarrow> DragNode" where
  "updateNearEdges this =
     (let preventPolylineOverlapNodeIds =
            filter (\<lambda>nodeId. isPointPreventPolylineOverlap (nodeData (graph this) nodeId))
              (selectedNodeIds this)
      in if preventPolylineOverlapNodeIds = [] then this
         else hideNearEdges (showFarEdges (findNearEdges preventPolylineOverlapNodeIds this)))"

text \<open>The end of \<^verbatim>\<open>onPointerMove\<close>: the delta goes to the delegate or to the nodes.\<close>

definition applyDelta :: "Event \<Rightarrow> DragNode \<Rightarrow> DragNode" where
  "applyDelta event this =
     (if originPositions this = [] \<or> \<not> dragging this then this
      else
        (let deltaX = pt_x (canvas event) - originX this;
             deltaY = pt_y (canvas event) - originY this
         in if enableDelegate (options this) then moveDelegate deltaX deltaY this
            else callThrottled (now event)
                   (deltaX, deltaY, enableTransientNow this, \<not> updateComboStructure (options this))
                   this))"

definition onPointerMove :: "Event \<Rightarrow> DragNode \<Rightarrow> error + DragNode" where
  "onPointerMove event this =
     (case pointerDown this of
        None \<Rightarrow> Inr this
      | Some down \<Rightarrow>
          (let beginDeltaX = \<bar>pt_x down - pt_x (canvas event)\<bar>;
               beginDeltaY = \<bar>pt_y down - pt_y (canvas event)\<bar>
           in if beginDeltaX < 1 \<and> beginDeltaY < 1 then Inr this
              else
                (let enableTransient' = enableTransientNow this
                 in bindE (if \<not> dragging this then dragStart event enableTransient' this
                           else Inr this) (\<lambda>this.
                    (let this = (if dragging this \<and> enableTransient' then updateNearEdges this
                                 else this)
                     in Inr (applyDelta event this))))))"

text \<open>
  The function \<^verbatim>\<open>onPointerUp\<close> passes to \<^verbatim>\<open>debounce\<close>. It runs when the timer of the
  debounced call fires.
\<close>

definition onPointerUp_callback :: "bool \<Rightarrow> Position list \<Rightarrow> DragNode \<Rightarrow> error + DragNode" where
  "onPointerUp_callback enableTransient' positions this =
     (let this = (if enableTransient' then clearTransientItems positions this else this);
          this = (if enableDelegate (options this) then clearDelegate this else this)
      in bindE (restoreHiddenItems (Some positions) this) (\<lambda>this.
         (let this = (if eventName (options this) \<noteq> []
                      then this\<lparr>graph := emit (eventName (options this)) (map pos_id positions)
                                               (graph this)\<rparr>
                      else this)
          in Inr (clearState this))))"

text \<open>
  A call of the debounced function only sets its timer; every \<^verbatim>\<open>onPointerUp\<close> makes a
  debounced function of its own.
\<close>

definition debounce :: "bool \<Rightarrow> Position list \<Rightarrow> DragNode \<Rightarrow> DragNode" where
  "debounce enableTransient' positions this =
     this\<lparr>debounced := debounced this @ [(enableTransient', positions)]\<rparr>"

definition debounceTimer :: "DragNode \<Rightarrow> error + DragNode" where
  "debounceTimer this =
     (case debounced this of
        [] \<Rightarrow> Inr this
      | call # calls \<Rightarrow> onPointerUp_callback (fst call) (snd call) (this\<lparr>debounced := calls\<rparr>))"

definition onPointerUp :: "Event \<Rightarrow> DragNode \<Rightarrow> DragNode" where
  "onPointerUp event this =
     (let this = this\<lparr>pointerDown := None, dragging := False, selectedNodeIds := []\<rparr>;
          enableTransient' = enableTransientNow this;
          deltaX = pt_x (canvas event) - originX this + 1 / 100;
          deltaY = pt_y (canvas event) - originY this + 1 / 100
      in moveNodes deltaX deltaY False True (Some (debounce enableTransient')) this)"

definition onClick :: "Event \<Rightarrow> DragNode \<Rightarrow> DragNode" where
  "onClick event this = clearState (onPointerUp event this)"

text \<open>The \<^verbatim>\<open>mouseup\<close> listeners of the document run once, each on the event it captured.\<close>

definition documentMouseup :: "DragNode \<Rightarrow> DragNode" where
  "documentMouseup this = fold onPointerUp (mouseupOnce this) (this\<lparr>mouseupOnce := []\<rparr>)"

definition onKeydown :: "Event \<Rightarrow> DragNode \<Rightarrow> error + DragNode" where
  "onKeydown event this =
     (if key event \<noteq> ''Escape'' \<and> key event \<noteq> ''Esc'' then Inr this
      else
        (let this = clearDelegate this;
             this = clearTransientItems (originPositions this) this
         in bindE (restoreHiddenItems None this) (\<lambda>this.
            (let enableTransient' = enableTransientNow this;
                 this = (if \<not> enableTransient' \<and> \<not> enableDelegate (options this)
                         then this\<lparr>graph :=
                                updateNodePosition
                                  (map (\<lambda>p. (pos_id p, pos_x p, pos_y p)) (originPositions this))
                                  (graph this)\<rparr>
                         else this)
             in Inr (clearState this)))))"

text \<open>
  The drop target of \<^verbatim>\<open>onDropNode\<close> and \<^verbatim>\<open>onDropCanvas\<close>: the topmost item under the
  pointer that is not dragged and is a combo or a node of the graph, and the parent the
  dragged nodes get (the parent of the node dropped on, or the combo dropped on).
\<close>

definition dropTarget :: "Event \<Rightarrow> DragNode \<Rightarrow> ID option" where
  "dropTarget event this =
     (let draggingIds = map pos_id (originPositions this);
          currentIds = filter (\<lambda>i. i \<notin> set draggingIds) (List.map_filter (\<lambda>h. h) (hits event))
      in List.find (\<lambda>i. comboData (graph this) i \<noteq> None \<or> nodeData (graph this) i \<noteq> None)
           currentIds)"

definition dropParent :: "Event \<Rightarrow> DragNode \<Rightarrow> ID option" where
  "dropParent event this =
     (case dropTarget event this of
        None \<Rightarrow> None
      | Some dropId \<Rightarrow>
          (case nodeData (graph this) dropId of
             Some n \<Rightarrow> node_parentId n
           | None \<Rightarrow> Some dropId))"

text \<open>
  The loop of \<^verbatim>\<open>onDropNode\<close> and \<^verbatim>\<open>onDropCombo\<close>: a dragged node the graph no longer
  holds is passed over; a node whose parent differs gets the new parent.
\<close>

definition reparent :: "ID option \<Rightarrow> ID \<Rightarrow> DragNode \<Rightarrow> DragNode" where
  "reparent newParentId i this =
     (case nodeData (graph this) i of
        None \<Rightarrow> this
      | Some model \<Rightarrow>
          if node_parentId model = newParentId then this
          else this\<lparr>graph := updateData [(i, newParentId)] (graph this)\<rparr>)"

definition onDropNode :: "Event \<Rightarrow> DragNode \<Rightarrow> DragNode" where
  "onDropNode event this =
     (let newParentId = dropParent event this;
          this = fold (reparent newParentId) (map pos_id (originPositions this)) this
      in onPointerUp event this)"

definition onDropCombo :: "Event \<Rightarrow> DragNode \<Rightarrow> DragNode" where
  "onDropCombo event this =
     (let newParentId = itemId event;
          this = onPointerUp event this;
          this = fold (reparent newParentId) (map pos_id (originPositions this)) this
      in clearState this)"

text \<open>
  The loop of \<^verbatim>\<open>onDropCanvas\<close>: \<^verbatim>\<open>this.graph.getNodeData(id).data\<close> is read without a
  test, so a dragged node the graph no longer holds throws.
\<close>

fun nodeToUpdate :: "Graph \<Rightarrow> ID option \<Rightarrow> ID list \<Rightarrow> error + (ID \<times> ID option) list" where
  "nodeToUpdate g parentId [] = Inr []"
| "nodeToUpdate g parentId (i # ids) =
     (case nodeData g i of
        None \<Rightarrow> Inl TypeError
      | Some n \<Rightarrow>
          bindE (nodeToUpdate g parentId ids) (\<lambda>rest.
            if truthy_id parentId \<and> node_parentId n \<noteq> parentId then Inr ((i, parentId) # rest)
            else if \<not> truthy_id (node_parentId n) then Inr rest
            else Inr ((i, None) # rest)))"

definition onDropCanvas :: "Event \<Rightarrow> DragNode \<Rightarrow> error + DragNode" where
  "onDropCanvas event this =
     (let parentId = dropParent event this;
          this = onPointerUp event this
      in bindE (nodeToUpdate (graph this) parentId (map pos_id (originPositions this)))
           (\<lambda>changes.
              Inr (clearState (if changes \<noteq> [] then this\<lparr>graph := updateData changes (graph this)\<rparr>
                               else this))))"

text \<open>
  \<^verbatim>\<open>getEvents\<close>: the handlers by event name. A spread puts the drop handlers (or the
  \<^verbatim>\<open>pointerup\<close> handler) before the five common ones; the names are distinct.
\<close>

definition getEvents :: "Options \<Rightarrow> (string \<times> (Event \<Rightarrow> DragNode \<Rightarrow> error + DragNode)) list" where
  "getEvents opts =
     (let events =
            [(''node:pointerdown'', onPointerDown),
             (''pointermove'', onPointerMove),
             (''click'', \<lambda>event this. Inr (onClick event this)),
             (''node:pointerup'', \<lambda>event this. Inr (onPointerUp event this)),
             (''keydown'', onKeydown)]
      in if updateComboStructure opts then
           [(''node:drop'', \<lambda>event this. Inr (onDropNode event this)),
            (''combo:drop'', \<lambda>event this. Inr (onDropCombo event this)),
            (''canvas:drop'', onDropCanvas)] @ events
         else
           [(''pointerup'', \<lambda>event this. Inr (onClick event this))] @ events)"

text \<open>
  The event dispatcher of the host calls the handler registered under the name of the
  event; an event no handler is registered for leaves the behaviour as it is.
\<close>

definition dispatch :: "string \<Rightarrow> Event \<Rightarrow> DragNode \<Rightarrow> error + DragNode" where
  "dispatch name event this =
     (case map_of (getEvents (options this)) name of
        None \<Rightarrow> Inr this
      | Some handler \<Rightarrow> handler event this)"

section \<open>The polyline edge\<close>

text \<open>
  The display model of an edge and the merged style of its key shape, as far as
  \<^verbatim>\<open>drawKeyShape\<close> reads them. The router \<^verbatim>\<open>pathFinder\<close> (\<^verbatim>\<open>utils/router\<close>), the path
  builder \<^verbatim>\<open>getPolylinePath\<close> (\<^verbatim>\<open>utils/polyline\<close>) and the node map of the edge are
  parameters.
\<close>

record EdgeDisplayModel =
  model_id :: ID
  model_source :: ID
  model_target :: ID

record RouterCfg =
  rc_name :: string
  rc_offset :: "real option"

record RouteCfgStyle =
  rs_name :: "string option"
  rs_offset :: "real option"

record KeyShapeStyle =
  controlPoints :: "Point list option"
  radius :: real
  offset :: "real option"
  routeCfg :: "RouteCfgStyle option"

definition getControlPoints :: "KeyShapeStyle \<Rightarrow> Point list option" where
  "getControlPoints keyShapeStyle = controlPoints keyShapeStyle"

text \<open>\<^verbatim>\<open>isEmpty\<close> of \<^verbatim>\<open>@antv/util\<close> on an optional array.\<close>

fun isEmpty :: "'a list option \<Rightarrow> bool" where
  "isEmpty None = True"
| "isEmpty (Some xs) = (xs = [])"

text \<open>
  \<^verbatim>\<open>mix({}, { offset: keyShapeStyle.offset, name: 'orth' }, keyShapeStyle.routeCfg)\<close>:
  a property of the style's \<^verbatim>\<open>routeCfg\<close> that is not \<^verbatim>\<open>undefined\<close> wins.
\<close>

definition mix :: "KeyShapeStyle \<Rightarrow> RouterCfg" where
  "mix keyShapeStyle =
     (case routeCfg keyShapeStyle of
        None \<Rightarrow> \<lparr>rc_name = ''orth'', rc_offset = offset keyShapeStyle\<rparr>
      | Some r \<Rightarrow>
          \<lparr>rc_name = (case rs_name r of None \<Rightarrow> ''orth'' | Some n \<Rightarrow> n),
           rc_offset = (case rs_offset r of None \<Rightarrow> offset keyShapeStyle | Some v \<Rightarrow> Some v)\<rparr>)"

definition getPath ::
    "(ID \<Rightarrow> Point list \<Rightarrow> real \<Rightarrow> string)
      \<Rightarrow> (Point list \<Rightarrow> ID \<Rightarrow> ID \<Rightarrow> 'nodeMap \<Rightarrow> RouterCfg \<Rightarrow> Point list)
      \<Rightarrow> 'nodeMap \<Rightarrow> EdgeDisplayModel \<Rightarrow> Point list \<Rightarrow> real \<Rightarrow> RouterCfg \<Rightarrow> bool \<Rightarrow> string" where
  "getPath getPolylinePath pathFinder nodeMap model points radius' routeCfg' auto =
     (if \<not> auto \<and> rc_name routeCfg' \<noteq> ''er'' then getPolylinePath (model_id model) points radius'
      else
        (let polylinePoints =
               pathFinder points (model_source model) (model_target model) nodeMap routeCfg'
         in getPolylinePath (model_id model) polylinePoints radius'))"

text \<open>
  \<^verbatim>\<open>drawKeyShape\<close>, as the \<^verbatim>\<open>path\<close> of the line style it upserts as the key shape.
\<close>

definition drawKeyShape ::
    "(ID \<Rightarrow> Point list \<Rightarrow> real \<Rightarrow> string)
      \<Rightarrow> (Point list \<Rightarrow> ID \<Rightarrow> ID \<Rightarrow> 'nodeMap \<Rightarrow> RouterCfg \<Rightarrow> Point list)
      \<Rightarrow> 'nodeMap \<Rightarrow> KeyShapeStyle \<Rightarrow> EdgeDisplayModel \<Rightarrow> Point \<Rightarrow> Point \<Rightarrow> string" where
  "drawKeyShape getPolylinePath pathFinder nodeMap keyShapeStyle model sourcePoint targetPoint =
     (let controlPoints' = getControlPoints keyShapeStyle;
          points = (case controlPoints' of
                      None \<Rightarrow> [sourcePoint, targetPoint]
                    | Some cps \<Rightarrow> [sourcePoint] @ cps @ [targetPoint]);
          routeCfg' = mix keyShapeStyle
      in getPath getPolylinePath pathFinder nodeMap model points (radius keyShapeStyle) routeCfg'
           (isEmpty controlPoints'))"

section \<open>Example scenarios\<close>

text \<open>
  The graph of the demo page of the repository (\<^verbatim>\<open>src/unnamed/part_000\<close>): nodes \<open>a\<close>,
  \<open>b\<close>, \<open>c\<close> at (200, 100), (100, 200), (300, 200) and the edges \<open>a2b\<close>, \<open>a2c\<close>. Every
  item has a key shape and a label shape; nothing is selected, no combo exists, no edge is
  near a node.
\<close>

definition example_edges :: "EdgeModel list" where
  "example_edges =
     [\<lparr>edge_id = ''a2b'', edge_source = ''a'', edge_target = ''b'', edge_avoid = False\<rparr>,
      \<lparr>edge_id = ''a2c'', edge_source = ''a'', edge_target = ''c'', edge_avoid = False\<rparr>]"

definition example_graph :: Graph where
  "example_graph =
     \<lparr>nodeData =
        [''a'' \<mapsto> \<lparr>node_x = 200, node_y = 100, node_parentId = None,
                    node_preventPolylineEdgeOverlap = False\<rparr>,
         ''b'' \<mapsto> \<lparr>node_x = 100, node_y = 200, node_parentId = None,
                    node_preventPolylineEdgeOverlap = False\<rparr>,
         ''c'' \<mapsto> \<lparr>node_x = 300, node_y = 200, node_parentId = None,
                    node_preventPolylineEdgeOverlap = False\<rparr>],
      comboData = Map.empty,
      getRelatedEdgesData =
        (\<lambda>i. filter (\<lambda>e. edge_source e = i \<or> edge_target e = i) example_edges),
      getNeighborNodesData =
        (\<lambda>i. if i = ''a'' then [''b'', ''c''] else if i = ''b'' \<or> i = ''c'' then [''a''] else []),
      getNearEdgesData = (\<lambda>i f. []),
      getRenderBBox = Map.empty,
      findIdByState = (\<lambda>s. []),
      graphComboTreeDfs = (\<lambda>roots. roots),
      rendererType = ''canvas'',
      shapeIds = (\<lambda>i. [''keyShape'', ''labelShape'']),
      visibleShapeIds = (\<lambda>i. [''keyShape'', ''labelShape'']),
      itemVisible = (\<lambda>i. True),
      transients = Map.empty,
      frontOrder = [],
      emitted = []\<rparr>"

text \<open>A behaviour as the class initialises it, a pointer event and a keyboard event.\<close>

definition new_DragNode :: "Options \<Rightarrow> Graph \<Rightarrow> DragNode" where
  "new_DragNode opts g =
     \<lparr>options = opts, graph = g, hiddenEdges = [], hiddenRelatedNodes = [], selectedNodeIds = [],
      hiddenNearEdges = [], hiddenComboTreeItems = [], originX = 0, originY = 0,
      originPositions = [], pointerDown = None, dragging = False, hiddenNearEdgesCache = [],
      hiddenShapeCache = Map.empty, throttledMoveNodes = Unset, debounced = [], mouseupOnce = [],
      warnings = []\<rparr>"

definition pointer :: "real \<Rightarrow> real \<Rightarrow> ID option \<Rightarrow> int \<Rightarrow> Event" where
  "pointer px py i t =
     \<lparr>canvas = \<lparr>pt_x = px, pt_y = py\<rparr>, itemId = i, key = [], now = t, hits = []\<rparr>"


text \<open>
  Pointer down on node \<open>a\<close> at (200, 100), a first move to (210, 100), which starts the
  drag and is its reference point, and a move to (230, 90).
\<close>

definition press_and_move :: "DragNode \<Rightarrow> error + DragNode" where
  "press_and_move this =
     bindE (onPointerDown (pointer 200 100 (Some ''a'') 1000) this) (\<lambda>this.
     bindE (onPointerMove (pointer 210 100 (Some ''a'') 1010) this) (\<lambda>this.
     onPointerMove (pointer 230 90 (Some ''a'') 1015) this))"

text \<open>Transient drawing off, no throttle, completion event \<open>dragend\<close>.\<close>

definition plain_options :: Options where
  "plain_options =
     DragNode_constructor
       \<lparr>p_enableTransient = Given False, p_enableDelegate = Absent, p_delegateStyle = Absent,
        p_throttle = Given 0, p_hideRelatedEdges = Absent, p_selectedState = Absent,
        p_eventName = Given ''dragend'', p_updateComboStructure = Absent, p_shouldBegin = Absent\<rparr>"

text \<open>Transient drawing off, the default throttle of 16 ms.\<close>

definition throttled_options :: Options where
  "throttled_options =
     DragNode_constructor
       \<lparr>p_enableTransient = Given False, p_enableDelegate = Absent, p_delegateStyle = Absent,
        p_throttle = Absent, p_hideRelatedEdges = Absent, p_selectedState = Absent,
        p_eventName = Given ''dragend'', p_updateComboStructure = Absent, p_shouldBegin = Absent\<rparr>"

text \<open>The default options.\<close>

definition default_options :: Options where
  "default_options =
     DragNode_constructor
       \<lparr>p_enableTransient = Absent, p_enableDelegate = Absent, p_delegateStyle = Absent,
        p_throttle = Absent, p_hideRelatedEdges = Absent, p_selectedState = Absent,
        p_eventName = Absent, p_updateComboStructure = Absent, p_shouldBegin = Absent\<rparr>"

text \<open>
  The demo graph with a third edge \<open>b2c\<close>, a polyline with obstacle avoidance that is
  near node \<open>a\<close>; node \<open>a\<close> is flagged \<^verbatim>\<open>preventPolylineEdgeOverlap\<close>, and of every item
  only the key shape is visible (the labels are hidden).
\<close>

definition near_edge :: EdgeModel where
  "near_edge = \<lparr>edge_id = ''b2c'', edge_source = ''b'', edge_target = ''c'', edge_avoid = True\<rparr>"

definition near_graph :: Graph where
  "near_graph =
     example_graph
       \<lparr>nodeData := (nodeData example_graph)
          (''a'' \<mapsto> \<lparr>node_x = 200, node_y = 100, node_parentId = None,
                      node_preventPolylineEdgeOverlap = True\<rparr>),
        getNearEdgesData := (\<lambda>i f. if i = ''a'' then filter f [near_edge] else []),
        visibleShapeIds := (\<lambda>i. [''keyShape''])\<rparr>"

text \<open>Delegate mode.\<close>

definition delegate_options :: Options where
  "delegate_options =
     DragNode_constructor
       \<lparr>p_enableTransient = Absent, p_enableDelegate = Given True, p_delegateStyle = Absent,
        p_throttle = Absent, p_hideRelatedEdges = Absent, p_selectedState = Absent,
        p_eventName = Absent, p_updateComboStructure = Absent, p_shouldBegin = Absent\<rparr>"

text \<open>The demo graph with a combo \<open>c1\<close>, which has no parent and no member.\<close>

definition combo_graph :: Graph where
  "combo_graph =
     example_graph\<lparr>comboData := [''c1'' \<mapsto> \<lparr>combo_parentId = None, combo_isCombo = True\<rparr>]\<rparr>"

text \<open>The options of \<open>plain_options\<close>, but the combo structure is left alone.\<close>

definition fixed_structure_options :: Options where
  "fixed_structure_options =
     DragNode_constructor
       \<lparr>p_enableTransient = Given False, p_enableDelegate = Absent, p_delegateStyle = Absent,
        p_throttle = Given 0, p_hideRelatedEdges = Absent, p_selectedState = Absent,
        p_eventName = Given ''dragend'', p_updateComboStructure = Given False,
        p_shouldBegin = Absent\<rparr>"

text \<open>
  The demo graph with the nodes \<open>a\<close> and \<open>b\<close> selected; \<open>a\<close> is rendered in the box
  from (190, 90) to (210, 110), \<open>b\<close> in the box from (90, 190) to (110, 210).
\<close>

definition two_boxed_graph :: Graph where
  "two_boxed_graph =
     example_graph
       \<lparr>getRenderBBox := [''a'' \<mapsto> \<lparr>minX = 190, minY = 90, maxX = 210, maxY = 110\<rparr>,
                          ''b'' \<mapsto> \<lparr>minX = 90, minY = 190, maxX = 110, maxY = 210\<rparr>],
        findIdByState := (\<lambda>s. if s = ''selected'' then [''a'', ''b''] else [])\<rparr>"





text \<open>
  A path builder and a router to run \<^verbatim>\<open>drawKeyShape\<close> on. The builder writes one letter
  for every segment of the polyline: \<open>H\<close> for a horizontal, \<open>V\<close> for a vertical and \<open>D\<close>
  for any other segment. The router answers with the route that leaves the first point
  vertically and reaches the last one horizontally.
\<close>

definition example_segment :: "Point \<Rightarrow> Point \<Rightarrow> char" where
  "example_segment p q =
     (if pt_y p = pt_y q then CHR ''H'' else if pt_x p = pt_x q then CHR ''V'' else CHR ''D'')"

definition example_getPolylinePath :: "ID \<Rightarrow> Point list \<Rightarrow> real \<Rightarrow> string" where
  "example_getPolylinePath edgeId points radius' =
     map (\<lambda>pq. example_segment (fst pq) (snd pq)) (zip points (tl points))"

definition example_pathFinder :: "Point list \<Rightarrow> ID \<Rightarrow> ID \<Rightarrow> unit \<Rightarrow> RouterCfg \<Rightarrow> Point list" where
  "example_pathFinder points sourceNodeId targetNodeId nodeMap cfg =
     [hd points, \<lparr>pt_x = pt_x (hd points), pt_y = pt_y (last points)\<rparr>, last points]"

text \<open>
  The edge \<open>a2b\<close> from (0, 0) to (50, 50) and the style of its key shape, with the given
  control points and the given name of the routing strategy (none: no \<^verbatim>\<open>routeCfg\<close>).
\<close>

definition example_model :: EdgeDisplayModel where
  "example_model = \<lparr>model_id = ''a2b'', model_source = ''a'', model_target = ''b''\<rparr>"

definition example_style :: "Point list option \<Rightarrow> string option \<Rightarrow> KeyShapeStyle" where
  "example_style cps name =
     \<lparr>controlPoints = cps, radius = 0, offset = None,
      routeCfg = (case name of
                    None \<Rightarrow> None
                  | Some n \<Rightarrow> Some \<lparr>rs_name = Some n, rs_offset = None\<rparr>)\<rparr>"

definition example_draw :: "Point list option \<Rightarrow> string option \<Rightarrow> string" where
  "example_draw cps name =
     drawKeyShape example_getPolylinePath example_pathFinder () (example_style cps name)
       example_model \<lparr>pt_x = 0, pt_y = 0\<rparr> \<lparr>pt_x = 50, pt_y = 50\<rparr>"

section \<open>Observations\<close>

text \<open>The parent of every node, and an item that is shown again with its cache entry gone.\<close>

definition parents :: "Graph \<Rightarrow> ID \<Rightarrow> ID option option" where
  "parents g i = map_option node_parentId (nodeData g i)"


section \<open>Properties of the constructor\<close>




section \<open>Frame lemmas\<close>

lemma fold_proj:
  assumes "\<And>x s. f (step x s) = f s"
  shows "f (fold step xs s) = f s"
  by (induction xs arbitrary: s) (simp_all add: assms)

lemma updatePosition1_other: "fst c \<noteq> i \<Longrightarrow> updatePosition1 c m i = m i"
  by (simp add: updatePosition1_def split: option.splits)

lemma updatePosition1_same:
  "updatePosition1 (i, vx, vy) m i = map_option (\<lambda>n. n\<lparr>node_x := vx, node_y := vy\<rparr>) (m i)"
  by (simp add: updatePosition1_def split: option.splits)

lemma fold_updatePosition1_other:
  "i \<notin> fst ` set cs \<Longrightarrow> fold updatePosition1 cs m i = m i"
  by (induction cs arbitrary: m) (auto simp: updatePosition1_other)

lemma fold_updatePosition1_distinct:
  "distinct (map fst cs) \<Longrightarrow> (i, vx, vy) \<in> set cs \<Longrightarrow>
   fold updatePosition1 cs m i = map_option (\<lambda>n. n\<lparr>node_x := vx, node_y := vy\<rparr>) (m i)"
proof (induction cs arbitrary: m)
  case Nil
  then show ?case by simp
next
  case (Cons c cs)
  show ?case
  proof (cases "c = (i, vx, vy)")
    case True
    with Cons.prems have "i \<notin> fst ` set cs" by force
    then show ?thesis using True
      by (simp add: fold_updatePosition1_other updatePosition1_same)
  next
    case False
    with Cons.prems have in_cs: "(i, vx, vy) \<in> set cs" and d: "distinct (map fst cs)"
      by auto
    have "fst (i, vx, vy) \<in> fst ` set cs" using in_cs by (rule imageI)
    with Cons.prems have ne: "fst c \<noteq> i" by auto
    show ?thesis using Cons.IH[OF d in_cs] ne
      by (simp add: updatePosition1_other)
  qed
qed

lemma fold_updatePosition1_parent:
  "map_option node_parentId (fold updatePosition1 cs m i) = map_option node_parentId (m i)"
proof (induction cs arbitrary: m)
  case Nil
  then show ?case by simp
next
  case (Cons c cs)
  have "map_option node_parentId (updatePosition1 c m i) = map_option node_parentId (m i)"
    by (simp add: updatePosition1_def split: option.splits)
  with Cons.IH[of "updatePosition1 c m"] show ?case by simp
qed

text \<open>What the operations of the graph leave as it is.\<close>

lemma hideItem_static [simp]:
  "nodeData (hideItem ids g) = nodeData g"
  "comboData (hideItem ids g) = comboData g"
  "getRelatedEdgesData (hideItem ids g) = getRelatedEdgesData g"
  "getNeighborNodesData (hideItem ids g) = getNeighborNodesData g"
  "getNearEdgesData (hideItem ids g) = getNearEdgesData g"
  "getRenderBBox (hideItem ids g) = getRenderBBox g"
  "findIdByState (hideItem ids g) = findIdByState g"
  "graphComboTreeDfs (hideItem ids g) = graphComboTreeDfs g"
  "rendererType (hideItem ids g) = rendererType g"
  "shapeIds (hideItem ids g) = shapeIds g"
  "transients (hideItem ids g) = transients g"
  "frontOrder (hideItem ids g) = frontOrder g"
  "emitted (hideItem ids g) = emitted g"
  by (induction ids arbitrary: g) (simp_all add: hideItem_def hideItem1_def)

lemma showItem_static [simp]:
  "nodeData (showItem i s g) = nodeData g"
  "comboData (showItem i s g) = comboData g"
  "getRelatedEdgesData (showItem i s g) = getRelatedEdgesData g"
  "getNeighborNodesData (showItem i s g) = getNeighborNodesData g"
  "getNearEdgesData (showItem i s g) = getNearEdgesData g"
  "getRenderBBox (showItem i s g) = getRenderBBox g"
  "findIdByState (showItem i s g) = findIdByState g"
  "graphComboTreeDfs (showItem i s g) = graphComboTreeDfs g"
  "rendererType (showItem i s g) = rendererType g"
  "shapeIds (showItem i s g) = shapeIds g"
  "transients (showItem i s g) = transients g"
  "frontOrder (showItem i s g) = frontOrder g"
  "emitted (showItem i s g) = emitted g"
  by (simp_all add: showItem_def)

lemma drawTransient_static [simp]:
  "nodeData (drawTransient k i c g) = nodeData g"
  "comboData (drawTransient k i c g) = comboData g"
  "getRelatedEdgesData (drawTransient k i c g) = getRelatedEdgesData g"
  "getNeighborNodesData (drawTransient k i c g) = getNeighborNodesData g"
  "getNearEdgesData (drawTransient k i c g) = getNearEdgesData g"
  "getRenderBBox (drawTransient k i c g) = getRenderBBox g"
  "findIdByState (drawTransient k i c g) = findIdByState g"
  "graphComboTreeDfs (drawTransient k i c g) = graphComboTreeDfs g"
  "rendererType (drawTransient k i c g) = rendererType g"
  "shapeIds (drawTransient k i c g) = shapeIds g"
  "visibleShapeIds (drawTransient k i c g) = visibleShapeIds g"
  "itemVisible (drawTransient k i c g) = itemVisible g"
  "frontOrder (drawTransient k i c g) = frontOrder g"
  "emitted (drawTransient k i c g) = emitted g"
  by (simp_all add: drawTransient_def)

lemma removeTransient_static [simp]:
  "nodeData (removeTransient k i g) = nodeData g"
  "comboData (removeTransient k i g) = comboData g"
  "getRelatedEdgesData (removeTransient k i g) = getRelatedEdgesData g"
  "getNeighborNodesData (removeTransient k i g) = getNeighborNodesData g"
  "getNearEdgesData (removeTransient k i g) = getNearEdgesData g"
  "getRenderBBox (removeTransient k i g) = getRenderBBox g"
  "findIdByState (removeTransient k i g) = findIdByState g"
  "graphComboTreeDfs (removeTransient k i g) = graphComboTreeDfs g"
  "rendererType (removeTransient k i g) = rendererType g"
  "shapeIds (removeTransient k i g) = shapeIds g"
  "visibleShapeIds (removeTransient k i g) = visibleShapeIds g"
  "itemVisible (removeTransient k i g) = itemVisible g"
  "frontOrder (removeTransient k i g) = frontOrder g"
  "emitted (removeTransient k i g) = emitted g"
  by (simp_all add: removeTransient_def)

lemma frontItem_static [simp]:
  "nodeData (frontItem ids g) = nodeData g"
  "comboData (frontItem ids g) = comboData g"
  "getRelatedEdgesData (frontItem ids g) = getRelatedEdgesData g"
  "getNeighborNodesData (frontItem ids g) = getNeighborNodesData g"
  "getNearEdgesData (frontItem ids g) = getNearEdgesData g"
  "getRenderBBox (frontItem ids g) = getRenderBBox g"
  "findIdByState (frontItem ids g) = findIdByState g"
  "graphComboTreeDfs (frontItem ids g) = graphComboTreeDfs g"
  "rendererType (frontItem ids g) = rendererType g"
  "shapeIds (frontItem ids g) = shapeIds g"
  "visibleShapeIds (frontItem ids g) = visibleShapeIds g"
  "itemVisible (frontItem ids g) = itemVisible g"
  "transients (frontItem ids g) = transients g"
  "emitted (frontItem ids g) = emitted g"
  by (simp_all add: frontItem_def)

lemma updateNodePosition_static [simp]:
  "comboData (updateNodePosition cs g) = comboData g"
  "getRelatedEdgesData (updateNodePosition cs g) = getRelatedEdgesData g"
  "getNeighborNodesData (updateNodePosition cs g) = getNeighborNodesData g"
  "getNearEdgesData (updateNodePosition cs g) = getNearEdgesData g"
  "getRenderBBox (updateNodePosition cs g) = getRenderBBox g"
  "findIdByState (updateNodePosition cs g) = findIdByState g"
  "graphComboTreeDfs (updateNodePosition cs g) = graphComboTreeDfs g"
  "rendererType (updateNodePosition cs g) = rendererType g"
  "shapeIds (updateNodePosition cs g) = shapeIds g"
  "visibleShapeIds (updateNodePosition cs g) = visibleShapeIds g"
  "itemVisible (updateNodePosition cs g) = itemVisible g"
  "transients (updateNodePosition cs g) = transients g"
  "frontOrder (updateNodePosition cs g) = frontOrder g"
  "emitted (updateNodePosition cs g) = emitted g"
  by (simp_all add: updateNodePosition_def)

lemma updateData_static [simp]:
  "comboData (updateData cs g) = comboData g"
  "getRelatedEdgesData (updateData cs g) = getRelatedEdgesData g"
  "getNeighborNodesData (updateData cs g) = getNeighborNodesData g"
  "getNearEdgesData (updateData cs g) = getNearEdgesData g"
  "getRenderBBox (updateData cs g) = getRenderBBox g"
  "findIdByState (updateData cs g) = findIdByState g"
  "graphComboTreeDfs (updateData cs g) = graphComboTreeDfs g"
  "rendererType (updateData cs g) = rendererType g"
  "shapeIds (updateData cs g) = shapeIds g"
  "visibleShapeIds (updateData cs g) = visibleShapeIds g"
  "itemVisible (updateData cs g) = itemVisible g"
  "transients (updateData cs g) = transients g"
  "frontOrder (updateData cs g) = frontOrder g"
  "emitted (updateData cs g) = emitted g"
  by (simp_all add: updateData_def)

lemma emit_static [simp]:
  "nodeData (emit name ids g) = nodeData g"
  "comboData (emit name ids g) = comboData g"
  "getRelatedEdgesData (emit name ids g) = getRelatedEdgesData g"
  "getNeighborNodesData (emit name ids g) = getNeighborNodesData g"
  "getNearEdgesData (emit name ids g) = getNearEdgesData g"
  "getRenderBBox (emit name ids g) = getRenderBBox g"
  "findIdByState (emit name ids g) = findIdByState g"
  "graphComboTreeDfs (emit name ids g) = graphComboTreeDfs g"
  "rendererType (emit name ids g) = rendererType g"
  "shapeIds (emit name ids g) = shapeIds g"
  "visibleShapeIds (emit name ids g) = visibleShapeIds g"
  "itemVisible (emit name ids g) = itemVisible g"
  "transients (emit name ids g) = transients g"
  "frontOrder (emit name ids g) = frontOrder g"
  by (simp_all add: emit_def)

lemma showFarEdge_static [simp]:
  "nodeData (showFarEdge ids e g) = nodeData g"
  "comboData (showFarEdge ids e g) = comboData g"
  "getRelatedEdgesData (showFarEdge ids e g) = getRelatedEdgesData g"
  "getNeighborNodesData (showFarEdge ids e g) = getNeighborNodesData g"
  "getNearEdgesData (showFarEdge ids e g) = getNearEdgesData g"
  "getRenderBBox (showFarEdge ids e g) = getRenderBBox g"
  "findIdByState (showFarEdge ids e g) = findIdByState g"
  "graphComboTreeDfs (showFarEdge ids e g) = graphComboTreeDfs g"
  "rendererType (showFarEdge ids e g) = rendererType g"
  "shapeIds (showFarEdge ids e g) = shapeIds g"
  "frontOrder (showFarEdge ids e g) = frontOrder g"
  "emitted (showFarEdge ids e g) = emitted g"
  by (simp_all add: showFarEdge_def)

lemmas fold_static [simp] =
  fold_proj[where f=nodeData]
  fold_proj[where f=comboData]
  fold_proj[where f=getRelatedEdgesData]
  fold_proj[where f=getNeighborNodesData]
  fold_proj[where f=getNearEdgesData]
  fold_proj[where f=getRenderBBox]
  fold_proj[where f=findIdByState]
  fold_proj[where f=graphComboTreeDfs]
  fold_proj[where f=rendererType]
  fold_proj[where f=shapeIds]
  fold_proj[where f=visibleShapeIds]
  fold_proj[where f=itemVisible]
  fold_proj[where f=transients]
  fold_proj[where f=frontOrder]
  fold_proj[where f=emitted]
  fold_proj[where f=parents]

text \<open>No operation but \<^verbatim>\<open>updateData\<close> changes the parent of a node.\<close>

lemma parents_static [simp]:
  "parents (hideItem ids g) = parents g"
  "parents (showItem i s g) = parents g"
  "parents (drawTransient k i c g) = parents g"
  "parents (removeTransient k i g) = parents g"
  "parents (frontItem ids g) = parents g"
  "parents (emit name ids g) = parents g"
  "parents (showFarEdge ids e g) = parents g"
  "parents (updateNodePosition cs g) = parents g"
  by (simp_all add: parents_def fun_eq_iff updateNodePosition_def fold_updatePosition1_parent)


text \<open>What the steps of the behaviour leave as it is, and what they set.\<close>

lemma cacheShapes_proj [simp]:
  "options (cacheShapes ids t) = options t"
  "debounced (cacheShapes ids t) = debounced t"
  "pointerDown (cacheShapes ids t) = pointerDown t"
  "dragging (cacheShapes ids t) = dragging t"
  "selectedNodeIds (cacheShapes ids t) = selectedNodeIds t"
  "originPositions (cacheShapes ids t) = originPositions t"
  "originX (cacheShapes ids t) = originX t"
  "originY (cacheShapes ids t) = originY t"
  "hiddenEdges (cacheShapes ids t) = hiddenEdges t"
  "hiddenRelatedNodes (cacheShapes ids t) = hiddenRelatedNodes t"
  "hiddenNearEdges (cacheShapes ids t) = hiddenNearEdges t"
  "hiddenComboTreeItems (cacheShapes ids t) = hiddenComboTreeItems t"
  "throttledMoveNodes (cacheShapes ids t) = throttledMoveNodes t"
  "graph (cacheShapes ids t) = graph t"
  by (simp_all add: cacheShapes_def)

lemma hideItems_proj [simp]:
  "options (hideItems ids t) = options t"
  "debounced (hideItems ids t) = debounced t"
  "pointerDown (hideItems ids t) = pointerDown t"
  "dragging (hideItems ids t) = dragging t"
  "selectedNodeIds (hideItems ids t) = selectedNodeIds t"
  "originPositions (hideItems ids t) = originPositions t"
  "originX (hideItems ids t) = originX t"
  "originY (hideItems ids t) = originY t"
  "hiddenEdges (hideItems ids t) = hiddenEdges t"
  "hiddenRelatedNodes (hideItems ids t) = hiddenRelatedNodes t"
  "hiddenNearEdges (hideItems ids t) = hiddenNearEdges t"
  "hiddenComboTreeItems (hideItems ids t) = hiddenComboTreeItems t"
  "throttledMoveNodes (hideItems ids t) = throttledMoveNodes t"
  "graph (hideItems ids t) = hideItem ids (graph t)"
  by (simp_all add: hideItems_def)

lemma hideSelected_proj [simp]:
  "options (hideSelected t) = options t"
  "debounced (hideSelected t) = debounced t"
  "pointerDown (hideSelected t) = pointerDown t"
  "dragging (hideSelected t) = dragging t"
  "selectedNodeIds (hideSelected t) = selectedNodeIds t"
  "originPositions (hideSelected t) = originPositions t"
  "originX (hideSelected t) = originX t"
  "originY (hideSelected t) = originY t"
  "hiddenEdges (hideSelected t) = hiddenEdges t"
  "hiddenRelatedNodes (hideSelected t) = hiddenRelatedNodes t"
  "hiddenNearEdges (hideSelected t) = hiddenNearEdges t"
  "hiddenComboTreeItems (hideSelected t) = hiddenComboTreeItems t"
  "throttledMoveNodes (hideSelected t) = throttledMoveNodes t"
  "graph (hideSelected t) = hideItem (selectedNodeIds t) (graph t)"
  by (simp_all add: hideSelected_def)

lemma hideEdges_proj [simp]:
  "options (hideEdges t) = options t"
  "debounced (hideEdges t) = debounced t"
  "pointerDown (hideEdges t) = pointerDown t"
  "dragging (hideEdges t) = dragging t"
  "selectedNodeIds (hideEdges t) = selectedNodeIds t"
  "originPositions (hideEdges t) = originPositions t"
  "originX (hideEdges t) = originX t"
  "originY (hideEdges t) = originY t"
  "hiddenEdges (hideEdges t) = hiddenEdges t"
  "hiddenRelatedNodes (hideEdges t) = hiddenRelatedNodes t"
  "hiddenNearEdges (hideEdges t) = hiddenNearEdges t"
  "hiddenComboTreeItems (hideEdges t) = hiddenComboTreeItems t"
  "throttledMoveNodes (hideEdges t) = throttledMoveNodes t"
  "graph (hideEdges t) = hideItem (map edge_id (hiddenEdges t)) (graph t)"
  by (simp_all add: hideEdges_def Let_def)

lemma hideNeighbours_proj [simp]:
  "options (hideNeighbours t) = options t"
  "debounced (hideNeighbours t) = debounced t"
  "pointerDown (hideNeighbours t) = pointerDown t"
  "dragging (hideNeighbours t) = dragging t"
  "selectedNodeIds (hideNeighbours t) = selectedNodeIds t"
  "originPositions (hideNeighbours t) = originPositions t"
  "originX (hideNeighbours t) = originX t"
  "originY (hideNeighbours t) = originY t"
  "hiddenEdges (hideNeighbours t) = hiddenEdges t"
  "hiddenRelatedNodes (hideNeighbours t) = hiddenRelatedNodes t"
  "hiddenNearEdges (hideNeighbours t) = hiddenNearEdges t"
  "hiddenComboTreeItems (hideNeighbours t) = hiddenComboTreeItems t"
  "throttledMoveNodes (hideNeighbours t) = throttledMoveNodes t"
  "graph (hideNeighbours t) = hideItem (hiddenRelatedNodes t) (graph t)"
  by (simp_all add: hideNeighbours_def Let_def)

lemma hideComboTree_proj [simp]:
  "options (hideComboTree t) = options t"
  "debounced (hideComboTree t) = debounced t"
  "pointerDown (hideComboTree t) = pointerDown t"
  "dragging (hideComboTree t) = dragging t"
  "selectedNodeIds (hideComboTree t) = selectedNodeIds t"
  "originPositions (hideComboTree t) = originPositions t"
  "originX (hideComboTree t) = originX t"
  "originY (hideComboTree t) = originY t"
  "hiddenEdges (hideComboTree t) = hiddenEdges t"
  "hiddenRelatedNodes (hideComboTree t) = hiddenRelatedNodes t"
  "hiddenNearEdges (hideComboTree t) = hiddenNearEdges t"
  "hiddenComboTreeItems (hideComboTree t) = hiddenComboTreeItems t"
  "throttledMoveNodes (hideComboTree t) = throttledMoveNodes t"
  "graph (hideComboTree t) = hideItem (map fst (hiddenComboTreeItems t)) (graph t)"
  by (simp_all add: hideComboTree_def Let_def)

lemma findRelated_proj [simp]:
  "options (findRelated items t) = options t"
  "debounced (findRelated items t) = debounced t"
  "pointerDown (findRelated items t) = pointerDown t"
  "dragging (findRelated items t) = dragging t"
  "selectedNodeIds (findRelated items t) = selectedNodeIds t"
  "originPositions (findRelated items t) = originPositions t"
  "originX (findRelated items t) = originX t"
  "originY (findRelated items t) = originY t"
  "hiddenEdges (findRelated items t) = uniq (concat (map (getRelatedEdgesData (graph t)) (selectedNodeIds t @ graphComboTreeDfs (graph t) (map fst items))))"
  "hiddenRelatedNodes (findRelated items t) = concat (map (\<lambda>i. filter (\<lambda>neighbor. neighbor \<notin> set (selectedNodeIds t)) (getNeighborNodesData (graph t) i)) (selectedNodeIds t))"
  "hiddenNearEdges (findRelated items t) = hiddenNearEdges t"
  "hiddenComboTreeItems (findRelated items t) = items"
  "throttledMoveNodes (findRelated items t) = throttledMoveNodes t"
  "graph (findRelated items t) = graph t"
  by (simp_all add: findRelated_def Let_def getRelatedEdges_def getRelatedNodes_def)

lemma drawSelected_proj [simp]:
  "options (drawSelected t) = options t"
  "debounced (drawSelected t) = debounced t"
  "pointerDown (drawSelected t) = pointerDown t"
  "dragging (drawSelected t) = dragging t"
  "selectedNodeIds (drawSelected t) = selectedNodeIds t"
  "originPositions (drawSelected t) = originPositions t"
  "originX (drawSelected t) = originX t"
  "originY (drawSelected t) = originY t"
  "hiddenEdges (drawSelected t) = hiddenEdges t"
  "hiddenRelatedNodes (drawSelected t) = hiddenRelatedNodes t"
  "hiddenNearEdges (drawSelected t) = hiddenNearEdges t"
  "hiddenComboTreeItems (drawSelected t) = hiddenComboTreeItems t"
  "throttledMoveNodes (drawSelected t) = throttledMoveNodes t"
  "graph (drawSelected t) = fold (\<lambda>nodeId. drawTransient TNode nodeId (NodeT None (\<not> updateComboStructure (options t)))) (selectedNodeIds t) (graph t)"
  by (simp_all add: drawSelected_def)

lemma drawEdges_proj [simp]:
  "options (drawEdges t) = options t"
  "debounced (drawEdges t) = debounced t"
  "pointerDown (drawEdges t) = pointerDown t"
  "dragging (drawEdges t) = dragging t"
  "selectedNodeIds (drawEdges t) = selectedNodeIds t"
  "originPositions (drawEdges t) = originPositions t"
  "originX (drawEdges t) = originX t"
  "originY (drawEdges t) = originY t"
  "hiddenEdges (drawEdges t) = hiddenEdges t"
  "hiddenRelatedNodes (drawEdges t) = hiddenRelatedNodes t"
  "hiddenNearEdges (drawEdges t) = hiddenNearEdges t"
  "hiddenComboTreeItems (drawEdges t) = hiddenComboTreeItems t"
  "throttledMoveNodes (drawEdges t) = throttledMoveNodes t"
  "graph (drawEdges t) = fold (\<lambda>edge. drawTransient TEdge (edge_id edge) EdgeT) (hiddenEdges t) (graph t)"
  by (simp_all add: drawEdges_def)

lemma selectNodes_proj [simp]:
  "options (selectNodes event t) = options t"
  "debounced (selectNodes event t) = debounced t"
  "pointerDown (selectNodes event t) = pointerDown t"
  "dragging (selectNodes event t) = True"
  "selectedNodeIds (selectNodes event t) = (case itemId event of None \<Rightarrow> findIdByState (graph t) (selectedState (options t)) | Some c \<Rightarrow> if c \<noteq> [] \<and> c \<notin> set (findIdByState (graph t) (selectedState (options t))) then [c] else findIdByState (graph t) (selectedState (options t)))"
  "originPositions (selectNodes event t) = originPositions t"
  "originX (selectNodes event t) = originX t"
  "originY (selectNodes event t) = originY t"
  "hiddenEdges (selectNodes event t) = hiddenEdges t"
  "hiddenRelatedNodes (selectNodes event t) = hiddenRelatedNodes t"
  "hiddenNearEdges (selectNodes event t) = hiddenNearEdges t"
  "hiddenComboTreeItems (selectNodes event t) = hiddenComboTreeItems t"
  "throttledMoveNodes (selectNodes event t) = throttledMoveNodes t"
  "graph (selectNodes event t) = graph t"
  by (simp_all add: selectNodes_def Let_def split: option.splits)

lemma snapshot_proj [simp]:
  "options (snapshot t) = options t"
  "debounced (snapshot t) = debounced t"
  "pointerDown (snapshot t) = pointerDown t"
  "dragging (snapshot t) = dragging t"
  "selectedNodeIds (snapshot t) = selectedNodeIds t"
  "originPositions (snapshot t) = List.map_filter (snapshot1 t) (selectedNodeIds t)"
  "originX (snapshot t) = originX t"
  "originY (snapshot t) = originY t"
  "hiddenEdges (snapshot t) = hiddenEdges t"
  "hiddenRelatedNodes (snapshot t) = hiddenRelatedNodes t"
  "hiddenNearEdges (snapshot t) = hiddenNearEdges t"
  "hiddenComboTreeItems (snapshot t) = hiddenComboTreeItems t"
  "throttledMoveNodes (snapshot t) = throttledMoveNodes t"
  "graph (snapshot t) = graph t"
  by (simp_all add: snapshot_def)

lemma startMoving_proj [simp]:
  "options (startMoving event t) = options t"
  "debounced (startMoving event t) = debounced t"
  "pointerDown (startMoving event t) = pointerDown t"
  "dragging (startMoving event t) = dragging t"
  "selectedNodeIds (startMoving event t) = selectedNodeIds t"
  "originPositions (startMoving event t) = originPositions t"
  "originX (startMoving event t) = pt_x (canvas event)"
  "originY (startMoving event t) = pt_y (canvas event)"
  "hiddenEdges (startMoving event t) = hiddenEdges t"
  "hiddenRelatedNodes (startMoving event t) = hiddenRelatedNodes t"
  "hiddenNearEdges (startMoving event t) = hiddenNearEdges t"
  "hiddenComboTreeItems (startMoving event t) = hiddenComboTreeItems t"
  "throttledMoveNodes (startMoving event t) = (if throttle (options t) > 0 then Throttled \<lparr>th_wait = throttle (options t), th_previous = 0, th_timeout = None, th_args = None\<rparr> else Direct)"
  "graph (startMoving event t) = graph t"
  by (simp_all add: startMoving_def)

lemma findNearEdges_proj [simp]:
  "options (findNearEdges ids t) = options t"
  "debounced (findNearEdges ids t) = debounced t"
  "pointerDown (findNearEdges ids t) = pointerDown t"
  "dragging (findNearEdges ids t) = dragging t"
  "selectedNodeIds (findNearEdges ids t) = selectedNodeIds t"
  "originPositions (findNearEdges ids t) = originPositions t"
  "originX (findNearEdges ids t) = originX t"
  "originY (findNearEdges ids t) = originY t"
  "hiddenEdges (findNearEdges ids t) = hiddenEdges t"
  "hiddenRelatedNodes (findNearEdges ids t) = hiddenRelatedNodes t"
  "hiddenNearEdges (findNearEdges ids t) = filter (\<lambda>edge. edge_id edge \<notin> set (map edge_id (hiddenEdges t))) (uniq (concat (map (\<lambda>nodeId. getNearEdgesData (graph t) nodeId isPolylineWithObstacleAvoidance) ids)))"
  "hiddenComboTreeItems (findNearEdges ids t) = hiddenComboTreeItems t"
  "throttledMoveNodes (findNearEdges ids t) = throttledMoveNodes t"
  "graph (findNearEdges ids t) = graph t"
  by (simp_all add: findNearEdges_def Let_def getNearEdgesForNodes_def)

lemma showFarEdges_proj [simp]:
  "options (showFarEdges t) = options t"
  "debounced (showFarEdges t) = debounced t"
  "pointerDown (showFarEdges t) = pointerDown t"
  "dragging (showFarEdges t) = dragging t"
  "selectedNodeIds (showFarEdges t) = selectedNodeIds t"
  "originPositions (showFarEdges t) = originPositions t"
  "originX (showFarEdges t) = originX t"
  "originY (showFarEdges t) = originY t"
  "hiddenEdges (showFarEdges t) = hiddenEdges t"
  "hiddenRelatedNodes (showFarEdges t) = hiddenRelatedNodes t"
  "hiddenNearEdges (showFarEdges t) = hiddenNearEdges t"
  "hiddenComboTreeItems (showFarEdges t) = hiddenComboTreeItems t"
  "throttledMoveNodes (showFarEdges t) = throttledMoveNodes t"
  "graph (showFarEdges t) = fold (showFarEdge (map edge_id (hiddenNearEdges t))) (hiddenNearEdgesCache t) (graph t)"
  by (simp_all add: showFarEdges_def Let_def)

lemma hideNearEdges_proj [simp]:
  "options (hideNearEdges t) = options t"
  "debounced (hideNearEdges t) = debounced t"
  "pointerDown (hideNearEdges t) = pointerDown t"
  "dragging (hideNearEdges t) = dragging t"
  "selectedNodeIds (hideNearEdges t) = selectedNodeIds t"
  "originPositions (hideNearEdges t) = originPositions t"
  "originX (hideNearEdges t) = originX t"
  "originY (hideNearEdges t) = originY t"
  "hiddenEdges (hideNearEdges t) = hiddenEdges t"
  "hiddenRelatedNodes (hideNearEdges t) = hiddenRelatedNodes t"
  "hiddenNearEdges (hideNearEdges t) = hiddenNearEdges t"
  "hiddenComboTreeItems (hideNearEdges t) = hiddenComboTreeItems t"
  "throttledMoveNodes (hideNearEdges t) = throttledMoveNodes t"
  "graph (hideNearEdges t) = (if hiddenNearEdges t = [] then graph t else hideItem (map edge_id (hiddenNearEdges t)) (fold (\<lambda>edge. drawTransient TEdge (edge_id edge) EdgeT) (hiddenNearEdges t) (graph t)))"
  by (simp_all add: hideNearEdges_def Let_def)

lemma clearDelegate_proj [simp]:
  "options (clearDelegate t) = options t"
  "debounced (clearDelegate t) = debounced t"
  "pointerDown (clearDelegate t) = pointerDown t"
  "dragging (clearDelegate t) = dragging t"
  "selectedNodeIds (clearDelegate t) = selectedNodeIds t"
  "originPositions (clearDelegate t) = originPositions t"
  "originX (clearDelegate t) = originX t"
  "originY (clearDelegate t) = originY t"
  "hiddenEdges (clearDelegate t) = hiddenEdges t"
  "hiddenRelatedNodes (clearDelegate t) = hiddenRelatedNodes t"
  "hiddenNearEdges (clearDelegate t) = hiddenNearEdges t"
  "hiddenComboTreeItems (clearDelegate t) = hiddenComboTreeItems t"
  "throttledMoveNodes (clearDelegate t) = throttledMoveNodes t"
  "graph (clearDelegate t) = removeTransient TRect DELEGATE_SHAPE_ID (graph t)"
  by (simp_all add: clearDelegate_def)

lemma clearState_proj [simp]:
  "options (clearState t) = options t"
  "debounced (clearState t) = debounced t"
  "pointerDown (clearState t) = pointerDown t"
  "dragging (clearState t) = dragging t"
  "selectedNodeIds (clearState t) = selectedNodeIds t"
  "originPositions (clearState t) = []"
  "originX (clearState t) = originX t"
  "originY (clearState t) = originY t"
  "hiddenEdges (clearState t) = hiddenEdges t"
  "hiddenRelatedNodes (clearState t) = hiddenRelatedNodes t"
  "hiddenNearEdges (clearState t) = hiddenNearEdges t"
  "hiddenComboTreeItems (clearState t) = hiddenComboTreeItems t"
  "throttledMoveNodes (clearState t) = throttledMoveNodes t"
  "graph (clearState t) = graph t"
  by (simp_all add: clearState_def)

lemma moveDelegate_proj [simp]:
  "options (moveDelegate dx dy t) = options t"
  "debounced (moveDelegate dx dy t) = debounced t"
  "pointerDown (moveDelegate dx dy t) = pointerDown t"
  "dragging (moveDelegate dx dy t) = dragging t"
  "selectedNodeIds (moveDelegate dx dy t) = selectedNodeIds t"
  "originPositions (moveDelegate dx dy t) = originPositions t"
  "originX (moveDelegate dx dy t) = originX t"
  "originY (moveDelegate dx dy t) = originY t"
  "hiddenEdges (moveDelegate dx dy t) = hiddenEdges t"
  "hiddenRelatedNodes (moveDelegate dx dy t) = hiddenRelatedNodes t"
  "hiddenNearEdges (moveDelegate dx dy t) = hiddenNearEdges t"
  "hiddenComboTreeItems (moveDelegate dx dy t) = hiddenComboTreeItems t"
  "throttledMoveNodes (moveDelegate dx dy t) = throttledMoveNodes t"
  "graph (moveDelegate dx dy t) = drawTransient TRect DELEGATE_SHAPE_ID (RectT (delegateRect dx dy (originPositions t)) (delegateStyle (options t))) (graph t)"
  by (simp_all add: moveDelegate_def)


lemma applyMove_proj [simp]:
  "options (applyMove a t) = options t"
  "debounced (applyMove a t) = debounced t"
  "pointerDown (applyMove a t) = pointerDown t"
  "dragging (applyMove a t) = dragging t"
  "selectedNodeIds (applyMove a t) = selectedNodeIds t"
  "originPositions (applyMove a t) = originPositions t"
  "originX (applyMove a t) = originX t"
  "originY (applyMove a t) = originY t"
  "hiddenEdges (applyMove a t) = hiddenEdges t"
  "hiddenRelatedNodes (applyMove a t) = hiddenRelatedNodes t"
  "hiddenNearEdges (applyMove a t) = hiddenNearEdges t"
  "hiddenComboTreeItems (applyMove a t) = hiddenComboTreeItems t"
  "throttledMoveNodes (applyMove a t) = throttledMoveNodes t"
  "comboData (graph (applyMove a t)) = comboData (graph t)"
  "getRelatedEdgesData (graph (applyMove a t)) = getRelatedEdgesData (graph t)"
  "getNeighborNodesData (graph (applyMove a t)) = getNeighborNodesData (graph t)"
  "getNearEdgesData (graph (applyMove a t)) = getNearEdgesData (graph t)"
  "getRenderBBox (graph (applyMove a t)) = getRenderBBox (graph t)"
  "findIdByState (graph (applyMove a t)) = findIdByState (graph t)"
  "graphComboTreeDfs (graph (applyMove a t)) = graphComboTreeDfs (graph t)"
  "rendererType (graph (applyMove a t)) = rendererType (graph t)"
  "shapeIds (graph (applyMove a t)) = shapeIds (graph t)"
  "visibleShapeIds (graph (applyMove a t)) = visibleShapeIds (graph t)"
  "itemVisible (graph (applyMove a t)) = itemVisible (graph t)"
  "frontOrder (graph (applyMove a t)) = frontOrder (graph t)"
  "emitted (graph (applyMove a t)) = emitted (graph t)"
  "parents (graph (applyMove a t)) = parents (graph t)"
  by (simp_all add: applyMove_def moveNodes_def Let_def)

lemma callThrottled_proj [simp]:
  "options (callThrottled n a t) = options t"
  "debounced (callThrottled n a t) = debounced t"
  "pointerDown (callThrottled n a t) = pointerDown t"
  "dragging (callThrottled n a t) = dragging t"
  "selectedNodeIds (callThrottled n a t) = selectedNodeIds t"
  "originPositions (callThrottled n a t) = originPositions t"
  "originX (callThrottled n a t) = originX t"
  "originY (callThrottled n a t) = originY t"
  "hiddenEdges (callThrottled n a t) = hiddenEdges t"
  "hiddenRelatedNodes (callThrottled n a t) = hiddenRelatedNodes t"
  "hiddenNearEdges (callThrottled n a t) = hiddenNearEdges t"
  "hiddenComboTreeItems (callThrottled n a t) = hiddenComboTreeItems t"
  "comboData (graph (callThrottled n a t)) = comboData (graph t)"
  "getRelatedEdgesData (graph (callThrottled n a t)) = getRelatedEdgesData (graph t)"
  "getNeighborNodesData (graph (callThrottled n a t)) = getNeighborNodesData (graph t)"
  "getNearEdgesData (graph (callThrottled n a t)) = getNearEdgesData (graph t)"
  "getRenderBBox (graph (callThrottled n a t)) = getRenderBBox (graph t)"
  "findIdByState (graph (callThrottled n a t)) = findIdByState (graph t)"
  "graphComboTreeDfs (graph (callThrottled n a t)) = graphComboTreeDfs (graph t)"
  "rendererType (graph (callThrottled n a t)) = rendererType (graph t)"
  "shapeIds (graph (callThrottled n a t)) = shapeIds (graph t)"
  "visibleShapeIds (graph (callThrottled n a t)) = visibleShapeIds (graph t)"
  "itemVisible (graph (callThrottled n a t)) = itemVisible (graph t)"
  "frontOrder (graph (callThrottled n a t)) = frontOrder (graph t)"
  "emitted (graph (callThrottled n a t)) = emitted (graph t)"
  "parents (graph (callThrottled n a t)) = parents (graph t)"
  by (simp_all add: callThrottled_def Let_def split: throttled.splits)

lemma applyDelta_proj [simp]:
  "options (applyDelta event t) = options t"
  "debounced (applyDelta event t) = debounced t"
  "pointerDown (applyDelta event t) = pointerDown t"
  "dragging (applyDelta event t) = dragging t"
  "selectedNodeIds (applyDelta event t) = selectedNodeIds t"
  "originPositions (applyDelta event t) = originPositions t"
  "originX (applyDelta event t) = originX t"
  "originY (applyDelta event t) = originY t"
  "hiddenEdges (applyDelta event t) = hiddenEdges t"
  "hiddenRelatedNodes (applyDelta event t) = hiddenRelatedNodes t"
  "hiddenNearEdges (applyDelta event t) = hiddenNearEdges t"
  "hiddenComboTreeItems (applyDelta event t) = hiddenComboTreeItems t"
  "comboData (graph (applyDelta event t)) = comboData (graph t)"
  "getRelatedEdgesData (graph (applyDelta event t)) = getRelatedEdgesData (graph t)"
  "getNeighborNodesData (graph (applyDelta event t)) = getNeighborNodesData (graph t)"
  "getNearEdgesData (graph (applyDelta event t)) = getNearEdgesData (graph t)"
  "getRenderBBox (graph (applyDelta event t)) = getRenderBBox (graph t)"
  "findIdByState (graph (applyDelta event t)) = findIdByState (graph t)"
  "graphComboTreeDfs (graph (applyDelta event t)) = graphComboTreeDfs (graph t)"
  "rendererType (graph (applyDelta event t)) = rendererType (graph t)"
  "shapeIds (graph (applyDelta event t)) = shapeIds (graph t)"
  "visibleShapeIds (graph (applyDelta event t)) = visibleShapeIds (graph t)"
  "itemVisible (graph (applyDelta event t)) = itemVisible (graph t)"
  "frontOrder (graph (applyDelta event t)) = frontOrder (graph t)"
  "emitted (graph (applyDelta event t)) = emitted (graph t)"
  "parents (graph (applyDelta event t)) = parents (graph t)"
  by (simp_all add: applyDelta_def Let_def)

lemma updateNearEdges_proj [simp]:
  "options (updateNearEdges t) = options t"
  "debounced (updateNearEdges t) = debounced t"
  "pointerDown (updateNearEdges t) = pointerDown t"
  "dragging (updateNearEdges t) = dragging t"
  "selectedNodeIds (updateNearEdges t) = selectedNodeIds t"
  "originPositions (updateNearEdges t) = originPositions t"
  "originX (updateNearEdges t) = originX t"
  "originY (updateNearEdges t) = originY t"
  "hiddenEdges (updateNearEdges t) = hiddenEdges t"
  "hiddenRelatedNodes (updateNearEdges t) = hiddenRelatedNodes t"
  "hiddenComboTreeItems (updateNearEdges t) = hiddenComboTreeItems t"
  "throttledMoveNodes (updateNearEdges t) = throttledMoveNodes t"
  "nodeData (graph (updateNearEdges t)) = nodeData (graph t)"
  "comboData (graph (updateNearEdges t)) = comboData (graph t)"
  "getRelatedEdgesData (graph (updateNearEdges t)) = getRelatedEdgesData (graph t)"
  "getNeighborNodesData (graph (updateNearEdges t)) = getNeighborNodesData (graph t)"
  "getNearEdgesData (graph (updateNearEdges t)) = getNearEdgesData (graph t)"
  "getRenderBBox (graph (updateNearEdges t)) = getRenderBBox (graph t)"
  "findIdByState (graph (updateNearEdges t)) = findIdByState (graph t)"
  "graphComboTreeDfs (graph (updateNearEdges t)) = graphComboTreeDfs (graph t)"
  "rendererType (graph (updateNearEdges t)) = rendererType (graph t)"
  "shapeIds (graph (updateNearEdges t)) = shapeIds (graph t)"
  "frontOrder (graph (updateNearEdges t)) = frontOrder (graph t)"
  "emitted (graph (updateNearEdges t)) = emitted (graph t)"
  "parents (graph (updateNearEdges t)) = parents (graph t)"
  by (simp_all add: updateNearEdges_def Let_def)

lemma clearTransientItems_proj [simp]:
  "options (clearTransientItems ps t) = options t"
  "debounced (clearTransientItems ps t) = debounced t"
  "pointerDown (clearTransientItems ps t) = pointerDown t"
  "dragging (clearTransientItems ps t) = dragging t"
  "selectedNodeIds (clearTransientItems ps t) = selectedNodeIds t"
  "originPositions (clearTransientItems ps t) = originPositions t"
  "originX (clearTransientItems ps t) = originX t"
  "originY (clearTransientItems ps t) = originY t"
  "hiddenEdges (clearTransientItems ps t) = hiddenEdges t"
  "hiddenRelatedNodes (clearTransientItems ps t) = hiddenRelatedNodes t"
  "hiddenNearEdges (clearTransientItems ps t) = hiddenNearEdges t"
  "hiddenComboTreeItems (clearTransientItems ps t) = hiddenComboTreeItems t"
  "throttledMoveNodes (clearTransientItems ps t) = throttledMoveNodes t"
  "nodeData (graph (clearTransientItems ps t)) = nodeData (graph t)"
  "comboData (graph (clearTransientItems ps t)) = comboData (graph t)"
  "getRelatedEdgesData (graph (clearTransientItems ps t)) = getRelatedEdgesData (graph t)"
  "getNeighborNodesData (graph (clearTransientItems ps t)) = getNeighborNodesData (graph t)"
  "getNearEdgesData (graph (clearTransientItems ps t)) = getNearEdgesData (graph t)"
  "getRenderBBox (graph (clearTransientItems ps t)) = getRenderBBox (graph t)"
  "findIdByState (graph (clearTransientItems ps t)) = findIdByState (graph t)"
  "graphComboTreeDfs (graph (clearTransientItems ps t)) = graphComboTreeDfs (graph t)"
  "rendererType (graph (clearTransientItems ps t)) = rendererType (graph t)"
  "shapeIds (graph (clearTransientItems ps t)) = shapeIds (graph t)"
  "visibleShapeIds (graph (clearTransientItems ps t)) = visibleShapeIds (graph t)"
  "itemVisible (graph (clearTransientItems ps t)) = itemVisible (graph t)"
  "frontOrder (graph (clearTransientItems ps t)) = frontOrder (graph t)"
  "emitted (graph (clearTransientItems ps t)) = emitted (graph t)"
  "parents (graph (clearTransientItems ps t)) = parents (graph t)"
  by (simp_all add: clearTransientItems_def)

lemma showCached_proj [simp]:
  "options (showCached i t) = options t"
  "debounced (showCached i t) = debounced t"
  "pointerDown (showCached i t) = pointerDown t"
  "dragging (showCached i t) = dragging t"
  "selectedNodeIds (showCached i t) = selectedNodeIds t"
  "originPositions (showCached i t) = originPositions t"
  "originX (showCached i t) = originX t"
  "originY (showCached i t) = originY t"
  "hiddenEdges (showCached i t) = hiddenEdges t"
  "hiddenRelatedNodes (showCached i t) = hiddenRelatedNodes t"
  "hiddenNearEdges (showCached i t) = hiddenNearEdges t"
  "hiddenComboTreeItems (showCached i t) = hiddenComboTreeItems t"
  "throttledMoveNodes (showCached i t) = throttledMoveNodes t"
  "nodeData (graph (showCached i t)) = nodeData (graph t)"
  "comboData (graph (showCached i t)) = comboData (graph t)"
  "getRelatedEdgesData (graph (showCached i t)) = getRelatedEdgesData (graph t)"
  "getNeighborNodesData (graph (showCached i t)) = getNeighborNodesData (graph t)"
  "getNearEdgesData (graph (showCached i t)) = getNearEdgesData (graph t)"
  "getRenderBBox (graph (showCached i t)) = getRenderBBox (graph t)"
  "findIdByState (graph (showCached i t)) = findIdByState (graph t)"
  "graphComboTreeDfs (graph (showCached i t)) = graphComboTreeDfs (graph t)"
  "rendererType (graph (showCached i t)) = rendererType (graph t)"
  "shapeIds (graph (showCached i t)) = shapeIds (graph t)"
  "transients (graph (showCached i t)) = transients (graph t)"
  "frontOrder (graph (showCached i t)) = frontOrder (graph t)"
  "emitted (graph (showCached i t)) = emitted (graph t)"
  "parents (graph (showCached i t)) = parents (graph t)"
  by (simp_all add: showCached_def)

lemma showDefault_proj [simp]:
  "options (showDefault i t) = options t"
  "debounced (showDefault i t) = debounced t"
  "pointerDown (showDefault i t) = pointerDown t"
  "dragging (showDefault i t) = dragging t"
  "selectedNodeIds (showDefault i t) = selectedNodeIds t"
  "originPositions (showDefault i t) = originPositions t"
  "originX (showDefault i t) = originX t"
  "originY (showDefault i t) = originY t"
  "hiddenEdges (showDefault i t) = hiddenEdges t"
  "hiddenRelatedNodes (showDefault i t) = hiddenRelatedNodes t"
  "hiddenNearEdges (showDefault i t) = hiddenNearEdges t"
  "hiddenComboTreeItems (showDefault i t) = hiddenComboTreeItems t"
  "throttledMoveNodes (showDefault i t) = throttledMoveNodes t"
  "nodeData (graph (showDefault i t)) = nodeData (graph t)"
  "comboData (graph (showDefault i t)) = comboData (graph t)"
  "getRelatedEdgesData (graph (showDefault i t)) = getRelatedEdgesData (graph t)"
  "getNeighborNodesData (graph (showDefault i t)) = getNeighborNodesData (graph t)"
  "getNearEdgesData (graph (showDefault i t)) = getNearEdgesData (graph t)"
  "getRenderBBox (graph (showDefault i t)) = getRenderBBox (graph t)"
  "findIdByState (graph (showDefault i t)) = findIdByState (graph t)"
  "graphComboTreeDfs (graph (showDefault i t)) = graphComboTreeDfs (graph t)"
  "rendererType (graph (showDefault i t)) = rendererType (graph t)"
  "shapeIds (graph (showDefault i t)) = shapeIds (graph t)"
  "transients (graph (showDefault i t)) = transients (graph t)"
  "frontOrder (graph (showDefault i t)) = frontOrder (graph t)"
  "emitted (graph (showDefault i t)) = emitted (graph t)"
  "parents (graph (showDefault i t)) = parents (graph t)"
  by (simp_all add: showDefault_def)

lemma fold_showCached_proj [simp]:
  "options (fold showCached ids t) = options t"
  "debounced (fold showCached ids t) = debounced t"
  "pointerDown (fold showCached ids t) = pointerDown t"
  "dragging (fold showCached ids t) = dragging t"
  "selectedNodeIds (fold showCached ids t) = selectedNodeIds t"
  "originPositions (fold showCached ids t) = originPositions t"
  "originX (fold showCached ids t) = originX t"
  "originY (fold showCached ids t) = originY t"
  "hiddenEdges (fold showCached ids t) = hiddenEdges t"
  "hiddenRelatedNodes (fold showCached ids t) = hiddenRelatedNodes t"
  "hiddenNearEdges (fold showCached ids t) = hiddenNearEdges t"
  "hiddenComboTreeItems (fold showCached ids t) = hiddenComboTreeItems t"
  "throttledMoveNodes (fold showCached ids t) = throttledMoveNodes t"
  "nodeData (graph (fold showCached ids t)) = nodeData (graph t)"
  "comboData (graph (fold showCached ids t)) = comboData (graph t)"
  "getRelatedEdgesData (graph (fold showCached ids t)) = getRelatedEdgesData (graph t)"
  "getNeighborNodesData (graph (fold showCached ids t)) = getNeighborNodesData (graph t)"
  "getNearEdgesData (graph (fold showCached ids t)) = getNearEdgesData (graph t)"
  "getRenderBBox (graph (fold showCached ids t)) = getRenderBBox (graph t)"
  "findIdByState (graph (fold showCached ids t)) = findIdByState (graph t)"
  "graphComboTreeDfs (graph (fold showCached ids t)) = graphComboTreeDfs (graph t)"
  "rendererType (graph (fold showCached ids t)) = rendererType (graph t)"
  "shapeIds (graph (fold showCached ids t)) = shapeIds (graph t)"
  "transients (graph (fold showCached ids t)) = transients (graph t)"
  "frontOrder (graph (fold showCached ids t)) = frontOrder (graph t)"
  "emitted (graph (fold showCached ids t)) = emitted (graph t)"
  "parents (graph (fold showCached ids t)) = parents (graph t)"
  by (induction ids arbitrary: t) simp_all

lemma fold_showDefault_proj [simp]:
  "options (fold showDefault ids t) = options t"
  "debounced (fold showDefault ids t) = debounced t"
  "pointerDown (fold showDefault ids t) = pointerDown t"
  "dragging (fold showDefault ids t) = dragging t"
  "selectedNodeIds (fold showDefault ids t) = selectedNodeIds t"
  "originPositions (fold showDefault ids t) = originPositions t"
  "originX (fold showDefault ids t) = originX t"
  "originY (fold showDefault ids t) = originY t"
  "hiddenEdges (fold showDefault ids t) = hiddenEdges t"
  "hiddenRelatedNodes (fold showDefault ids t) = hiddenRelatedNodes t"
  "hiddenNearEdges (fold showDefault ids t) = hiddenNearEdges t"
  "hiddenComboTreeItems (fold showDefault ids t) = hiddenComboTreeItems t"
  "throttledMoveNodes (fold showDefault ids t) = throttledMoveNodes t"
  "nodeData (graph (fold showDefault ids t)) = nodeData (graph t)"
  "comboData (graph (fold showDefault ids t)) = comboData (graph t)"
  "getRelatedEdgesData (graph (fold showDefault ids t)) = getRelatedEdgesData (graph t)"
  "getNeighborNodesData (graph (fold showDefault ids t)) = getNeighborNodesData (graph t)"
  "getNearEdgesData (graph (fold showDefault ids t)) = getNearEdgesData (graph t)"
  "getRenderBBox (graph (fold showDefault ids t)) = getRenderBBox (graph t)"
  "findIdByState (graph (fold showDefault ids t)) = findIdByState (graph t)"
  "graphComboTreeDfs (graph (fold showDefault ids t)) = graphComboTreeDfs (graph t)"
  "rendererType (graph (fold showDefault ids t)) = rendererType (graph t)"
  "shapeIds (graph (fold showDefault ids t)) = shapeIds (graph t)"
  "transients (graph (fold showDefault ids t)) = transients (graph t)"
  "frontOrder (graph (fold showDefault ids t)) = frontOrder (graph t)"
  "emitted (graph (fold showDefault ids t)) = emitted (graph t)"
  "parents (graph (fold showDefault ids t)) = parents (graph t)"
  by (induction ids arbitrary: t) simp_all

lemma restoreEdges_proj [simp]:
  "options (restoreEdges t) = options t"
  "debounced (restoreEdges t) = debounced t"
  "pointerDown (restoreEdges t) = pointerDown t"
  "dragging (restoreEdges t) = dragging t"
  "selectedNodeIds (restoreEdges t) = selectedNodeIds t"
  "originPositions (restoreEdges t) = originPositions t"
  "originX (restoreEdges t) = originX t"
  "originY (restoreEdges t) = originY t"
  "hiddenEdges (restoreEdges t) = []"
  "hiddenRelatedNodes (restoreEdges t) = hiddenRelatedNodes t"
  "hiddenNearEdges (restoreEdges t) = hiddenNearEdges t"
  "hiddenComboTreeItems (restoreEdges t) = hiddenComboTreeItems t"
  "throttledMoveNodes (restoreEdges t) = throttledMoveNodes t"
  "nodeData (graph (restoreEdges t)) = nodeData (graph t)"
  "comboData (graph (restoreEdges t)) = comboData (graph t)"
  "getRelatedEdgesData (graph (restoreEdges t)) = getRelatedEdgesData (graph t)"
  "getNeighborNodesData (graph (restoreEdges t)) = getNeighborNodesData (graph t)"
  "getNearEdgesData (graph (restoreEdges t)) = getNearEdgesData (graph t)"
  "getRenderBBox (graph (restoreEdges t)) = getRenderBBox (graph t)"
  "findIdByState (graph (restoreEdges t)) = findIdByState (graph t)"
  "graphComboTreeDfs (graph (restoreEdges t)) = graphComboTreeDfs (graph t)"
  "rendererType (graph (restoreEdges t)) = rendererType (graph t)"
  "shapeIds (graph (restoreEdges t)) = shapeIds (graph t)"
  "transients (graph (restoreEdges t)) = transients (graph t)"
  "frontOrder (graph (restoreEdges t)) = frontOrder (graph t)"
  "emitted (graph (restoreEdges t)) = emitted (graph t)"
  "parents (graph (restoreEdges t)) = parents (graph t)"
  by (simp_all add: restoreEdges_def)

lemma restoreNeighbours_proj [simp]:
  "options (restoreNeighbours t) = options t"
  "debounced (restoreNeighbours t) = debounced t"
  "pointerDown (restoreNeighbours t) = pointerDown t"
  "dragging (restoreNeighbours t) = dragging t"
  "selectedNodeIds (restoreNeighbours t) = selectedNodeIds t"
  "originPositions (restoreNeighbours t) = originPositions t"
  "originX (restoreNeighbours t) = originX t"
  "originY (restoreNeighbours t) = originY t"
  "hiddenEdges (restoreNeighbours t) = hiddenEdges t"
  "hiddenRelatedNodes (restoreNeighbours t) = []"
  "hiddenNearEdges (restoreNeighbours t) = hiddenNearEdges t"
  "hiddenComboTreeItems (restoreNeighbours t) = hiddenComboTreeItems t"
  "throttledMoveNodes (restoreNeighbours t) = throttledMoveNodes t"
  "nodeData (graph (restoreNeighbours t)) = nodeData (graph t)"
  "comboData (graph (restoreNeighbours t)) = comboData (graph t)"
  "getRelatedEdgesData (graph (restoreNeighbours t)) = getRelatedEdgesData (graph t)"
  "getNeighborNodesData (graph (restoreNeighbours t)) = getNeighborNodesData (graph t)"
  "getNearEdgesData (graph (restoreNeighbours t)) = getNearEdgesData (graph t)"
  "getRenderBBox (graph (restoreNeighbours t)) = getRenderBBox (graph t)"
  "findIdByState (graph (restoreNeighbours t)) = findIdByState (graph t)"
  "graphComboTreeDfs (graph (restoreNeighbours t)) = graphComboTreeDfs (graph t)"
  "rendererType (graph (restoreNeighbours t)) = rendererType (graph t)"
  "shapeIds (graph (restoreNeighbours t)) = shapeIds (graph t)"
  "transients (graph (restoreNeighbours t)) = transients (graph t)"
  "frontOrder (graph (restoreNeighbours t)) = frontOrder (graph t)"
  "emitted (graph (restoreNeighbours t)) = emitted (graph t)"
  "parents (graph (restoreNeighbours t)) = parents (graph t)"
  by (simp_all add: restoreNeighbours_def)

lemma restoreNearEdges_proj [simp]:
  "options (restoreNearEdges t) = options t"
  "debounced (restoreNearEdges t) = debounced t"
  "pointerDown (restoreNearEdges t) = pointerDown t"
  "dragging (restoreNearEdges t) = dragging t"
  "selectedNodeIds (restoreNearEdges t) = selectedNodeIds t"
  "originPositions (restoreNearEdges t) = originPositions t"
  "originX (restoreNearEdges t) = originX t"
  "originY (restoreNearEdges t) = originY t"
  "hiddenEdges (restoreNearEdges t) = hiddenEdges t"
  "hiddenRelatedNodes (restoreNearEdges t) = hiddenRelatedNodes t"
  "hiddenNearEdges (restoreNearEdges t) = []"
  "hiddenComboTreeItems (restoreNearEdges t) = hiddenComboTreeItems t"
  "throttledMoveNodes (restoreNearEdges t) = throttledMoveNodes t"
  "nodeData (graph (restoreNearEdges t)) = nodeData (graph t)"
  "comboData (graph (restoreNearEdges t)) = comboData (graph t)"
  "getRelatedEdgesData (graph (restoreNearEdges t)) = getRelatedEdgesData (graph t)"
  "getNeighborNodesData (graph (restoreNearEdges t)) = getNeighborNodesData (graph t)"
  "getNearEdgesData (graph (restoreNearEdges t)) = getNearEdgesData (graph t)"
  "getRenderBBox (graph (restoreNearEdges t)) = getRenderBBox (graph t)"
  "findIdByState (graph (restoreNearEdges t)) = findIdByState (graph t)"
  "graphComboTreeDfs (graph (restoreNearEdges t)) = graphComboTreeDfs (graph t)"
  "rendererType (graph (restoreNearEdges t)) = rendererType (graph t)"
  "shapeIds (graph (restoreNearEdges t)) = shapeIds (graph t)"
  "transients (graph (restoreNearEdges t)) = transients (graph t)"
  "frontOrder (graph (restoreNearEdges t)) = frontOrder (graph t)"
  "emitted (graph (restoreNearEdges t)) = emitted (graph t)"
  "parents (graph (restoreNearEdges t)) = parents (graph t)"
  by (simp_all add: restoreNearEdges_def)

lemma restoreComboTree_proj [simp]:
  "options (restoreComboTree t) = options t"
  "debounced (restoreComboTree t) = debounced t"
  "pointerDown (restoreComboTree t) = pointerDown t"
  "dragging (restoreComboTree t) = dragging t"
  "selectedNodeIds (restoreComboTree t) = selectedNodeIds t"
  "originPositions (restoreComboTree t) = originPositions t"
  "originX (restoreComboTree t) = originX t"
  "originY (restoreComboTree t) = originY t"
  "hiddenEdges (restoreComboTree t) = hiddenEdges t"
  "hiddenRelatedNodes (restoreComboTree t) = hiddenRelatedNodes t"
  "hiddenNearEdges (restoreComboTree t) = hiddenNearEdges t"
  "hiddenComboTreeItems (restoreComboTree t) = []"
  "throttledMoveNodes (restoreComboTree t) = throttledMoveNodes t"
  "nodeData (graph (restoreComboTree t)) = nodeData (graph t)"
  "comboData (graph (restoreComboTree t)) = comboData (graph t)"
  "getRelatedEdgesData (graph (restoreComboTree t)) = getRelatedEdgesData (graph t)"
  "getNeighborNodesData (graph (restoreComboTree t)) = getNeighborNodesData (graph t)"
  "getNearEdgesData (graph (restoreComboTree t)) = getNearEdgesData (graph t)"
  "getRenderBBox (graph (restoreComboTree t)) = getRenderBBox (graph t)"
  "findIdByState (graph (restoreComboTree t)) = findIdByState (graph t)"
  "graphComboTreeDfs (graph (restoreComboTree t)) = graphComboTreeDfs (graph t)"
  "rendererType (graph (restoreComboTree t)) = rendererType (graph t)"
  "shapeIds (graph (restoreComboTree t)) = shapeIds (graph t)"
  "transients (graph (restoreComboTree t)) = transients (graph t)"
  "frontOrder (graph (restoreComboTree t)) = frontOrder (graph t)"
  "emitted (graph (restoreComboTree t)) = emitted (graph t)"
  "parents (graph (restoreComboTree t)) = parents (graph t)"
  by (simp_all add: restoreComboTree_def)

lemma onPointerUp_proj [simp]:
  "options (onPointerUp event t) = options t"
  "debounced (onPointerUp event t) = debounced t @ [(enableTransientNow t, originPositions t)]"
  "pointerDown (onPointerUp event t) = None"
  "dragging (onPointerUp event t) = False"
  "selectedNodeIds (onPointerUp event t) = []"
  "originPositions (onPointerUp event t) = originPositions t"
  "originX (onPointerUp event t) = originX t"
  "originY (onPointerUp event t) = originY t"
  "hiddenEdges (onPointerUp event t) = hiddenEdges t"
  "hiddenRelatedNodes (onPointerUp event t) = hiddenRelatedNodes t"
  "hiddenNearEdges (onPointerUp event t) = hiddenNearEdges t"
  "hiddenComboTreeItems (onPointerUp event t) = hiddenComboTreeItems t"
  "throttledMoveNodes (onPointerUp event t) = throttledMoveNodes t"
  "comboData (graph (onPointerUp event t)) = comboData (graph t)"
  "getRelatedEdgesData (graph (onPointerUp event t)) = getRelatedEdgesData (graph t)"
  "getNeighborNodesData (graph (onPointerUp event t)) = getNeighborNodesData (graph t)"
  "getNearEdgesData (graph (onPointerUp event t)) = getNearEdgesData (graph t)"
  "getRenderBBox (graph (onPointerUp event t)) = getRenderBBox (graph t)"
  "findIdByState (graph (onPointerUp event t)) = findIdByState (graph t)"
  "graphComboTreeDfs (graph (onPointerUp event t)) = graphComboTreeDfs (graph t)"
  "rendererType (graph (onPointerUp event t)) = rendererType (graph t)"
  "shapeIds (graph (onPointerUp event t)) = shapeIds (graph t)"
  "visibleShapeIds (graph (onPointerUp event t)) = visibleShapeIds (graph t)"
  "itemVisible (graph (onPointerUp event t)) = itemVisible (graph t)"
  "transients (graph (onPointerUp event t)) = transients (graph t)"
  "frontOrder (graph (onPointerUp event t)) = frontOrder (graph t)"
  "emitted (graph (onPointerUp event t)) = emitted (graph t)"
  "parents (graph (onPointerUp event t)) = parents (graph t)"
  by (simp_all add: onPointerUp_def moveNodes_def debounce_def Let_def enableTransientNow_def)


text \<open>
  Restoring with positions never throws; it empties the four lists of hidden items and
  touches nothing of the graph but visibility.
\<close>

lemma restoreHiddenItems_Some:
  "\<exists>t'. restoreHiddenItems (Some ps) t = Inr t'
     \<and> options t' = options t \<and> originPositions t' = originPositions t
     \<and> originX t' = originX t \<and> originY t' = originY t
     \<and> debounced t' = debounced t
     \<and> hiddenEdges t' = [] \<and> hiddenRelatedNodes t' = [] \<and> hiddenNearEdges t' = []
     \<and> hiddenComboTreeItems t' = []
     \<and> nodeData (graph t') = nodeData (graph t) \<and> emitted (graph t') = emitted (graph t)
     \<and> transients (graph t') = transients (graph t)"
  by (simp add: restoreHiddenItems_def restoreDragged_def Let_def enableTransientNow_def)

lemma onPointerUp_nodeData:
  "nodeData (graph (onPointerUp event t)) =
     fold updatePosition1
       (map (\<lambda>p. (pos_id p, pos_x p + (pt_x (canvas event) - originX t + 1 / 100),
                   pos_y p + (pt_y (canvas event) - originY t + 1 / 100))) (originPositions t))
       (nodeData (graph t))"
  by (simp add: onPointerUp_def moveNodes_def Let_def debounce_def updateNodePosition_def)



section \<open>Pointer up and the settling callback\<close>

text \<open>
  With transient drawing off and one node in the snapshot, pointer up followed by the
  timer of its debounced callback leaves the node at its snapshot position plus the
  pointer delta plus 0.01 on each axis, and emits the completion event, when one is
  named, with the id of the node.
\<close>

lemma pointer_up_then_settle:
  assumes op: "originPositions this = [p]"
    and nd: "nodeData (graph this) (pos_id p) = Some n"
    and tr: "\<not> enableTransient (options this)"
    and db: "debounced this = []"
  shows "\<exists>this'. debounceTimer (onPointerUp event this) = Inr this'
     \<and> nodeData (graph this') (pos_id p) =
         Some (n\<lparr>node_x := pos_x p + (pt_x (canvas event) - originX this + 1 / 100),
                 node_y := pos_y p + (pt_y (canvas event) - originY this + 1 / 100)\<rparr>)
     \<and> emitted (graph this') =
         (if eventName (options this) \<noteq> []
          then emitted (graph this) @ [(eventName (options this), [pos_id p])]
          else emitted (graph this))"
proof -
  let ?u = "onPointerUp event this"
  let ?ps = "originPositions this"
  have u_nd: "nodeData (graph ?u) (pos_id p) =
         Some (n\<lparr>node_x := pos_x p + (pt_x (canvas event) - originX this + 1 / 100),
                 node_y := pos_y p + (pt_y (canvas event) - originY this + 1 / 100)\<rparr>)"
    by (simp add: onPointerUp_nodeData op nd updatePosition1_def)
  have u_db: "debounced ?u = [(False, ?ps)]"
    by (simp add: db enableTransientNow_def tr)
  let ?v = "(if enableDelegate (options this) then clearDelegate (?u\<lparr>debounced := []\<rparr>)
             else ?u\<lparr>debounced := []\<rparr>)"
  have v: "options ?v = options this" "nodeData (graph ?v) = nodeData (graph ?u)"
     "emitted (graph ?v) = emitted (graph this)"
    by simp_all
  obtain t' where t': "restoreHiddenItems (Some ?ps) ?v = Inr t'" "options t' = options ?v"
     "nodeData (graph t') = nodeData (graph ?v)" "emitted (graph t') = emitted (graph ?v)"
    using restoreHiddenItems_Some[of ?ps ?v] by blast
  have "debounceTimer ?u = onPointerUp_callback False ?ps (?u\<lparr>debounced := []\<rparr>)"
    by (simp add: debounceTimer_def db tr enableTransientNow_def)
  also have "\<dots> = Inr (clearState (if eventName (options this) \<noteq> []
       then t'\<lparr>graph := emit (eventName (options this)) (map pos_id ?ps) (graph t')\<rparr> else t'))"
    using t' v by (simp add: onPointerUp_callback_def Let_def bindE_def)
  finally show ?thesis using t' v u_nd
    by (auto simp add: clearState_def emit_def op)
qed

section \<open>The example drags\<close>

lemmas drag_defs = onPointerDown_def onPointerMove_def dragStart_def selectNodes_def startMoving_def
  snapshot_def snapshot1_def
  applyDelta_def callThrottled_def applyMove_def moveNodes_def updateNodePosition_def
  updatePosition1_def enableTransientNow_def frontItem_def bindE_def List.map_filter_def Let_def

lemma plain_options_simps:
  "enableTransient plain_options = False" "enableDelegate plain_options = False"
  "throttle plain_options = 0" "hideRelatedEdges plain_options = False"
  "eventName plain_options = ''dragend''" "updateComboStructure plain_options = True"
  "selectedState plain_options = ''selected''" "shouldBegin plain_options = Some (\<lambda>_. True)"
  by (simp_all add: plain_options_def DragNode_constructor_def Object_assign_def
      DEFAULT_OPTIONS_def)

lemma throttled_options_simps:
  "enableTransient throttled_options = False" "enableDelegate throttled_options = False"
  "throttle throttled_options = 16" "hideRelatedEdges throttled_options = False"
  "eventName throttled_options = ''dragend''" "updateComboStructure throttled_options = True"
  "selectedState throttled_options = ''selected''"
  "shouldBegin throttled_options = Some (\<lambda>_. True)"
  by (simp_all add: throttled_options_def DragNode_constructor_def Object_assign_def
      DEFAULT_OPTIONS_def)

text \<open>
  Without throttle, the two moves have put node \<open>a\<close> at (220, 90); the snapshot holds its
  position before the drag, and the reference point is the first move.
\<close>

lemma plain_drag_state:
  "\<exists>t. press_and_move (new_DragNode plain_options example_graph) = Inr t
     \<and> originPositions t = [\<lparr>pos_id = ''a'', pos_x = 200, pos_y = 100, pos_bbox = None\<rparr>]
     \<and> originX t = 210 \<and> originY t = 100
     \<and> nodeData (graph t) ''a'' =
         Some \<lparr>node_x = 220, node_y = 90, node_parentId = None,
               node_preventPolylineEdgeOverlap = False\<rparr>
     \<and> options t = plain_options \<and> debounced t = [] \<and> emitted (graph t) = []"
  by (simp add: press_and_move_def drag_defs plain_options_simps pointer_def new_DragNode_def
      example_graph_def)

text \<open>
  With the throttle of 16 ms, the first move went through (with a delta of zero) and the
  second, 5 ms later, waits for the trailing timer: node \<open>a\<close> is still at (200, 100).
\<close>

lemma throttled_drag_state:
  "\<exists>t. press_and_move (new_DragNode throttled_options example_graph) = Inr t
     \<and> originPositions t = [\<lparr>pos_id = ''a'', pos_x = 200, pos_y = 100, pos_bbox = None\<rparr>]
     \<and> originX t = 210 \<and> originY t = 100
     \<and> nodeData (graph t) ''a'' =
         Some \<lparr>node_x = 200, node_y = 100, node_parentId = None,
               node_preventPolylineEdgeOverlap = False\<rparr>
     \<and> throttledMoveNodes t =
         Throttled \<lparr>th_wait = 16, th_previous = 1010, th_timeout = Some 1026,
                    th_args = Some (20, - 10, False, False)\<rparr>
     \<and> pointerDown t = Some \<lparr>pt_x = 200, pt_y = 100\<rparr> \<and> dragging t
     \<and> options t = throttled_options \<and> debounced t = [] \<and> emitted (graph t) = []"
  by (simp add: press_and_move_def drag_defs throttled_options_simps pointer_def
      new_DragNode_def example_graph_def)

section \<open>The committed position of a plain drag\<close>

text \<open>
  C1, as the code has it. Node \<open>a\<close> is dragged from (200, 100) with transient drawing
  off; the pointer is released at a cumulative delta of (50, -30) from the reference
  point of the drag. Pointer up, followed by the timer of its debounced callback, commits
  the position (250.01, 70.01) of node \<open>a\<close>: \<^verbatim>\<open>onPointerUp\<close> adds 0.01 to the delta on
  each axis. When the event name is \<open>dragend\<close>, the event \<open>dragend\<close> is emitted with the
  item ids \<open>[a]\<close>. The throttle plays no part.
\<close>

theorem drag_commit_offset:
  assumes "originPositions this = [\<lparr>pos_id = ''a'', pos_x = 200, pos_y = 100, pos_bbox = b\<rparr>]"
    and "nodeData (graph this) ''a'' = Some n"
    and "\<not> enableTransient (options this)"
    and "debounced this = []"
    and "pt_x (canvas event) - originX this = 50"
    and "pt_y (canvas event) - originY this = - 30"
  shows "\<exists>this'. debounceTimer (onPointerUp event this) = Inr this'
     \<and> nodeData (graph this') ''a'' = Some (n\<lparr>node_x := 250 + 1 / 100, node_y := 70 + 1 / 100\<rparr>)
     \<and> (eventName (options this) = ''dragend'' \<longrightarrow>
          emitted (graph this') = emitted (graph this) @ [(''dragend'', [''a''])])"
  using pointer_up_then_settle
    [of this "\<lparr>pos_id = ''a'', pos_x = 200, pos_y = 100, pos_bbox = b\<rparr>" n event] assms
  by auto

theorem drag_commit_offset_witness:
  "\<exists>t this'. press_and_move (new_DragNode plain_options example_graph) = Inr t
     \<and> debounceTimer (onPointerUp (pointer 260 70 (Some ''a'') 1030) t) = Inr this'
     \<and> nodeData (graph this') ''a'' =
         Some \<lparr>node_x = 250 + 1 / 100, node_y = 70 + 1 / 100, node_parentId = None,
               node_preventPolylineEdgeOverlap = False\<rparr>
     \<and> emitted (graph this') = [(''dragend'', [''a''])]"
proof -
  obtain t where t: "press_and_move (new_DragNode plain_options example_graph) = Inr t"
     "originPositions t = [\<lparr>pos_id = ''a'', pos_x = 200, pos_y = 100, pos_bbox = None\<rparr>]"
     "originX t = 210" "originY t = 100"
     "nodeData (graph t) ''a'' =
        Some \<lparr>node_x = 220, node_y = 90, node_parentId = None,
              node_preventPolylineEdgeOverlap = False\<rparr>"
     "options t = plain_options" "debounced t = []" "emitted (graph t) = []"
    using plain_drag_state by blast
  show ?thesis
    using drag_commit_offset[of t None _ "pointer 260 70 (Some ''a'') 1030"] t
    by (simp add: plain_options_simps pointer_def)
qed

text \<open>
  The claim as stated fails on this drag: the committed position of node \<open>a\<close> is not
  (250, 70).
\<close>

theorem drag_commit_exact_counterexample:
  "\<not> (\<exists>t this'. press_and_move (new_DragNode plain_options example_graph) = Inr t
     \<and> debounceTimer (onPointerUp (pointer 260 70 (Some ''a'') 1030) t) = Inr this'
     \<and> map_option (\<lambda>n. (node_x n, node_y n)) (nodeData (graph this') ''a'') = Some (250, 70))"
proof -
  obtain t where t: "press_and_move (new_DragNode plain_options example_graph) = Inr t"
     "originPositions t = [\<lparr>pos_id = ''a'', pos_x = 200, pos_y = 100, pos_bbox = None\<rparr>]"
     "originX t = 210" "originY t = 100"
     "nodeData (graph t) ''a'' =
        Some \<lparr>node_x = 220, node_y = 90, node_parentId = None,
              node_preventPolylineEdgeOverlap = False\<rparr>"
     "options t = plain_options" "debounced t = []" "emitted (graph t) = []"
    using plain_drag_state by blast
  show ?thesis
    using pointer_up_then_settle
      [of t "\<lparr>pos_id = ''a'', pos_x = 200, pos_y = 100, pos_bbox = None\<rparr>" _
          "pointer 260 70 (Some ''a'') 1030"] t
    by (auto simp add: plain_options_simps pointer_def)
qed

section \<open>Restoring the hidden items\<close>

text \<open>
  An item all of whose sub-shapes are visible stays so under every \<^verbatim>\<open>showItem\<close>.
\<close>

lemma showItem_full:
  "visibleShapeIds g i = shapeIds g i \<Longrightarrow> visibleShapeIds (showItem j s g) i = shapeIds g i"
  by (cases s) (auto simp add: showItem_def)

lemma showCached_full:
  "visibleShapeIds (graph t) i = shapeIds (graph t) i \<Longrightarrow>
   visibleShapeIds (graph (showCached j t)) i = shapeIds (graph t) i"
  by (simp add: showCached_def showItem_full)

lemma showDefault_full:
  "visibleShapeIds (graph t) i = shapeIds (graph t) i \<Longrightarrow>
   visibleShapeIds (graph (showDefault j t)) i = shapeIds (graph t) i"
  by (simp add: showDefault_def showItem_full)

lemma fold_showCached_full:
  "visibleShapeIds (graph t) i = shapeIds (graph t) i \<Longrightarrow>
   visibleShapeIds (graph (fold showCached ids t)) i = shapeIds (graph t) i"
proof (induction ids arbitrary: t)
  case Nil
  then show ?case by simp
next
  case (Cons j ids)
  from Cons.prems have "visibleShapeIds (graph (showCached j t)) i = shapeIds (graph (showCached j t)) i"
    by (simp add: showCached_full)
  from Cons.IH[OF this] show ?case by simp
qed

lemma fold_showDefault_full:
  "visibleShapeIds (graph t) i = shapeIds (graph t) i \<Longrightarrow>
   visibleShapeIds (graph (fold showDefault ids t)) i = shapeIds (graph t) i"
proof (induction ids arbitrary: t)
  case Nil
  then show ?case by simp
next
  case (Cons j ids)
  from Cons.prems have "visibleShapeIds (graph (showDefault j t)) i = shapeIds (graph (showDefault j t)) i"
    by (simp add: showDefault_full)
  from Cons.IH[OF this] show ?case by simp
qed

lemma fold_showDefault_shows_all:
  "i \<in> set ids \<Longrightarrow> visibleShapeIds (graph (fold showDefault ids t)) i = shapeIds (graph t) i"
proof (induction ids arbitrary: t)
  case Nil
  then show ?case by simp
next
  case (Cons j ids)
  show ?case
  proof (cases "j = i")
    case True
    have "visibleShapeIds (graph (showDefault i t)) i = shapeIds (graph (showDefault i t)) i"
      by (simp add: showDefault_def showItem_def)
    from fold_showDefault_full[OF this, of ids] show ?thesis using True by simp
  next
    case False
    with Cons.prems have "i \<in> set ids" by simp
    from Cons.IH[OF this, of "showDefault j t"] show ?thesis by simp
  qed
qed

lemma showCached_cache_None:
  "hiddenShapeCache t i = None \<Longrightarrow> hiddenShapeCache (showCached j t) i = None"
  by (simp add: showCached_def)

lemma fold_showCached_cache_None:
  "hiddenShapeCache t i = None \<Longrightarrow> hiddenShapeCache (fold showCached ids t) i = None"
  by (induction ids arbitrary: t) (simp_all add: showCached_cache_None)

lemma fold_showCached_deletes:
  "i \<in> set ids \<Longrightarrow> hiddenShapeCache (fold showCached ids t) i = None"
proof (induction ids arbitrary: t)
  case Nil
  then show ?case by simp
next
  case (Cons j ids)
  show ?case
  proof (cases "j = i")
    case True
    have "hiddenShapeCache (showCached i t) i = None" by (simp add: showCached_def)
    from fold_showCached_cache_None[OF this, of ids] show ?thesis using True by simp
  next
    case False
    with Cons.prems have "i \<in> set ids" by simp
    from Cons.IH[OF this, of "showCached j t"] show ?thesis by simp
  qed
qed

lemma fold_showCached_uncached_shows_all:
  "i \<in> set ids \<Longrightarrow> hiddenShapeCache t i = None \<Longrightarrow>
   visibleShapeIds (graph (fold showCached ids t)) i = shapeIds (graph t) i"
proof (induction ids arbitrary: t)
  case Nil
  then show ?case by simp
next
  case (Cons j ids)
  show ?case
  proof (cases "j = i")
    case True
    have "visibleShapeIds (graph (showCached i t)) i = shapeIds (graph (showCached i t)) i"
      using Cons.prems(2) by (simp add: showCached_def showItem_def)
    from fold_showCached_full[OF this, of ids] show ?thesis using True by simp
  next
    case False
    with Cons.prems have "i \<in> set ids" by simp
    moreover have "hiddenShapeCache (showCached j t) i = None"
      using Cons.prems(2) by (rule showCached_cache_None)
    ultimately show ?thesis using Cons.IH[of "showCached j t"] by simp
  qed
qed


lemma restore_steps_full:
  assumes "visibleShapeIds (graph t) i = shapeIds (graph t) i"
  shows "visibleShapeIds (graph (restoreEdges t)) i = shapeIds (graph t) i"
    and "visibleShapeIds (graph (restoreNeighbours t)) i = shapeIds (graph t) i"
    and "visibleShapeIds (graph (restoreNearEdges t)) i = shapeIds (graph t) i"
    and "visibleShapeIds (graph (restoreComboTree t)) i = shapeIds (graph t) i"
  using assms
  by (simp_all add: restoreEdges_def restoreNeighbours_def restoreNearEdges_def
      restoreComboTree_def fold_showCached_full fold_showDefault_full)

lemma restoreDragged_full:
  assumes "visibleShapeIds (graph t) i = shapeIds (graph t) i"
    and "restoreDragged (Some ps) t = Inr t'"
  shows "visibleShapeIds (graph t') i = shapeIds (graph t) i"
proof (cases "enableTransientNow t")
  case True
  let ?u = "fold showCached (map pos_id (originPositions t)) t"
  have "visibleShapeIds (graph ?u) i = shapeIds (graph ?u) i"
    using assms(1) by (simp add: fold_showCached_full)
  from fold_showCached_full[OF this, of "map pos_id ps"] assms(2) True
  show ?thesis by (auto simp add: restoreDragged_def Let_def)
next
  case False
  with assms show ?thesis by (simp add: restoreDragged_def)
qed

text \<open>
  Whatever was visible before, restoring leaves every sub-shape of a near edge visible:
  the near edges are shown without \<^verbatim>\<open>shapeIds\<close>.
\<close>

lemma restore_near_edge_default:
  assumes e: "e \<in> set (hiddenNearEdges t)"
    and r: "restoreHiddenItems (Some ps) t = Inr t'"
  shows "visibleShapeIds (graph t') (edge_id e) = shapeIds (graph t) (edge_id e)"
proof -
  let ?i = "edge_id e"
  let ?t2 = "restoreNeighbours (restoreEdges t)"
  let ?t3 = "restoreNearEdges ?t2"
  let ?t4 = "restoreComboTree ?t3"
  have "?i \<in> set (map edge_id (hiddenNearEdges ?t2))" using e by simp
  from fold_showDefault_shows_all[OF this, of ?t2]
  have f3: "visibleShapeIds (graph ?t3) ?i = shapeIds (graph ?t3) ?i"
    by (simp add: restoreNearEdges_def)
  from restore_steps_full(4)[OF f3]
  have f4: "visibleShapeIds (graph ?t4) ?i = shapeIds (graph ?t4) ?i" by simp
  from r have "restoreDragged (Some ps) ?t4 = Inr t'" by (simp add: restoreHiddenItems_def)
  from restoreDragged_full[OF f4 this] show ?thesis by simp
qed

lemma restore_dragged_default:
  assumes tr: "enableTransientNow t"
    and p: "p \<in> set ps" and o: "pos_id p \<in> pos_id ` set (originPositions t)"
    and r: "restoreHiddenItems (Some ps) t = Inr t'"
  shows "visibleShapeIds (graph t') (pos_id p) = shapeIds (graph t) (pos_id p)"
proof -
  let ?i = "pos_id p"
  let ?t4 = "restoreComboTree (restoreNearEdges (restoreNeighbours (restoreEdges t)))"
  let ?u = "fold showCached (map pos_id (originPositions ?t4)) ?t4"
  have tr4: "enableTransientNow ?t4" using tr by (simp add: enableTransientNow_def)
  have "?i \<in> set (map pos_id (originPositions ?t4))" using o by simp
  from fold_showCached_deletes[OF this, of ?t4]
  have c: "hiddenShapeCache ?u ?i = None" .
  have "?i \<in> set (map pos_id ps)" using p by simp
  from fold_showCached_uncached_shows_all[OF this c]
  have "visibleShapeIds (graph (fold showCached (map pos_id ps) ?u)) ?i = shapeIds (graph t) ?i"
    by simp
  moreover from r tr4 have "t' = fold showCached (map pos_id ps) ?u"
    by (simp add: restoreHiddenItems_def restoreDragged_def Let_def)
  ultimately show ?thesis by simp
qed

text \<open>
  Pointer up and the timer of its callback: every near edge, and with transient drawing
  every dragged node (shown twice, the second time with its cache entry gone), ends with
  all of its sub-shapes visible.
\<close>

lemma settle_shows_all:
  assumes db: "debounced t = []"
  shows "\<exists>t'. debounceTimer (onPointerUp event t) = Inr t'
     \<and> (\<forall>e\<in>set (hiddenNearEdges t).
           visibleShapeIds (graph t') (edge_id e) = shapeIds (graph t) (edge_id e))
     \<and> (enableTransientNow t \<longrightarrow>
          (\<forall>p\<in>set (originPositions t).
             visibleShapeIds (graph t') (pos_id p) = shapeIds (graph t) (pos_id p)))"
proof -
  let ?ps = "originPositions t"
  let ?v = "(onPointerUp event t)\<lparr>debounced := []\<rparr>"
  let ?v1 = "if enableTransientNow t then clearTransientItems ?ps ?v else ?v"
  let ?v2 = "if enableDelegate (options ?v1) then clearDelegate ?v1 else ?v1"
  have v2: "hiddenNearEdges ?v2 = hiddenNearEdges t" "originPositions ?v2 = ?ps"
    "shapeIds (graph ?v2) = shapeIds (graph t)" "enableTransientNow ?v2 = enableTransientNow t"
    by (simp_all add: enableTransientNow_def)
  obtain t3 where t3: "restoreHiddenItems (Some ?ps) ?v2 = Inr t3"
    using restoreHiddenItems_Some[of ?ps ?v2] by blast
  let ?t' = "clearState (if eventName (options t3) \<noteq> []
      then t3\<lparr>graph := emit (eventName (options t3)) (map pos_id ?ps) (graph t3)\<rparr> else t3)"
  have run: "debounceTimer (onPointerUp event t) = Inr ?t'"
    using t3 by (simp add: debounceTimer_def db onPointerUp_callback_def Let_def bindE_def)
  have vis: "visibleShapeIds (graph ?t') = visibleShapeIds (graph t3)"
    by simp
  have near: "visibleShapeIds (graph t3) (edge_id e) = shapeIds (graph t) (edge_id e)"
    if "e \<in> set (hiddenNearEdges t)" for e
    using restore_near_edge_default[OF _ t3, of e] that v2 by simp
  have drag: "visibleShapeIds (graph t3) (pos_id p) = shapeIds (graph t) (pos_id p)"
    if "enableTransientNow t" "p \<in> set ?ps" for p
    using restore_dragged_default[OF _ _ _ t3, of p] that v2 by simp
  show ?thesis using run vis near drag by auto
qed


section \<open>A transient drag with a near edge\<close>

lemma default_options_simps:
  "enableTransient default_options = True" "enableDelegate default_options = False"
  "throttle default_options = 16" "hideRelatedEdges default_options = False"
  "eventName default_options = []" "updateComboStructure default_options = True"
  "selectedState default_options = ''selected''"
  "shouldBegin default_options = Some (\<lambda>_. True)"
  by (simp_all add: default_options_def DragNode_constructor_def Object_assign_def
      DEFAULT_OPTIONS_def)

text \<open>
  With transient drawing on and the combo structure updated, a first move past the
  threshold runs the steps of the drag start in order; a later move only updates the
  near edges and applies the delta.
\<close>

lemma first_move_transient:
  assumes pd: "pointerDown t = Some d"
    and far: "\<not> (\<bar>pt_x d - pt_x (canvas event)\<bar> < 1 \<and> \<bar>pt_y d - pt_y (canvas event)\<bar> < 1)"
    and rest: "\<not> dragging t" "updateComboStructure (options t)" "enableTransientNow t"
  shows "onPointerMove event t =
     Inr (applyDelta event (updateNearEdges (startMoving event
       (hideComboTree (hideNeighbours (hideEdges (hideSelected (drawEdges (drawSelected
          (findRelated [] (snapshot (selectNodes event t))))))))))))"
proof -
  have far': "(\<bar>pt_x d - pt_x (canvas event)\<bar> < 1 \<and> \<bar>pt_y d - pt_y (canvas event)\<bar> < 1) = False"
    using far by simp
  show ?thesis
    using pd rest
    by (simp add: onPointerMove_def dragStart_def drawTransients_def getComboTreeItems_def
        enableTransientNow_def Let_def bindE_def far')
qed

lemma later_move_transient:
  assumes pd: "pointerDown t = Some d"
    and far: "\<not> (\<bar>pt_x d - pt_x (canvas event)\<bar> < 1 \<and> \<bar>pt_y d - pt_y (canvas event)\<bar> < 1)"
    and rest: "dragging t" "enableTransientNow t"
  shows "onPointerMove event t = Inr (applyDelta event (updateNearEdges t))"
proof -
  have far': "(\<bar>pt_x d - pt_x (canvas event)\<bar> < 1 \<and> \<bar>pt_y d - pt_y (canvas event)\<bar> < 1) = False"
    using far by simp
  show ?thesis
    using pd rest
    by (simp add: onPointerMove_def enableTransientNow_def Let_def bindE_def far')
qed

lemma updateNearEdges_near:
  "hiddenNearEdges (updateNearEdges t) =
     (if filter (\<lambda>nodeId. isPointPreventPolylineOverlap (nodeData (graph t) nodeId))
           (selectedNodeIds t) = [] then hiddenNearEdges t
      else filter (\<lambda>edge. edge_id edge \<notin> set (map edge_id (hiddenEdges t)))
             (uniq (concat (map (\<lambda>nodeId. getNearEdgesData (graph t) nodeId
                                    isPolylineWithObstacleAvoidance)
                (filter (\<lambda>nodeId. isPointPreventPolylineOverlap (nodeData (graph t) nodeId))
                   (selectedNodeIds t))))))"
  by (simp add: updateNearEdges_def Let_def)

lemma applyDelta_nodeData:
  "enableTransientNow t \<or> enableDelegate (options t) \<Longrightarrow>
   nodeData (graph (applyDelta event t)) = nodeData (graph t)"
  by (auto simp add: applyDelta_def Let_def callThrottled_def applyMove_def moveNodes_def
      split: throttled.splits)

text \<open>
  The state of the drag of node \<open>a\<close> after its two moves: the edge \<open>b2c\<close> is held as a
  near edge, node \<open>a\<close> is in the snapshot.
\<close>

lemma near_drag_state:
  "\<exists>t. press_and_move (new_DragNode default_options near_graph) = Inr t
     \<and> debounced t = [] \<and> hiddenNearEdges t = [near_edge]
     \<and> originPositions t = [\<lparr>pos_id = ''a'', pos_x = 200, pos_y = 100, pos_bbox = None\<rparr>]
     \<and> enableTransientNow t
     \<and> shapeIds (graph t) = shapeIds near_graph"
proof -
  let ?e0 = "pointer 200 100 (Some ''a'') 1000"
  let ?e1 = "pointer 210 100 (Some ''a'') 1010"
  let ?e2 = "pointer 230 90 (Some ''a'') 1015"
  define u0 where "u0 = (new_DragNode default_options near_graph)
      \<lparr>pointerDown := Some \<lparr>pt_x = 200, pt_y = 100\<rparr>, dragging := False, mouseupOnce := [?e0]\<rparr>"
  have s0: "onPointerDown ?e0 (new_DragNode default_options near_graph) = Inr u0"
    by (simp add: onPointerDown_def u0_def new_DragNode_def default_options_simps pointer_def)
  have u0: "pointerDown u0 = Some \<lparr>pt_x = 200, pt_y = 100\<rparr>" "\<not> dragging u0"
    "options u0 = default_options" "graph u0 = near_graph" "debounced u0 = []"
    "hiddenNearEdges u0 = []"
    by (simp_all add: u0_def new_DragNode_def)
  have g: "rendererType near_graph = ''canvas''" "findIdByState near_graph = (\<lambda>s. [])"
    "nodeData near_graph ''a'' = Some \<lparr>node_x = 200, node_y = 100, node_parentId = None,
                      node_preventPolylineEdgeOverlap = True\<rparr>"
    "getRelatedEdgesData near_graph ''a'' = example_edges"
    "graphComboTreeDfs near_graph [] = []"
    "getNearEdgesData near_graph ''a'' isPolylineWithObstacleAvoidance = [near_edge]"
    by (simp_all add: near_graph_def example_graph_def example_edges_def near_edge_def
        isPolylineWithObstacleAvoidance_def)
  define t1 where "t1 = applyDelta ?e1 (updateNearEdges (startMoving ?e1
       (hideComboTree (hideNeighbours (hideEdges (hideSelected (drawEdges (drawSelected
          (findRelated [] (snapshot (selectNodes ?e1 u0)))))))))))"
  have s1: "onPointerMove ?e1 u0 = Inr t1"
    unfolding t1_def
    by (rule first_move_transient[where d="\<lparr>pt_x = 200, pt_y = 100\<rparr>"])
       (simp_all add: u0 default_options_simps enableTransientNow_def g pointer_def)
  have t1: "pointerDown t1 = Some \<lparr>pt_x = 200, pt_y = 100\<rparr>" "dragging t1"
    "options t1 = default_options" "debounced t1 = []" "selectedNodeIds t1 = [''a'']"
    "rendererType (graph t1) = ''canvas''"
    "originPositions t1 = [\<lparr>pos_id = ''a'', pos_x = 200, pos_y = 100, pos_bbox = None\<rparr>]"
    "hiddenEdges t1 = example_edges"
    "shapeIds (graph t1) = shapeIds near_graph"
    "getNearEdgesData (graph t1) = getNearEdgesData near_graph"
    by (simp_all add: t1_def u0 g pointer_def default_options_simps List.map_filter_def
        snapshot1_def uniq_def example_edges_def)
  have t1n: "nodeData (graph t1) = nodeData near_graph"
    unfolding t1_def
    by (subst applyDelta_nodeData) (simp_all add: enableTransientNow_def u0 g default_options_simps)
  define t2 where "t2 = applyDelta ?e2 (updateNearEdges t1)"
  have s2: "onPointerMove ?e2 t1 = Inr t2"
    unfolding t2_def
    by (rule later_move_transient[where d="\<lparr>pt_x = 200, pt_y = 100\<rparr>"])
       (simp_all add: t1 default_options_simps enableTransientNow_def pointer_def)
  have t2: "debounced t2 = []" "hiddenNearEdges t2 = [near_edge]"
    "originPositions t2 = [\<lparr>pos_id = ''a'', pos_x = 200, pos_y = 100, pos_bbox = None\<rparr>]"
    "enableTransientNow t2" "shapeIds (graph t2) = shapeIds near_graph"
    by (simp_all add: t2_def t1 t1n g updateNearEdges_near enableTransientNow_def
        default_options_simps uniq_def example_edges_def near_edge_def)
  show ?thesis
    using t2 by (simp add: press_and_move_def bindE_def s0 s1 s2)
qed

text \<open>
  C2 fails on the code. Node \<open>a\<close> of the graph \<open>near_graph\<close> is dragged with the
  default options: before the gesture only the key shapes are visible.
  After pointer up and the timer of its callback, the near edge \<open>b2c\<close> and the dragged
  node \<open>a\<close> have their label shapes visible as well: they were restored by the default
  show-everything restore, not with the sub-shape ids cached when they were hidden.
\<close>

theorem restore_default_show_at_failing_input:
  "\<exists>t t'. press_and_move (new_DragNode default_options near_graph) = Inr t
     \<and> debounceTimer (onPointerUp (pointer 260 70 (Some ''a'') 1030) t) = Inr t'
     \<and> visibleShapeIds near_graph ''b2c'' = [''keyShape'']
     \<and> visibleShapeIds (graph t') ''b2c'' = [''keyShape'', ''labelShape'']
     \<and> visibleShapeIds near_graph ''a'' = [''keyShape'']
     \<and> visibleShapeIds (graph t') ''a'' = [''keyShape'', ''labelShape'']"
proof -
  obtain t where t: "press_and_move (new_DragNode default_options near_graph) = Inr t"
    "debounced t = []" "hiddenNearEdges t = [near_edge]"
    "originPositions t = [\<lparr>pos_id = ''a'', pos_x = 200, pos_y = 100, pos_bbox = None\<rparr>]"
    "enableTransientNow t" "shapeIds (graph t) = shapeIds near_graph"
    using near_drag_state by blast
  obtain t' where t': "debounceTimer (onPointerUp (pointer 260 70 (Some ''a'') 1030) t) = Inr t'"
    "\<forall>e\<in>set (hiddenNearEdges t).
        visibleShapeIds (graph t') (edge_id e) = shapeIds (graph t) (edge_id e)"
    "enableTransientNow t \<longrightarrow> (\<forall>p\<in>set (originPositions t).
        visibleShapeIds (graph t') (pos_id p) = shapeIds (graph t) (pos_id p))"
    using settle_shows_all[OF t(2)] by blast
  have "visibleShapeIds (graph t') ''b2c'' = [''keyShape'', ''labelShape'']"
    using t'(2) t by (simp add: near_edge_def near_graph_def example_graph_def)
  moreover have "visibleShapeIds (graph t') ''a'' = [''keyShape'', ''labelShape'']"
    using t'(3) t by (simp add: near_graph_def example_graph_def)
  moreover have "visibleShapeIds near_graph ''b2c'' = [''keyShape'']"
    "visibleShapeIds near_graph ''a'' = [''keyShape'']"
    by (simp_all add: near_graph_def example_graph_def)
  ultimately show ?thesis using t(1) t'(1) by blast
qed

section \<open>Pointer up under throttling\<close>

text \<open>
  Pointer up writes the snapshot positions, moved by its delta, to the node data: it
  calls \<^verbatim>\<open>moveNodes\<close>, not \<^verbatim>\<open>throttledMoveNodes\<close>.
\<close>

lemma onPointerUp_commits:
  assumes p: "p \<in> set (originPositions this)"
    and d: "distinct (map pos_id (originPositions this))"
  shows "nodeData (graph (onPointerUp event this)) (pos_id p) =
     map_option (\<lambda>n. n\<lparr>node_x := pos_x p + (pt_x (canvas event) - originX this + 1 / 100),
                 node_y := pos_y p + (pt_y (canvas event) - originY this + 1 / 100)\<rparr>)
       (nodeData (graph this) (pos_id p))"
proof -
  let ?f = "\<lambda>p. (pos_id p, pos_x p + (pt_x (canvas event) - originX this + 1 / 100),
                   pos_y p + (pt_y (canvas event) - originY this + 1 / 100))"
  have "map fst (map ?f (originPositions this)) = map pos_id (originPositions this)"
    by (simp add: comp_def)
  with d have d': "distinct (map fst (map ?f (originPositions this)))" by metis
  have "?f p \<in> set (map ?f (originPositions this))" using p by simp
  from fold_updatePosition1_distinct[OF d'] this show ?thesis
    by (simp add: onPointerUp_nodeData)
qed

text \<open>
  A move that arrives inside the throttle window of a drag on the real nodes writes no
  position: it only arms the trailing timer or replaces the pending arguments.
\<close>

lemma throttled_move_coalesced:
  assumes "throttledMoveNodes this = Throttled s" "th_previous s \<le> now event"
    "now event - th_previous s < th_wait s"
    "\<not> enableTransient (options this)" "\<not> enableDelegate (options this)" "dragging this"
  shows "\<exists>this'. onPointerMove event this = Inr this'
           \<and> nodeData (graph this') = nodeData (graph this)"
  using assms
  by (auto simp add: onPointerMove_def Let_def bindE_def enableTransientNow_def applyDelta_def
      callThrottled_def split: option.splits)

text \<open>
  Once the snapshot is cleared, a trailing call of the throttle that is still pending
  writes no position.
\<close>

lemma trailing_call_after_clearState:
  "originPositions t = [] \<Longrightarrow> nodeData (graph (throttleTimer n t)) = nodeData (graph t)"
  by (auto simp add: throttleTimer_def applyMove_def moveNodes_def updateNodePosition_def Let_def
      split: throttled.splits option.splits)

text \<open>
  When the debounced callback of pointer up runs, it leaves the node data as pointer up
  wrote them and clears the snapshot.
\<close>

lemma settle_keeps_commit:
  assumes db: "debounced t = []"
  shows "\<exists>v. debounceTimer (onPointerUp event t) = Inr v
     \<and> nodeData (graph v) = nodeData (graph (onPointerUp event t))
     \<and> originPositions v = []"
proof -
  let ?ps = "originPositions t"
  let ?v = "(onPointerUp event t)\<lparr>debounced := []\<rparr>"
  let ?v1 = "if enableTransientNow t then clearTransientItems ?ps ?v else ?v"
  let ?v2 = "if enableDelegate (options ?v1) then clearDelegate ?v1 else ?v1"
  have v2: "nodeData (graph ?v2) = nodeData (graph (onPointerUp event t))"
    by simp
  obtain t3 where t3: "restoreHiddenItems (Some ?ps) ?v2 = Inr t3"
    "nodeData (graph t3) = nodeData (graph ?v2)"
    using restoreHiddenItems_Some[of ?ps ?v2] by blast
  let ?t' = "clearState (if eventName (options t3) \<noteq> []
      then t3\<lparr>graph := emit (eventName (options t3)) (map pos_id ?ps) (graph t3)\<rparr> else t3)"
  have run: "debounceTimer (onPointerUp event t) = Inr ?t'"
    using t3 by (simp add: debounceTimer_def db onPointerUp_callback_def Let_def bindE_def)
  have "nodeData (graph ?t') = nodeData (graph t3)" "originPositions ?t' = []"
    by (simp_all add: clearState_def)
  with run t3(2) v2 show ?thesis by simp
qed

text \<open>
  C3, as the code has it. Pointer up is not throttled: whatever the throttle closure
  holds, it writes at once, for every node of the snapshot, the snapshot position moved by
  its delta, to which the code adds 0.01 on each axis. A pointer move that arrives at the
  same moment inside the throttle window is coalesced and writes nothing. When the
  debounced callback of pointer up runs next, the committed positions stand and the
  snapshot is cleared, so that a trailing call of the throttle that fires afterwards
  writes nothing.
\<close>

theorem pointer_up_commit_not_throttled:
  assumes "p \<in> set (originPositions this)"
    and "distinct (map pos_id (originPositions this))"
    and "nodeData (graph this) (pos_id p) = Some n"
    and "debounced this = []"
  shows "nodeData (graph (onPointerUp event this)) (pos_id p) =
       Some (n\<lparr>node_x := pos_x p + (pt_x (canvas event) - originX this + 1 / 100),
               node_y := pos_y p + (pt_y (canvas event) - originY this + 1 / 100)\<rparr>)
     \<and> (\<exists>v. debounceTimer (onPointerUp event this) = Inr v
          \<and> nodeData (graph v) (pos_id p) =
              Some (n\<lparr>node_x := pos_x p + (pt_x (canvas event) - originX this + 1 / 100),
                      node_y := pos_y p + (pt_y (canvas event) - originY this + 1 / 100)\<rparr>)
          \<and> originPositions v = []
          \<and> (\<forall>later. nodeData (graph (throttleTimer later v)) = nodeData (graph v)))
     \<and> (throttledMoveNodes this = Throttled s \<and> 0 < th_wait s \<and> th_previous s \<le> now event
          \<and> now event - th_previous s < th_wait s
          \<and> \<not> enableTransient (options this) \<and> \<not> enableDelegate (options this) \<and> dragging this
        \<longrightarrow> (\<exists>this'. onPointerMove event this = Inr this'
                \<and> nodeData (graph this') = nodeData (graph this)))"
proof -
  have c: "nodeData (graph (onPointerUp event this)) (pos_id p) =
       Some (n\<lparr>node_x := pos_x p + (pt_x (canvas event) - originX this + 1 / 100),
               node_y := pos_y p + (pt_y (canvas event) - originY this + 1 / 100)\<rparr>)"
    using onPointerUp_commits[OF assms(1,2), of event] assms(3) by simp
  obtain v where v: "debounceTimer (onPointerUp event this) = Inr v"
    "nodeData (graph v) = nodeData (graph (onPointerUp event this))" "originPositions v = []"
    using settle_keeps_commit[OF assms(4), of event] by blast
  have "nodeData (graph (throttleTimer later v)) = nodeData (graph v)" for later
    using v(3) by (rule trailing_call_after_clearState)
  with c v throttled_move_coalesced[of this s event] show ?thesis by auto
qed

theorem pointer_up_commit_not_throttled_witness:
  "\<exists>t v. press_and_move (new_DragNode throttled_options example_graph) = Inr t
     \<and> throttledMoveNodes t =
         Throttled \<lparr>th_wait = 16, th_previous = 1010, th_timeout = Some 1026,
                    th_args = Some (20, - 10, False, False)\<rparr>
     \<and> (\<exists>this'. onPointerMove (pointer 260 70 (Some ''a'') 1018) t = Inr this'
            \<and> nodeData (graph this') = nodeData (graph t))
     \<and> nodeData (graph (onPointerUp (pointer 260 70 (Some ''a'') 1018) t)) ''a'' =
         Some \<lparr>node_x = 250 + 1 / 100, node_y = 70 + 1 / 100, node_parentId = None,
               node_preventPolylineEdgeOverlap = False\<rparr>
     \<and> debounceTimer (onPointerUp (pointer 260 70 (Some ''a'') 1018) t) = Inr v
     \<and> nodeData (graph v) ''a'' =
         Some \<lparr>node_x = 250 + 1 / 100, node_y = 70 + 1 / 100, node_parentId = None,
               node_preventPolylineEdgeOverlap = False\<rparr>
     \<and> nodeData (graph (throttleTimer 1026 v)) = nodeData (graph v)"
proof -
  obtain t where t: "press_and_move (new_DragNode throttled_options example_graph) = Inr t"
     "originPositions t = [\<lparr>pos_id = ''a'', pos_x = 200, pos_y = 100, pos_bbox = None\<rparr>]"
     "originX t = 210" "originY t = 100"
     "nodeData (graph t) ''a'' =
         Some \<lparr>node_x = 200, node_y = 100, node_parentId = None,
               node_preventPolylineEdgeOverlap = False\<rparr>"
     "throttledMoveNodes t =
         Throttled \<lparr>th_wait = 16, th_previous = 1010, th_timeout = Some 1026,
                    th_args = Some (20, - 10, False, False)\<rparr>"
     "pointerDown t = Some \<lparr>pt_x = 200, pt_y = 100\<rparr>" "dragging t"
     "options t = throttled_options" "debounced t = []"
    using throttled_drag_state by blast
  show ?thesis
    using pointer_up_commit_not_throttled
       [of "\<lparr>pos_id = ''a'', pos_x = 200, pos_y = 100, pos_bbox = None\<rparr>" t _
        "pointer 260 70 (Some ''a'') 1018"
        "\<lparr>th_wait = 16, th_previous = 1010, th_timeout = Some 1026,
          th_args = Some (20, - 10, False, False)\<rparr>"] t
    by (auto simp add: throttled_options_simps pointer_def)
qed

text \<open>
  The claim as stated fails on this drag. The pointer is released at (260, 70), a delta
  of (50, -30) from the reference point, 8 ms after the last move went to the trailing
  timer of the throttle. Pointer up puts node \<open>a\<close> at (250.01, 70.01), not at (250, 70).
  Pointer up does not cancel the throttle and the snapshot is cleared only by the
  debounced callback: when the trailing timer fires before that callback runs, it writes
  the delta of the last move, and node \<open>a\<close> ends at (220, 90).
\<close>

theorem pointer_up_commit_overwritten_counterexample:
  "\<exists>t u. press_and_move (new_DragNode throttled_options example_graph) = Inr t
     \<and> originPositions t = [\<lparr>pos_id = ''a'', pos_x = 200, pos_y = 100, pos_bbox = None\<rparr>]
     \<and> originX t = 210 \<and> originY t = 100
     \<and> throttledMoveNodes t =
         Throttled \<lparr>th_wait = 16, th_previous = 1010, th_timeout = Some 1026,
                    th_args = Some (20, - 10, False, False)\<rparr>
     \<and> nodeData (graph (onPointerUp (pointer 260 70 (Some ''a'') 1018) t)) ''a'' =
         Some \<lparr>node_x = 250 + 1 / 100, node_y = 70 + 1 / 100, node_parentId = None,
               node_preventPolylineEdgeOverlap = False\<rparr>
     \<and> nodeData (graph (throttleTimer 1026 (onPointerUp (pointer 260 70 (Some ''a'') 1018) t)))
           ''a'' =
         Some \<lparr>node_x = 220, node_y = 90, node_parentId = None,
               node_preventPolylineEdgeOverlap = False\<rparr>
     \<and> debounceTimer (throttleTimer 1026 (onPointerUp (pointer 260 70 (Some ''a'') 1018) t))
         = Inr u
     \<and> nodeData (graph u) ''a'' =
         Some \<lparr>node_x = 220, node_y = 90, node_parentId = None,
               node_preventPolylineEdgeOverlap = False\<rparr>
     \<and> emitted (graph u) = [(''dragend'', [''a''])]
     \<and> originPositions u = [] \<and> debounced u = []"
proof -
  let ?e = "pointer 260 70 (Some ''a'') 1018"
  let ?ps = "[\<lparr>pos_id = ''a'', pos_x = 200, pos_y = 100, pos_bbox = None\<rparr>]"
  obtain t where t: "press_and_move (new_DragNode throttled_options example_graph) = Inr t"
     "originPositions t = ?ps" "originX t = 210" "originY t = 100"
     "nodeData (graph t) ''a'' =
         Some \<lparr>node_x = 200, node_y = 100, node_parentId = None,
               node_preventPolylineEdgeOverlap = False\<rparr>"
     "throttledMoveNodes t =
         Throttled \<lparr>th_wait = 16, th_previous = 1010, th_timeout = Some 1026,
                    th_args = Some (20, - 10, False, False)\<rparr>"
     "pointerDown t = Some \<lparr>pt_x = 200, pt_y = 100\<rparr>" "dragging t"
     "options t = throttled_options" "debounced t = []" "emitted (graph t) = []"
    using throttled_drag_state by blast
  define u1 where "u1 = onPointerUp ?e t"
  have u1: "originPositions u1 = ?ps"
    "throttledMoveNodes u1 = throttledMoveNodes t" "options u1 = throttled_options"
    "debounced u1 = [(False, ?ps)]" "emitted (graph u1) = []"
    "nodeData (graph u1) ''a'' =
         Some \<lparr>node_x = 250 + 1 / 100, node_y = 70 + 1 / 100, node_parentId = None,
               node_preventPolylineEdgeOverlap = False\<rparr>"
    by (simp_all add: u1_def t onPointerUp_nodeData updatePosition1_def pointer_def
        enableTransientNow_def throttled_options_simps)
  define u2 where "u2 = throttleTimer 1026 u1"
  have u2: "originPositions u2 = originPositions u1" "options u2 = throttled_options"
    "debounced u2 = debounced u1" "emitted (graph u2) = []"
    "nodeData (graph u2) ''a'' =
         Some \<lparr>node_x = 220, node_y = 90, node_parentId = None,
               node_preventPolylineEdgeOverlap = False\<rparr>"
    by (simp_all add: u2_def throttleTimer_def u1 t applyMove_def moveNodes_def
        updateNodePosition_def updatePosition1_def)
  let ?v = "u2\<lparr>debounced := []\<rparr>"
  obtain t' where t': "restoreHiddenItems (Some ?ps) ?v = Inr t'" "options t' = options ?v"
     "nodeData (graph t') = nodeData (graph ?v)" "emitted (graph t') = emitted (graph ?v)"
     "debounced t' = debounced ?v"
    using restoreHiddenItems_Some[of ?ps ?v] by blast
  define u3 where "u3 = clearState (t'\<lparr>graph := emit ''dragend'' [''a''] (graph t')\<rparr>)"
  have s3: "debounceTimer u2 = Inr u3"
    using t' by (simp add: debounceTimer_def u2 u1 onPointerUp_callback_def Let_def bindE_def
        throttled_options_simps u3_def)
  have u3: "nodeData (graph u3) ''a'' =
         Some \<lparr>node_x = 220, node_y = 90, node_parentId = None,
               node_preventPolylineEdgeOverlap = False\<rparr>"
    "emitted (graph u3) = [(''dragend'', [''a''])]" "originPositions u3 = []" "debounced u3 = []"
    using t' u2 by (simp_all add: u3_def emit_def clearState_def)
  show ?thesis
    using t(1,2,3,4,6) u1(6) u2(5) s3 u3 unfolding u2_def u1_def by blast
qed

section \<open>The path of a polyline edge\<close>

text \<open>
  C6, as the code has it. The routing strategy is the name of the merged routing
  configuration: the name the style configures, and \<open>orth\<close> when it configures none. When
  the style of the key shape has control points (a non-empty array) and the name is not
  \<open>er\<close>, the router is skipped: the path is built from the source point, the control
  points and the target point. Otherwise (no control points, an empty array of them, or
  the name \<open>er\<close>) the path is built from the points the router returns for them.
\<close>

theorem drawKeyShape_router_by_name:
  "rc_name (mix st) =
     (case routeCfg st of
        None \<Rightarrow> ''orth''
      | Some r \<Rightarrow> (case rs_name r of None \<Rightarrow> ''orth'' | Some name \<Rightarrow> name))
   \<and> (controlPoints st = Some cps \<and> cps \<noteq> [] \<and> rc_name (mix st) \<noteq> ''er'' \<longrightarrow>
        drawKeyShape gp pf nm st m s t = gp (model_id m) ([s] @ cps @ [t]) (radius st))
   \<and> (controlPoints st = None \<or> controlPoints st = Some [] \<or> rc_name (mix st) = ''er'' \<longrightarrow>
        drawKeyShape gp pf nm st m s t =
          gp (model_id m)
            (pf (case controlPoints st of None \<Rightarrow> [s, t] | Some cps \<Rightarrow> [s] @ cps @ [t])
               (model_source m) (model_target m) nm (mix st))
            (radius st))"
  by (auto simp add: drawKeyShape_def getPath_def getControlPoints_def Let_def mix_def
      split: option.splits)

text \<open>
  The edge from (0, 0) to (50, 50): with the control point (50, 0) and the strategy
  \<open>orth\<close>, by default or configured, the path runs through the control point
  (horizontal, then vertical); with the control point and the strategy \<open>er\<close>, and without
  control points, it is the route of the router (vertical, then horizontal).
\<close>

theorem drawKeyShape_router_by_name_witness:
  "example_draw (Some [\<lparr>pt_x = 50, pt_y = 0\<rparr>]) None = ''HV''
   \<and> example_draw (Some [\<lparr>pt_x = 50, pt_y = 0\<rparr>]) (Some ''orth'') = ''HV''
   \<and> example_draw (Some [\<lparr>pt_x = 50, pt_y = 0\<rparr>]) (Some ''er'') = ''VH''
   \<and> example_draw None None = ''VH''
   \<and> example_draw (Some []) (Some ''orth'') = ''VH''"
proof -
  note r = drawKeyShape_router_by_name
      [where gp = example_getPolylinePath and pf = example_pathFinder and nm = "()"
         and m = example_model and s = "\<lparr>pt_x = 0, pt_y = 0\<rparr>" and t = "\<lparr>pt_x = 50, pt_y = 50\<rparr>"]
  show ?thesis
    using r[of "example_style (Some [\<lparr>pt_x = 50, pt_y = 0\<rparr>]) None" "[\<lparr>pt_x = 50, pt_y = 0\<rparr>]"]
      r[of "example_style (Some [\<lparr>pt_x = 50, pt_y = 0\<rparr>]) (Some ''orth'')" "[\<lparr>pt_x = 50, pt_y = 0\<rparr>]"]
      r[of "example_style (Some [\<lparr>pt_x = 50, pt_y = 0\<rparr>]) (Some ''er'')" "[\<lparr>pt_x = 50, pt_y = 0\<rparr>]"]
      r[of "example_style None None" "[]"]
      r[of "example_style (Some []) (Some ''orth'')" "[]"]
    by (simp add: example_draw_def example_style_def example_model_def
        example_getPolylinePath_def example_pathFinder_def example_segment_def)
qed

text \<open>
  The claim as stated fails on this edge: it has an explicit control point and the
  orthogonal strategy \<open>orth\<close> is configured, yet the router is skipped. The path is the
  one built from the given points, not the one built from the waypoints of the router.
\<close>

theorem drawKeyShape_orth_skips_router_counterexample:
  "rc_name (mix (example_style (Some [\<lparr>pt_x = 50, pt_y = 0\<rparr>]) (Some ''orth''))) = ''orth''
   \<and> example_draw (Some [\<lparr>pt_x = 50, pt_y = 0\<rparr>]) (Some ''orth'')
       = example_getPolylinePath ''a2b''
           [\<lparr>pt_x = 0, pt_y = 0\<rparr>, \<lparr>pt_x = 50, pt_y = 0\<rparr>, \<lparr>pt_x = 50, pt_y = 50\<rparr>] 0
   \<and> example_draw (Some [\<lparr>pt_x = 50, pt_y = 0\<rparr>]) (Some ''orth'')
       \<noteq> example_getPolylinePath ''a2b''
           (example_pathFinder
              [\<lparr>pt_x = 0, pt_y = 0\<rparr>, \<lparr>pt_x = 50, pt_y = 0\<rparr>, \<lparr>pt_x = 50, pt_y = 50\<rparr>]
              ''a'' ''b'' () \<lparr>rc_name = ''orth'', rc_offset = None\<rparr>) 0"
  by (simp add: example_draw_def drawKeyShape_def getPath_def getControlPoints_def Let_def
      mix_def example_style_def example_model_def example_getPolylinePath_def
      example_pathFinder_def example_segment_def)

section \<open>Dragged nodes the graph no longer holds\<close>

lemma nodeToUpdate_missing:
  "i \<in> set ids \<Longrightarrow> nodeData g i = None \<Longrightarrow> nodeToUpdate g parentId ids = Inl TypeError"
  by (induction ids) (auto simp: bindE_def split: option.splits sum.splits)

text \<open>
  A drop on the canvas throws as soon as one node of the snapshot is missing from the
  graph.
\<close>

lemma onDropCanvas_missing:
  assumes "p \<in> set (originPositions this)" "nodeData (graph this) (pos_id p) = None"
  shows "onDropCanvas event this = Inl TypeError"
proof -
  have "map_option node_parentId (nodeData (graph (onPointerUp event this)) (pos_id p)) =
        map_option node_parentId (nodeData (graph this) (pos_id p))"
    by (simp add: onPointerUp_nodeData fold_updatePosition1_parent)
  with assms(2) have "nodeData (graph (onPointerUp event this)) (pos_id p) = None" by simp
  moreover have "pos_id p \<in> set (map pos_id (originPositions (onPointerUp event this)))"
    using assms(1) by simp
  ultimately have "nodeToUpdate (graph (onPointerUp event this)) (dropParent event this)
      (map pos_id (originPositions (onPointerUp event this))) = Inl TypeError"
    by (rule nodeToUpdate_missing[rotated])
  then show ?thesis by (simp add: onDropCanvas_def Let_def bindE_def)
qed

text \<open>
  The snapshot of the drag start passes over a selected id the graph does not hold, with
  a warning; the loops of \<^verbatim>\<open>onDropNode\<close> and \<^verbatim>\<open>onDropCombo\<close> pass over it silently.
\<close>

lemma snapshot_skips_missing:
  assumes "nodeData (graph this) i = None"
  shows "i \<notin> pos_id ` set (originPositions (snapshot this))"
    and "i \<in> set (selectedNodeIds this) \<Longrightarrow>
         ''node with id = \"${id}\" does not exist'' \<in> set (warnings (snapshot this))"
  using assms
  by (auto simp add: snapshot_def snapshot1_def List.map_filter_def split: option.splits)

lemma reparent_skips_missing:
  "nodeData (graph this) i = None \<Longrightarrow> reparent newParentId i this = this"
  by (simp add: reparent_def)

text \<open>
  C7 fails on the code. Node \<open>a\<close> is dragged (plain options, which register the drop
  handlers) and removed from the graph before the pointer is released over the canvas: \<^verbatim>\<open>onDropCanvas\<close> reads \<^verbatim>\<open>this.graph.getNodeData(id).data\<close> without a
  test and throws, so the gesture is aborted before \<^verbatim>\<open>updateData\<close> and \<^verbatim>\<open>clearState\<close>.
\<close>

theorem onDropCanvas_missing_node_throws:
  "\<exists>t. press_and_move (new_DragNode plain_options example_graph) = Inr t
     \<and> originPositions t = [\<lparr>pos_id = ''a'', pos_x = 200, pos_y = 100, pos_bbox = None\<rparr>]
     \<and> dispatch ''canvas:drop'' (pointer 260 70 None 1030)
          (t\<lparr>graph := (graph t)\<lparr>nodeData := (nodeData (graph t))(''a'' := None)\<rparr>\<rparr>)
         = Inl TypeError"
proof -
  obtain t where t: "press_and_move (new_DragNode plain_options example_graph) = Inr t"
     "originPositions t = [\<lparr>pos_id = ''a'', pos_x = 200, pos_y = 100, pos_bbox = None\<rparr>]"
     "options t = plain_options"
    using plain_drag_state by blast
  let ?t = "t\<lparr>graph := (graph t)\<lparr>nodeData := (nodeData (graph t))(''a'' := None)\<rparr>\<rparr>"
  have "onDropCanvas (pointer 260 70 None 1030) ?t = Inl TypeError"
    by (rule onDropCanvas_missing
          [of "\<lparr>pos_id = ''a'', pos_x = 200, pos_y = 100, pos_bbox = None\<rparr>"])
       (simp_all add: t)
  then have "dispatch ''canvas:drop'' (pointer 260 70 None 1030) ?t = Inl TypeError"
    by (simp add: dispatch_def getEvents_def t plain_options_simps)
  with t show ?thesis by blast
qed

section \<open>Combo tree items when the combo structure is updated\<close>












section \<open>Delegate mode\<close>

text \<open>Delegate mode switches transient drawing and the hiding of related edges off.\<close>

lemma constructor_delegate:
  "enableDelegate (DragNode_constructor p) \<Longrightarrow>
   \<not> enableTransient (DragNode_constructor p) \<and> \<not> hideRelatedEdges (DragNode_constructor p)"
  by (auto simp add: DragNode_constructor_def Let_def split: if_splits)

text \<open>
  Without transient drawing and without hiding, a pointer move is the drag start (when
  the drag has not started) followed by the delta; in delegate mode the delta goes to the
  delegate rectangle.
\<close>

lemma applyDelta_delegate:
  "enableDelegate (options t) \<Longrightarrow>
   applyDelta event t =
     (if originPositions t = [] \<or> \<not> dragging t then t
      else moveDelegate (pt_x (canvas event) - originX t) (pt_y (canvas event) - originY t) t)"
  by (simp add: applyDelta_def Let_def)

lemma onPointerMove_delegate:
  assumes "\<not> enableTransient (options t)" "\<not> hideRelatedEdges (options t)"
  shows "onPointerMove event t =
     Inr (case pointerDown t of
            None \<Rightarrow> t
          | Some d \<Rightarrow>
              if \<bar>pt_x d - pt_x (canvas event)\<bar> < 1 \<and> \<bar>pt_y d - pt_y (canvas event)\<bar> < 1 then t
              else applyDelta event
                     (if dragging t then t
                      else startMoving event
                             ((snapshot (selectNodes event t))
                                \<lparr>graph := frontItem (selectedNodeIds (snapshot (selectNodes event t)))
                                            (graph (snapshot (selectNodes event t)))\<rparr>)))"
  using assms
  by (simp add: onPointerMove_def dragStart_def enableTransientNow_def Let_def bindE_def
      split: option.splits)

lemma boxes_of_Some: "map pos_bbox ps = map Some bs \<Longrightarrow> boxes_of ps = Some bs"
  by (induction ps arbitrary: bs) auto

lemma fold_min_Min: "fold min (map f bs) (f b) = Min (f ` set (b # bs))"
  for f :: "'a \<Rightarrow> real"
proof -
  have "Min (set (f b # map f bs)) = fold min (map f bs) (f b)" by (rule Min.set_eq_fold)
  then show ?thesis by simp
qed

lemma fold_max_Max: "fold max (map f bs) (f b) = Max (f ` set (b # bs))"
  for f :: "'a \<Rightarrow> real"
proof -
  have "Max (set (f b # map f bs)) = fold max (map f bs) (f b)" by (rule Max.set_eq_fold)
  then show ?thesis by simp
qed

lemma delegateRect_union:
  assumes "map pos_bbox ps = map Some (b # bs)"
  shows "delegateRect dx dy ps =
     Rect (Min (minX ` set (b # bs)) + dx) (Min (minY ` set (b # bs)) + dy)
          (Max (maxX ` set (b # bs)) - Min (minX ` set (b # bs)))
          (Max (maxY ` set (b # bs)) - Min (minY ` set (b # bs)))"
  using boxes_of_Some[OF assms]
  by (simp add: delegateRect_def Let_def fold_min_Min fold_max_Max del: set_simps image_insert)

text \<open>The snapshot of the drag start in delegate mode.\<close>

lemma selectNodes_selected:
  "selectedNodeIds (selectNodes event t) =
     (let selected = findIdByState (graph t) (selectedState (options t))
      in case itemId event of
           None \<Rightarrow> selected
         | Some c \<Rightarrow> if c \<noteq> [] \<and> c \<notin> set selected then [c] else selected)"
  by (simp add: selectNodes_def Let_def split: option.splits)

lemma snapshot_delegate:
  assumes "enableDelegate (options t)"
  shows "originPositions (snapshot (selectNodes event t)) =
            List.map_filter
              (\<lambda>i. case nodeData (graph t) i of
                     None \<Rightarrow> None
                   | Some n \<Rightarrow> Some \<lparr>pos_id = i, pos_x = node_x n, pos_y = node_y n,
                                    pos_bbox = getRenderBBox (graph t) i\<rparr>)
              (let selected = findIdByState (graph t) (selectedState (options t))
               in case itemId event of
                    None \<Rightarrow> selected
                  | Some c \<Rightarrow> if c \<noteq> [] \<and> c \<notin> set selected then [c] else selected)"
proof -
  have "snapshot1 (selectNodes event t) =
     (\<lambda>i. case nodeData (graph t) i of
                     None \<Rightarrow> None
                   | Some n \<Rightarrow> Some \<lparr>pos_id = i, pos_x = node_x n, pos_y = node_y n,
                                    pos_bbox = getRenderBBox (graph t) i\<rparr>)"
    using assms by (simp add: snapshot1_def fun_eq_iff split: option.splits)
  then show ?thesis
    by (simp only: snapshot_proj selectNodes_selected)
qed

text \<open>
  C9. In delegate mode (options as the constructor yields them, with \<open>enableDelegate\<close>
  true) a pointer move never throws and leaves the node data, the visibility of every
  item, the emitted events and the pending callbacks as they are. The first move of a
  drag past the threshold of one pixel takes the snapshot: for every selected node the
  graph holds (or for the pressed node, when it is not selected) its position and its
  rendered box; it records the pointer as the reference point. While dragging, the
  snapshot and the reference point stay. Every move past the threshold, when the snapshot
  is not empty, draws the delegate rectangle, and only it, on the transient layer, from
  the snapshot and the delta from the reference point; a move within the threshold of the
  press point draws nothing. When every snapshot entry has a box, the rectangle spans the
  union of the boxes, moved by the delta. (The first move of the drag also raises the
  selected nodes with \<^verbatim>\<open>frontItem\<close>, which changes no position.)
\<close>

theorem delegate_mode_moves_only_rect:
  assumes o: "options this = DragNode_constructor p" and d: "enableDelegate (options this)"
  shows "\<exists>this'. onPointerMove event this = Inr this'
     \<and> nodeData (graph this') = nodeData (graph this)
     \<and> visibleShapeIds (graph this') = visibleShapeIds (graph this)
     \<and> itemVisible (graph this') = itemVisible (graph this)
     \<and> emitted (graph this') = emitted (graph this)
     \<and> debounced this' = debounced this
     \<and> (dragging this \<longrightarrow>
          originPositions this' = originPositions this
          \<and> originX this' = originX this \<and> originY this' = originY this)
     \<and> (\<not> dragging this
          \<and> (case pointerDown this of
                None \<Rightarrow> False
              | Some down \<Rightarrow> \<not> (\<bar>pt_x down - pt_x (canvas event)\<bar> < 1
                                \<and> \<bar>pt_y down - pt_y (canvas event)\<bar> < 1)) \<longrightarrow>
          originPositions this' =
            List.map_filter
              (\<lambda>i. case nodeData (graph this) i of
                     None \<Rightarrow> None
                   | Some n \<Rightarrow> Some \<lparr>pos_id = i, pos_x = node_x n, pos_y = node_y n,
                                    pos_bbox = getRenderBBox (graph this) i\<rparr>)
              (let selected = findIdByState (graph this) (selectedState (options this))
               in case itemId event of
                    None \<Rightarrow> selected
                  | Some c \<Rightarrow> if c \<noteq> [] \<and> c \<notin> set selected then [c] else selected)
          \<and> originX this' = pt_x (canvas event) \<and> originY this' = pt_y (canvas event))
     \<and> transients (graph this') =
         (if (case pointerDown this of
                None \<Rightarrow> False
              | Some down \<Rightarrow> \<not> (\<bar>pt_x down - pt_x (canvas event)\<bar> < 1
                                \<and> \<bar>pt_y down - pt_y (canvas event)\<bar> < 1))
             \<and> originPositions this' \<noteq> []
          then (transients (graph this))((TRect, DELEGATE_SHAPE_ID) \<mapsto>
                 RectT (delegateRect (pt_x (canvas event) - originX this')
                          (pt_y (canvas event) - originY this') (originPositions this'))
                       (delegateStyle (options this)))
          else transients (graph this))
     \<and> (map pos_bbox ps = map Some (b # bs) \<longrightarrow>
          delegateRect dx dy ps =
            Rect (Min (minX ` set (b # bs)) + dx) (Min (minY ` set (b # bs)) + dy)
                 (Max (maxX ` set (b # bs)) - Min (minX ` set (b # bs)))
                 (Max (maxY ` set (b # bs)) - Min (minY ` set (b # bs))))"
proof -
  from o d have nt: "\<not> enableTransient (options this)" "\<not> hideRelatedEdges (options this)"
    using constructor_delegate[of p] by simp_all
  note m = onPointerMove_delegate[OF nt, of event]
  show ?thesis
    unfolding m
    using d
    by (auto simp add: applyDelta_delegate drawTransient_def delegateRect_union
        snapshot_delegate simp del: snapshot_proj(6)
        split: option.splits)
qed

lemma delegate_options_simps:
  "enableTransient delegate_options = False" "enableDelegate delegate_options = True"
  "throttle delegate_options = 16" "hideRelatedEdges delegate_options = False"
  "eventName delegate_options = []" "updateComboStructure delegate_options = True"
  "selectedState delegate_options = ''selected''"
  "shouldBegin delegate_options = Some (\<lambda>_. True)"
  by (simp_all add: delegate_options_def DragNode_constructor_def Object_assign_def
      DEFAULT_OPTIONS_def)

lemma two_boxed_graph_simps:
  "findIdByState two_boxed_graph ''selected'' = [''a'', ''b'']"
  "nodeData two_boxed_graph ''a'' = Some \<lparr>node_x = 200, node_y = 100, node_parentId = None,
               node_preventPolylineEdgeOverlap = False\<rparr>"
  "nodeData two_boxed_graph ''b'' = Some \<lparr>node_x = 100, node_y = 200, node_parentId = None,
               node_preventPolylineEdgeOverlap = False\<rparr>"
  "getRenderBBox two_boxed_graph ''a'' = Some \<lparr>minX = 190, minY = 90, maxX = 210, maxY = 110\<rparr>"
  "getRenderBBox two_boxed_graph ''b'' = Some \<lparr>minX = 90, minY = 190, maxX = 110, maxY = 210\<rparr>"
  "transients two_boxed_graph = Map.empty"
  by (simp_all add: two_boxed_graph_def example_graph_def)

text \<open>
  The selected nodes \<open>a\<close> and \<open>b\<close> are dragged by \<open>a\<close>. The first move draws the
  rectangle around both boxes, from (90, 90) with width and height 120; the second move,
  with a delta of (20, -10), draws it from (110, 80). The nodes stay where they are. A
  move back to within a pixel of the press point draws nothing.
\<close>

theorem delegate_mode_moves_only_rect_witness:
  "\<exists>u t1 t2.
      onPointerDown (pointer 200 100 (Some ''a'') 1000)
        (new_DragNode delegate_options two_boxed_graph) = Inr u
     \<and> onPointerMove (pointer 210 100 (Some ''a'') 1010) u = Inr t1
     \<and> originPositions t1 =
          [\<lparr>pos_id = ''a'', pos_x = 200, pos_y = 100,
            pos_bbox = Some \<lparr>minX = 190, minY = 90, maxX = 210, maxY = 110\<rparr>\<rparr>,
           \<lparr>pos_id = ''b'', pos_x = 100, pos_y = 200,
            pos_bbox = Some \<lparr>minX = 90, minY = 190, maxX = 110, maxY = 210\<rparr>\<rparr>]
     \<and> transients (graph t1) =
          [(TRect, DELEGATE_SHAPE_ID) \<mapsto>
             RectT (Rect 90 90 120 120) (delegateStyle delegate_options)]
     \<and> onPointerMove (pointer 230 90 (Some ''a'') 1015) t1 = Inr t2
     \<and> transients (graph t2) =
          [(TRect, DELEGATE_SHAPE_ID) \<mapsto>
             RectT (Rect 110 80 120 120) (delegateStyle delegate_options)]
     \<and> nodeData (graph t2) = nodeData two_boxed_graph
     \<and> onPointerMove (pointer (2001 / 10) (1005 / 10) (Some ''a'') 1020) t2 = Inr t2"
proof -
  let ?e0 = "pointer 200 100 (Some ''a'') 1000"
  let ?e1 = "pointer 210 100 (Some ''a'') 1010"
  let ?e2 = "pointer 230 90 (Some ''a'') 1015"
  let ?e3 = "pointer (2001 / 10) (1005 / 10) (Some ''a'') 1020"
  let ?p = "\<lparr>p_enableTransient = Absent, p_enableDelegate = Given True, p_delegateStyle = Absent,
        p_throttle = Absent, p_hideRelatedEdges = Absent, p_selectedState = Absent,
        p_eventName = Absent, p_updateComboStructure = Absent, p_shouldBegin = Absent\<rparr>"
  define u where "u = (new_DragNode delegate_options two_boxed_graph)
      \<lparr>pointerDown := Some \<lparr>pt_x = 200, pt_y = 100\<rparr>, dragging := False, mouseupOnce := [?e0]\<rparr>"
  have su: "onPointerDown ?e0 (new_DragNode delegate_options two_boxed_graph) = Inr u"
    by (simp add: onPointerDown_def u_def new_DragNode_def delegate_options_simps pointer_def)
  have u: "pointerDown u = Some \<lparr>pt_x = 200, pt_y = 100\<rparr>" "\<not> dragging u"
    "options u = delegate_options" "graph u = two_boxed_graph"
    by (simp_all add: u_def new_DragNode_def)
  have ou: "options u = DragNode_constructor ?p"
    by (simp add: u delegate_options_def)
  have du: "enableDelegate (options u)"
    by (simp add: u delegate_options_simps)
  obtain t1 where t1: "onPointerMove ?e1 u = Inr t1"
     "nodeData (graph t1) = nodeData (graph u)"
     "transients (graph t1) =
         (if (case pointerDown u of
                None \<Rightarrow> False
              | Some down \<Rightarrow> \<not> (\<bar>pt_x down - pt_x (canvas ?e1)\<bar> < 1
                                \<and> \<bar>pt_y down - pt_y (canvas ?e1)\<bar> < 1))
             \<and> originPositions t1 \<noteq> []
          then (transients (graph u))((TRect, DELEGATE_SHAPE_ID) \<mapsto>
                 RectT (delegateRect (pt_x (canvas ?e1) - originX t1)
                          (pt_y (canvas ?e1) - originY t1) (originPositions t1))
                       (delegateStyle (options u)))
          else transients (graph u))"
    using delegate_mode_moves_only_rect[OF ou du, of ?e1] by blast
  have t1_eq: "t1 = applyDelta ?e1 (startMoving ?e1
      ((snapshot (selectNodes ?e1 u))
         \<lparr>graph := frontItem (selectedNodeIds (snapshot (selectNodes ?e1 u)))
                     (graph (snapshot (selectNodes ?e1 u)))\<rparr>))"
    using t1(1) by (simp add: onPointerMove_delegate u delegate_options_simps pointer_def)
  have t1f: "pointerDown t1 = Some \<lparr>pt_x = 200, pt_y = 100\<rparr>" "dragging t1"
    "options t1 = delegate_options" "originX t1 = 210" "originY t1 = 100"
    "originPositions t1 =
          [\<lparr>pos_id = ''a'', pos_x = 200, pos_y = 100,
            pos_bbox = Some \<lparr>minX = 190, minY = 90, maxX = 210, maxY = 110\<rparr>\<rparr>,
           \<lparr>pos_id = ''b'', pos_x = 100, pos_y = 200,
            pos_bbox = Some \<lparr>minX = 90, minY = 190, maxX = 110, maxY = 210\<rparr>\<rparr>]"
    by (simp_all add: t1_eq u two_boxed_graph_simps pointer_def delegate_options_simps
        List.map_filter_def snapshot1_def)
  have r1: "transients (graph t1) =
          [(TRect, DELEGATE_SHAPE_ID) \<mapsto>
             RectT (Rect 90 90 120 120) (delegateStyle delegate_options)]"
    unfolding t1(3)
    by (simp add: t1f u pointer_def two_boxed_graph_simps delegateRect_def)
  have ot: "options t1 = DragNode_constructor ?p"
    by (simp add: t1f delegate_options_def)
  have dt: "enableDelegate (options t1)"
    by (simp add: t1f delegate_options_simps)
  obtain t2 where t2: "onPointerMove ?e2 t1 = Inr t2"
     "nodeData (graph t2) = nodeData (graph t1)"
     "dragging t1 \<longrightarrow> originPositions t2 = originPositions t1
          \<and> originX t2 = originX t1 \<and> originY t2 = originY t1"
     "transients (graph t2) =
         (if (case pointerDown t1 of
                None \<Rightarrow> False
              | Some down \<Rightarrow> \<not> (\<bar>pt_x down - pt_x (canvas ?e2)\<bar> < 1
                                \<and> \<bar>pt_y down - pt_y (canvas ?e2)\<bar> < 1))
             \<and> originPositions t2 \<noteq> []
          then (transients (graph t1))((TRect, DELEGATE_SHAPE_ID) \<mapsto>
                 RectT (delegateRect (pt_x (canvas ?e2) - originX t2)
                          (pt_y (canvas ?e2) - originY t2) (originPositions t2))
                       (delegateStyle (options t1)))
          else transients (graph t1))"
    using delegate_mode_moves_only_rect[OF ot dt, of ?e2] by blast
  have r2: "transients (graph t2) =
          [(TRect, DELEGATE_SHAPE_ID) \<mapsto>
             RectT (Rect 110 80 120 120) (delegateStyle delegate_options)]"
    unfolding t2(4) using t2(3)
    by (simp add: t1f r1 pointer_def delegateRect_def)
  have n2: "nodeData (graph t2) = nodeData two_boxed_graph"
    using t2(2) t1(2) by (simp add: u)
  have t2_eq: "t2 = applyDelta ?e2 t1"
    using t2(1) by (simp add: onPointerMove_delegate t1f delegate_options_simps pointer_def)
  have s3: "onPointerMove ?e3 t2 = Inr t2"
    by (simp add: onPointerMove_def t2_eq t1f pointer_def)
  from su t1(1) t1f(6) r1 t2(1) r2 n2 s3 show ?thesis by blast
qed


section \<open>Cancelling with Escape\<close>




























section \<open>Dropping on a combo\<close>

lemma reparent_parents:
  "parents (graph (reparent np j t)) i =
     (if i = j \<and> parents (graph t) j \<noteq> None then Some np else parents (graph t) i)"
  by (auto simp add: reparent_def parents_def updateData_def updateParent1_def
      split: option.splits)

lemma fold_reparent_parents:
  "parents (graph (fold (reparent np) ids t)) i =
     (if i \<in> set ids \<and> parents (graph t) i \<noteq> None then Some np else parents (graph t) i)"
  by (induction ids arbitrary: t) (auto simp add: reparent_parents)

lemma fold_reparent_proj [simp]:
  "options (fold (reparent np) ids t) = options t"
  "originPositions (fold (reparent np) ids t) = originPositions t"
  "debounced (fold (reparent np) ids t) = debounced t"
  "emitted (graph (fold (reparent np) ids t)) = emitted (graph t)"
  by (induction ids arbitrary: t) (simp_all add: reparent_def updateData_def split: option.splits)

lemma onDropCombo_parents:
  "parents (graph (onDropCombo event t)) i =
     (if i \<in> pos_id ` set (originPositions t) \<and> parents (graph t) i \<noteq> None
      then Some (itemId event) else parents (graph t) i)"
  by (simp add: onDropCombo_def Let_def fold_reparent_parents)

lemma onDropCombo_single:
  assumes "originPositions t = [p]" "nodeData (graph t) (pos_id p) = Some n"
    "node_parentId n \<noteq> itemId event"
  shows "onDropCombo event t =
     clearState ((onPointerUp event t)
       \<lparr>graph := updateData [(pos_id p, itemId event)] (graph (onPointerUp event t))\<rparr>)"
proof -
  have e: "map_option node_parentId (nodeData (graph (onPointerUp event t)) (pos_id p)) =
        map_option node_parentId (nodeData (graph t) (pos_id p))"
    by (simp add: onPointerUp_nodeData fold_updatePosition1_parent)
  obtain n' where n': "nodeData (graph (onPointerUp event t)) (pos_id p) = Some n'"
    "node_parentId n' = node_parentId n"
  proof (cases "nodeData (graph (onPointerUp event t)) (pos_id p)")
    case None
    with e assms(2) show ?thesis by simp
  next
    case (Some n')
    with e assms(2) that show ?thesis by simp
  qed
  then show ?thesis using assms(1,3) by (simp add: onDropCombo_def Let_def reparent_def)
qed

text \<open>No handler but the drop handlers changes the parent of a node.\<close>

lemma dragStart_parents:
  "dragStart event et t = Inr t' \<Longrightarrow> parents (graph t') = parents (graph t)"
  by (auto simp add: dragStart_def hideRelated_def drawTransients_def bindE_def Let_def
      split: sum.splits if_splits)

lemma onPointerMove_parents:
  "onPointerMove event t = Inr t' \<Longrightarrow> parents (graph t') = parents (graph t)"
  by (auto simp add: onPointerMove_def bindE_def Let_def
      dest!: dragStart_parents split: option.splits sum.splits if_splits)

lemma onKeydown_parents:
  "onKeydown event t = Inr t' \<Longrightarrow> parents (graph t') = parents (graph t)"
  by (auto simp add: onKeydown_def restoreHiddenItems_def restoreDragged_def bindE_def Let_def
      split: if_splits option.splits)

lemma debounceTimer_parents:
  "debounceTimer t = Inr t' \<Longrightarrow> parents (graph t') = parents (graph t)"
  by (auto simp add: debounceTimer_def onPointerUp_callback_def restoreHiddenItems_def
      restoreDragged_def bindE_def Let_def
      split: if_splits option.splits list.splits)

lemma onPointerDown_graph:
  "onPointerDown event t = Inr t' \<Longrightarrow> graph t' = graph t"
  by (auto simp add: onPointerDown_def split: option.splits if_splits)

lemma getEvents_fixed_structure:
  "\<not> updateComboStructure opts \<Longrightarrow>
   map_of (getEvents opts) name =
     (if name = ''pointerup'' then Some (\<lambda>event this. Inr (onClick event this))
      else if name = ''node:pointerdown'' then Some onPointerDown
      else if name = ''pointermove'' then Some onPointerMove
      else if name = ''click'' then Some (\<lambda>event this. Inr (onClick event this))
      else if name = ''node:pointerup'' then Some (\<lambda>event this. Inr (onPointerUp event this))
      else if name = ''keydown'' then Some onKeydown
      else None)"
  by (simp add: getEvents_def)

lemma dispatch_fixed_structure:
  assumes "\<not> updateComboStructure (options t)" "dispatch name event t = Inr t'"
  shows "parents (graph t') = parents (graph t)"
  using assms(2)
  unfolding dispatch_def getEvents_fixed_structure[OF assms(1)]
  by (auto simp add: onClick_def split: if_splits
      dest: onPointerDown_graph onPointerMove_parents onKeydown_parents)

text \<open>
  C8. With \<open>updateComboStructure\<close> true, a drop on combo \<open>c\<close> is handled by
  \<^verbatim>\<open>onDropCombo\<close>, after which the parent of every dragged node the graph holds is \<open>c\<close>;
  for a single dragged node whose parent differs, the handler is exactly pointer up
  followed by the data update of the parent and the clearing of the snapshot; the
  debounced callback of pointer up keeps the new parent. With \<open>updateComboStructure\<close>
  false, no handler is registered for the three drop events, a drop on a combo leaves the
  behaviour and the graph as they are, and no registered handler changes the parent of
  any node.
\<close>

theorem drop_on_combo_reparents:
  "(updateComboStructure (options this) \<and> itemId event = Some c
      \<and> p \<in> set (originPositions this) \<and> nodeData (graph this) (pos_id p) = Some n \<longrightarrow>
      (\<exists>this'. dispatch ''combo:drop'' event this = Inr this'
         \<and> this' = onDropCombo event this
         \<and> parents (graph this') (pos_id p) = Some (Some c)
         \<and> (originPositions this = [p] \<and> node_parentId n \<noteq> Some c \<longrightarrow>
              this' = clearState ((onPointerUp event this)
                 \<lparr>graph := updateData [(pos_id p, Some c)] (graph (onPointerUp event this))\<rparr>))
         \<and> (\<forall>this''. debounceTimer this' = Inr this'' \<longrightarrow>
                parents (graph this'') (pos_id p) = Some (Some c))))
   \<and> (\<not> updateComboStructure (options this) \<longrightarrow>
        map_of (getEvents (options this)) ''node:drop'' = None
      \<and> map_of (getEvents (options this)) ''combo:drop'' = None
      \<and> map_of (getEvents (options this)) ''canvas:drop'' = None
      \<and> dispatch ''combo:drop'' event this = Inr this
      \<and> (\<forall>name ev this'. dispatch name ev this = Inr this' \<longrightarrow>
             parents (graph this') = parents (graph this)))"
proof (intro conjI impI)
  assume a: "updateComboStructure (options this) \<and> itemId event = Some c
      \<and> p \<in> set (originPositions this) \<and> nodeData (graph this) (pos_id p) = Some n"
  then have d: "dispatch ''combo:drop'' event this = Inr (onDropCombo event this)"
    by (simp add: dispatch_def getEvents_def)
  have par: "parents (graph (onDropCombo event this)) (pos_id p) = Some (Some c)"
    using a by (simp add: onDropCombo_parents) (simp add: parents_def)
  have single: "onDropCombo event this = clearState ((onPointerUp event this)
                 \<lparr>graph := updateData [(pos_id p, Some c)] (graph (onPointerUp event this))\<rparr>)"
    if "originPositions this = [p] \<and> node_parentId n \<noteq> Some c"
    using onDropCombo_single[of this p n event] that a by simp
  have later: "parents (graph this'') (pos_id p) = Some (Some c)"
    if "debounceTimer (onDropCombo event this) = Inr this''" for this''
    using debounceTimer_parents[OF that] par by simp
  show "\<exists>this'. dispatch ''combo:drop'' event this = Inr this'
         \<and> this' = onDropCombo event this
         \<and> parents (graph this') (pos_id p) = Some (Some c)
         \<and> (originPositions this = [p] \<and> node_parentId n \<noteq> Some c \<longrightarrow>
              this' = clearState ((onPointerUp event this)
                 \<lparr>graph := updateData [(pos_id p, Some c)] (graph (onPointerUp event this))\<rparr>))
         \<and> (\<forall>this''. debounceTimer this' = Inr this'' \<longrightarrow>
                parents (graph this'') (pos_id p) = Some (Some c))"
    using d par single later by blast
next
  assume n: "\<not> updateComboStructure (options this)"
  then show "map_of (getEvents (options this)) ''node:drop'' = None"
    "map_of (getEvents (options this)) ''combo:drop'' = None"
    "map_of (getEvents (options this)) ''canvas:drop'' = None"
    "dispatch ''combo:drop'' event this = Inr this"
    by (simp_all add: dispatch_def getEvents_def)
  show "\<forall>name ev this'. dispatch name ev this = Inr this' \<longrightarrow>
             parents (graph this') = parents (graph this)"
    using dispatch_fixed_structure[OF n] by blast
qed

lemma fixed_structure_options_simps:
  "enableTransient fixed_structure_options = False" "enableDelegate fixed_structure_options = False"
  "throttle fixed_structure_options = 0" "hideRelatedEdges fixed_structure_options = False"
  "eventName fixed_structure_options = ''dragend''"
  "updateComboStructure fixed_structure_options = False"
  "selectedState fixed_structure_options = ''selected''"
  "shouldBegin fixed_structure_options = Some (\<lambda>_. True)"
  by (simp_all add: fixed_structure_options_def DragNode_constructor_def Object_assign_def
      DEFAULT_OPTIONS_def)

lemma combo_drag_state:
  "\<exists>t. press_and_move (new_DragNode plain_options combo_graph) = Inr t
     \<and> originPositions t = [\<lparr>pos_id = ''a'', pos_x = 200, pos_y = 100, pos_bbox = None\<rparr>]
     \<and> nodeData (graph t) ''a'' =
         Some \<lparr>node_x = 220, node_y = 90, node_parentId = None,
               node_preventPolylineEdgeOverlap = False\<rparr>
     \<and> options t = plain_options"
  by (simp add: press_and_move_def drag_defs plain_options_simps pointer_def new_DragNode_def
      combo_graph_def example_graph_def)

lemma fixed_drag_state:
  "\<exists>t. press_and_move (new_DragNode fixed_structure_options combo_graph) = Inr t
     \<and> originPositions t = [\<lparr>pos_id = ''a'', pos_x = 200, pos_y = 100, pos_bbox = None\<rparr>]
     \<and> nodeData (graph t) ''a'' =
         Some \<lparr>node_x = 220, node_y = 90, node_parentId = None,
               node_preventPolylineEdgeOverlap = False\<rparr>
     \<and> options t = fixed_structure_options"
  by (simp add: press_and_move_def drag_defs fixed_structure_options_simps pointer_def
      new_DragNode_def combo_graph_def example_graph_def)

theorem drop_on_combo_reparents_witness:
  "(\<exists>t this'. press_and_move (new_DragNode plain_options combo_graph) = Inr t
       \<and> parents (graph t) ''a'' = Some None
       \<and> dispatch ''combo:drop'' (pointer 260 70 (Some ''c1'') 1030) t = Inr this'
       \<and> parents (graph this') ''a'' = Some (Some ''c1''))
   \<and> (\<exists>t. press_and_move (new_DragNode fixed_structure_options combo_graph) = Inr t
       \<and> dispatch ''combo:drop'' (pointer 260 70 (Some ''c1'') 1030) t = Inr t
       \<and> parents (graph t) ''a'' = Some None)"
proof -
  obtain t where t: "press_and_move (new_DragNode plain_options combo_graph) = Inr t"
     "originPositions t = [\<lparr>pos_id = ''a'', pos_x = 200, pos_y = 100, pos_bbox = None\<rparr>]"
     "nodeData (graph t) ''a'' =
         Some \<lparr>node_x = 220, node_y = 90, node_parentId = None,
               node_preventPolylineEdgeOverlap = False\<rparr>"
     "options t = plain_options"
    using combo_drag_state by blast
  obtain u where u: "press_and_move (new_DragNode fixed_structure_options combo_graph) = Inr u"
     "nodeData (graph u) ''a'' =
         Some \<lparr>node_x = 220, node_y = 90, node_parentId = None,
               node_preventPolylineEdgeOverlap = False\<rparr>"
     "options u = fixed_structure_options"
    using fixed_drag_state by blast
  let ?ev = "pointer 260 70 (Some ''c1'') 1030"
  let ?p = "\<lparr>pos_id = ''a'', pos_x = 200, pos_y = 100, pos_bbox = None\<rparr>"
  let ?n = "\<lparr>node_x = 220, node_y = 90, node_parentId = None,
             node_preventPolylineEdgeOverlap = False\<rparr>"
  have pre: "updateComboStructure (options t) \<and> itemId ?ev = Some ''c1''
      \<and> ?p \<in> set (originPositions t) \<and> nodeData (graph t) (pos_id ?p) = Some ?n"
    by (simp add: t plain_options_simps pointer_def)
  from drop_on_combo_reparents[of t ?ev "''c1''" ?p ?n, THEN conjunct1, THEN mp, OF pre]
  obtain this' where "dispatch ''combo:drop'' ?ev t = Inr this'"
    "parents (graph this') (pos_id ?p) = Some (Some ''c1'')"
    by blast
  then have a: "\<exists>this'. dispatch ''combo:drop'' ?ev t = Inr this'
       \<and> parents (graph this') ''a'' = Some (Some ''c1'')"
    by auto
  have npre: "\<not> updateComboStructure (options u)"
    by (simp add: u fixed_structure_options_simps)
  from drop_on_combo_reparents[of u ?ev, THEN conjunct2, THEN mp, OF npre]
  have b: "dispatch ''combo:drop'' ?ev u = Inr u"
    by blast
  show ?thesis
    using t(1,3) u(1,2) a b by (auto simp add: parents_def)
qed


end
